theory Spec2Isabelle
  imports Main "HOL-Library.AList"
begin

section \<open>Strings\<close>

text \<open>
  JavaScript strings are modelled as \<open>string\<close>. The source's messages contain a few
  characters outside ASCII (arrows and dashes); they are transcribed as \<open>->\<close> and \<open>-\<close>.
  No property below depends on the wording of a message.
\<close>

fun startsWith :: "string \<Rightarrow> string \<Rightarrow> bool" where
  "startsWith s [] = True"
| "startsWith [] (p # ps) = False"
| "startsWith (c # cs) (p # ps) = (c = p \<and> startsWith cs ps)"

text \<open>\<open>s.includes(sub)\<close>\<close>

fun str_includes :: "string \<Rightarrow> string \<Rightarrow> bool" where
  "str_includes [] sub = (sub = [])"
| "str_includes (c # cs) sub = (startsWith (c # cs) sub \<or> str_includes cs sub)"

text \<open>\<open>s.replace(pat, rep)\<close> with a string pattern: the first occurrence only.\<close>

fun replace_first :: "string \<Rightarrow> string \<Rightarrow> string \<Rightarrow> string" where
  "replace_first [] pat rep = (if pat = [] then rep else [])"
| "replace_first (c # cs) pat rep =
     (if startsWith (c # cs) pat then rep @ drop (length pat) (c # cs)
      else c # replace_first cs pat rep)"

text \<open>\<open>s.replace(/^[\\/]/, '')\<close>\<close>

fun strip_leading_sep :: "string \<Rightarrow> string" where
  "strip_leading_sep [] = []"
| "strip_leading_sep (c # cs) = (if c = CHR ''/'' \<or> c = CHR 0x5C then cs else c # cs)"

definition toLowerChar :: "char \<Rightarrow> char" where
  "toLowerChar c =
     (if (65::nat) \<le> of_char c \<and> of_char c \<le> (90::nat) then char_of (of_char c + (32::nat)) else c)"

definition toUpperChar :: "char \<Rightarrow> char" where
  "toUpperChar c =
     (if (97::nat) \<le> of_char c \<and> of_char c \<le> (122::nat) then char_of (of_char c - (32::nat)) else c)"

definition toLowerCase :: "string \<Rightarrow> string" where
  "toLowerCase s = map toLowerChar s"

text \<open>\<open>s.charAt(0).toUpperCase() + s.slice(1)\<close>\<close>

fun capitalize :: "string \<Rightarrow> string" where
  "capitalize [] = []"
| "capitalize (c # cs) = toUpperChar c # cs"

text \<open>\<open>xs.join(sep)\<close>\<close>

fun join :: "string \<Rightarrow> string list \<Rightarrow> string" where
  "join sep [] = []"
| "join sep [x] = x"
| "join sep (x # y # ys) = x @ sep @ join sep (y # ys)"

definition digit_char :: "nat \<Rightarrow> char" where
  "digit_char d = char_of (48 + d)"

text \<open>Decimal rendering of a length, as a template string does.\<close>

fun show_nat :: "nat \<Rightarrow> string" where
  "show_nat n = (if n < 10 then [digit_char n] else show_nat (n div 10) @ [digit_char (n mod 10)])"

declare show_nat.simps [simp del]

definition is_digit :: "char \<Rightarrow> bool" where
  "is_digit c = ((48::nat) \<le> of_char c \<and> of_char c \<le> (57::nat))"

definition digit_val :: "char \<Rightarrow> int" where
  "digit_val c = int (of_char c) - 48"

text \<open>\<open>parseInt(ds, 10)\<close> on a non-empty run of decimal digits.\<close>

definition parse_digits :: "string \<Rightarrow> int" where
  "parse_digits ds = foldl (\<lambda>acc c. 10 * acc + digit_val c) 0 ds"

text \<open>\<open>version.match(/(\d+)/)\<close>: the first maximal run of digits, if there is one.\<close>

definition first_digits :: "string \<Rightarrow> string option" where
  "first_digits s =
     (case dropWhile (\<lambda>c. \<not> is_digit c) s of
        [] \<Rightarrow> None
      | r \<Rightarrow> Some (takeWhile is_digit r))"

section \<open>Errors\<close>

text \<open>
  What the code throws: an \<open>Error\<close> with its message (the pipeline's own
  \<open>throw new Error(...)\<close>, and the errors of the syntax-tree library, whose messages
  are the library's), or the \<open>TypeError\<close> of the runtime. \<open>String(err)\<close> prints the
  name of the error before its message.
\<close>

datatype Thrown = Error string | TypeError string

fun String_of_error :: "Thrown \<Rightarrow> string" where
  "String_of_error (Error m) = ''Error: '' @ m"
| "String_of_error (TypeError m) = ''TypeError: '' @ m"

section \<open>Result records (types.ts)\<close>

record Change =
  c_file :: string
  c_description :: string
  c_before :: "string option"
  c_after :: "string option"

record Warning =
  w_file :: string
  w_message :: string
  w_line :: "nat option"

record MigrationError =
  e_file :: string
  e_message :: string

record MigrationResult =
  r_step :: string
  r_changes :: "Change list"
  r_warnings :: "Warning list"
  r_errors :: "MigrationError list"

text \<open>
  The context handed to a step. The logger only prints to the console and is left out.
\<close>

record MigrationContext =
  projectPath :: string
  fromVersion :: int
  toVersion :: int
  dryRun :: bool
  skipPackageJson :: bool

definition mk_change :: "string \<Rightarrow> string \<Rightarrow> Change" where
  "mk_change f d = \<lparr>c_file = f, c_description = d, c_before = None, c_after = None\<rparr>"

definition mk_warning :: "string \<Rightarrow> string \<Rightarrow> Warning" where
  "mk_warning f m = \<lparr>w_file = f, w_message = m, w_line = None\<rparr>"

section \<open>Source trees\<close>

text \<open>
  The rewrite primitives work on the syntax trees of an external library. A tree is
  modelled by the node kinds the primitives tell apart; every other kind of syntax is an
  \<open>OtherNode\<close> with its leading text and its child nodes. The name positions of
  \<open>PropertyAccessExpression\<close>, \<open>PropertyAssignment\<close>,
  \<open>ShorthandPropertyAssignment\<close>, \<open>TypeReference\<close> and \<open>VariableDeclaration\<close> are
  identifier nodes of the library's tree.
\<close>

datatype Node =
    Identifier string
  | StringLiteral string
  | PropertyAccessExpression Node string
  | CallExpression Node "Node list"
  | BinaryExpression Node string Node
  | ObjectLiteralExpression "Node list"
  | PropertyAssignment string Node
  | ShorthandPropertyAssignment string
  | ArrayLiteralExpression "Node list"
  | TypeReference string "Node list"
  | VariableDeclaration string "Node list"
  | OtherNode string "Node list"

text \<open>
  \<open>node.getText()\<close>. A tree carries no white space and no comments: it stands for the
  source text in the one layout printed here (one space after a comma, around a binary
  operator and inside the braces of an object literal), and the files of a project are
  taken to be written in it. The source compares this text with names, searches it for
  substrings and quotes it in two messages.
\<close>

fun getText :: "Node \<Rightarrow> string" where
  "getText (Identifier s) = s"
| "getText (StringLiteral s) = [CHR 0x27] @ s @ [CHR 0x27]"
| "getText (PropertyAccessExpression e n) = getText e @ ''.'' @ n"
| "getText (CallExpression f args) = getText f @ ''('' @ join '', '' (map getText args) @ '')''"
| "getText (BinaryExpression l opr r) = getText l @ '' '' @ opr @ '' '' @ getText r"
| "getText (ObjectLiteralExpression ps) = ''{ '' @ join '', '' (map getText ps) @ '' }''"
| "getText (PropertyAssignment n v) = n @ '': '' @ getText v"
| "getText (ShorthandPropertyAssignment n) = n"
| "getText (ArrayLiteralExpression es) = ''['' @ join '', '' (map getText es) @ '']''"
| "getText (TypeReference n targs) =
     (if targs = [] then n else n @ ''<'' @ join '', '' (map getText targs) @ ''>'')"
| "getText (VariableDeclaration n cs) = join '' = '' (n # map getText cs)"
| "getText (OtherNode t cs) = join '' '' (t # map getText cs)"

text \<open>A node followed by its descendants, in source order (\<open>getDescendants\<close>).\<close>

fun nodes_of :: "Node \<Rightarrow> Node list" where
  "nodes_of (Identifier s) = [Identifier s]"
| "nodes_of (StringLiteral s) = [StringLiteral s]"
| "nodes_of (PropertyAccessExpression e n) =
     PropertyAccessExpression e n # nodes_of e"
| "nodes_of (CallExpression f args) =
     CallExpression f args # nodes_of f @ concat (map nodes_of args)"
| "nodes_of (BinaryExpression l opr r) =
     BinaryExpression l opr r # nodes_of l @ nodes_of r"
| "nodes_of (ObjectLiteralExpression ps) =
     ObjectLiteralExpression ps # concat (map nodes_of ps)"
| "nodes_of (PropertyAssignment n v) = PropertyAssignment n v # nodes_of v"
| "nodes_of (ShorthandPropertyAssignment n) = [ShorthandPropertyAssignment n]"
| "nodes_of (ArrayLiteralExpression es) =
     ArrayLiteralExpression es # concat (map nodes_of es)"
| "nodes_of (TypeReference n targs) = TypeReference n targs # concat (map nodes_of targs)"
| "nodes_of (VariableDeclaration n cs) = VariableDeclaration n cs # concat (map nodes_of cs)"
| "nodes_of (OtherNode t cs) = OtherNode t cs # concat (map nodes_of cs)"

record ImportSpecifier =
  is_name :: string
  is_alias :: "string option"

text \<open>
  \<open>import d, { a, b as c } from 'm'\<close> or \<open>import d, * as ns from 'm'\<close>: a
  declaration with a namespace import has no named imports.
\<close>

record ImportDeclaration =
  moduleSpecifier :: string
  defaultImport :: "string option"
  namespaceImport :: "string option"
  namedImports :: "ImportSpecifier list"

record Decorator =
  dec_name :: string
  dec_args :: "Node list"

record Parameter =
  param_name :: string
  param_type :: "Node option"

record Constructor =
  ctor_params :: "Parameter list"
  ctor_body :: "Node list"

record PropertyDeclaration =
  prop_name :: string
  prop_type :: "Node option"
  prop_init :: "Node option"

text \<open>The members of a class body, in source order.\<close>

datatype ClassMember =
    ConstructorMember Constructor
  | PropertyMember PropertyDeclaration
  | OtherMember Node

record ClassDeclaration =
  cls_name :: "string option"
  cls_decorators :: "Decorator list"
  cls_members :: "ClassMember list"

text \<open>\<open>cls.getConstructors()\<close> and \<open>cls.getProperties()\<close>\<close>

fun ctor_of :: "ClassMember \<Rightarrow> Constructor list" where
  "ctor_of (ConstructorMember k) = [k]"
| "ctor_of m = []"

fun property_of :: "ClassMember \<Rightarrow> PropertyDeclaration list" where
  "property_of (PropertyMember p) = [p]"
| "property_of m = []"

definition cls_ctors :: "ClassDeclaration \<Rightarrow> Constructor list" where
  "cls_ctors c = concat (map ctor_of (cls_members c))"

definition cls_properties :: "ClassDeclaration \<Rightarrow> PropertyDeclaration list" where
  "cls_properties c = concat (map property_of (cls_members c))"

text \<open>
  The statements of a file after its import declarations, in source order: a top-level
  class, or any other statement.
\<close>

datatype Statement =
    ClassStatement ClassDeclaration
  | OtherStatement Node

record SourceFile =
  filePath :: string
  sf_imports :: "ImportDeclaration list"
  sf_statements :: "Statement list"

text \<open>\<open>sf.getClasses()\<close>\<close>

fun class_of :: "Statement \<Rightarrow> ClassDeclaration list" where
  "class_of (ClassStatement c) = [c]"
| "class_of s = []"

definition sf_classes :: "SourceFile \<Rightarrow> ClassDeclaration list" where
  "sf_classes sf = concat (map class_of (sf_statements sf))"

definition opt_nodes :: "Node option \<Rightarrow> Node list" where
  "opt_nodes t = (case t of None \<Rightarrow> [] | Some n \<Rightarrow> nodes_of n)"

definition ctor_nodes :: "Constructor \<Rightarrow> Node list" where
  "ctor_nodes k =
     concat (map (\<lambda>p. opt_nodes (param_type p)) (ctor_params k)) @
     concat (map nodes_of (ctor_body k))"

fun member_nodes :: "ClassMember \<Rightarrow> Node list" where
  "member_nodes (ConstructorMember k) = ctor_nodes k"
| "member_nodes (PropertyMember p) = opt_nodes (prop_type p) @ opt_nodes (prop_init p)"
| "member_nodes (OtherMember n) = nodes_of n"

definition cls_nodes :: "ClassDeclaration \<Rightarrow> Node list" where
  "cls_nodes c =
     concat (map (\<lambda>d. concat (map nodes_of (dec_args d))) (cls_decorators c)) @
     concat (map member_nodes (cls_members c))"

fun statement_nodes :: "Statement \<Rightarrow> Node list" where
  "statement_nodes (ClassStatement c) = cls_nodes c"
| "statement_nodes (OtherStatement n) = nodes_of n"

text \<open>
  Every expression and type node of a file, in source order
  (\<open>sf.getDescendants()\<close>).
\<close>

definition sf_nodes :: "SourceFile \<Rightarrow> Node list" where
  "sf_nodes sf = concat (map statement_nodes (sf_statements sf))"

section \<open>The project on disk\<close>

datatype Json =
    JString string
  | JArray "Json list"
  | JObject "(string \<times> Json) list"
  | JOther string

record PackageJson =
  dependencies :: "(string \<times> string) list option"
  devDependencies :: "(string \<times> string) list option"
  peerDependencies :: "(string \<times> string) list option"

text \<open>
  What a run reads and writes under the project path: \<open>package.json\<close> and
  \<open>angular.json\<close> (absent when \<open>None\<close>), the TypeScript files (each stored as the tree
  it parses to, under its absolute path), and the report document. \<open>tsconfigError\<close> is
  the failure, if any, with which loading the TypeScript project throws.
\<close>

record Disk =
  projectDirExists :: bool
  packageJson :: "PackageJson option"
  angularJson :: "Json option"
  tsconfigError :: "Thrown option"
  tsFiles :: "SourceFile list"
  reportFile :: "string list option"

section \<open>package.json (utils/pkg.ts)\<close>

definition readPackageJson :: "string \<Rightarrow> Disk \<Rightarrow> Thrown + PackageJson" where
  "readPackageJson pp d =
     (case packageJson d of
        None \<Rightarrow> Inl (Error (''package.json not found at '' @ pp @ ''/package.json''))
      | Some pkg \<Rightarrow> Inr pkg)"

definition writePackageJson :: "PackageJson \<Rightarrow> Disk \<Rightarrow> Disk" where
  "writePackageJson pkg d = d\<lparr>packageJson := Some pkg\<rparr>"

text \<open>\<open>{ ...pkg.dependencies, ...pkg.devDependencies }[k]\<close>\<close>

definition spread_lookup :: "PackageJson \<Rightarrow> string \<Rightarrow> string option" where
  "spread_lookup pkg k =
     (case (case devDependencies pkg of None \<Rightarrow> None | Some dv \<Rightarrow> map_of dv k) of
        Some v \<Rightarrow> Some v
      | None \<Rightarrow> (case dependencies pkg of None \<Rightarrow> None | Some ds \<Rightarrow> map_of ds k))"

definition detectAngularVersion :: "string \<Rightarrow> Disk \<Rightarrow> Thrown + int" where
  "detectAngularVersion pp d =
     (case readPackageJson pp d of
        Inl e \<Rightarrow> Inl e
      | Inr pkg \<Rightarrow>
          (case spread_lookup pkg ''@angular/core'' of
             None \<Rightarrow> Inl (Error ''@angular/core not found in dependencies'')
           | Some version \<Rightarrow>
               if version = [] then Inl (Error ''@angular/core not found in dependencies'')
               else (case first_digits version of
                       None \<Rightarrow> Inl (Error (''Cannot parse Angular version from: '' @ version))
                     | Some ds \<Rightarrow> Inr (parse_digits ds))))"

text \<open>The three dependency sections, read and written by name.\<close>

datatype Section = Dependencies | DevDependencies | PeerDependencies

definition sections :: "Section list" where
  "sections = [Dependencies, DevDependencies, PeerDependencies]"

fun section_name :: "Section \<Rightarrow> string" where
  "section_name Dependencies = ''dependencies''"
| "section_name DevDependencies = ''devDependencies''"
| "section_name PeerDependencies = ''peerDependencies''"

fun get_section :: "PackageJson \<Rightarrow> Section \<Rightarrow> (string \<times> string) list option" where
  "get_section pkg Dependencies = dependencies pkg"
| "get_section pkg DevDependencies = devDependencies pkg"
| "get_section pkg PeerDependencies = peerDependencies pkg"

fun set_section :: "PackageJson \<Rightarrow> Section \<Rightarrow> (string \<times> string) list \<Rightarrow> PackageJson" where
  "set_section pkg Dependencies ds = pkg\<lparr>dependencies := Some ds\<rparr>"
| "set_section pkg DevDependencies ds = pkg\<lparr>devDependencies := Some ds\<rparr>"
| "set_section pkg PeerDependencies ds = pkg\<lparr>peerDependencies := Some ds\<rparr>"

text \<open>The inner loop of \<open>updatePackageVersions\<close> over the entries of \<open>updates\<close>.\<close>

fun update_entries ::
  "string \<Rightarrow> (string \<times> string) list \<Rightarrow> (string \<times> string) list
     \<Rightarrow> (string \<times> string) list \<times> Change list" where
  "update_entries sec [] deps = (deps, [])"
| "update_entries sec ((name, newVersion) # us) deps =
     (case map_of deps name of
        None \<Rightarrow> update_entries sec us deps
      | Some oldVersion \<Rightarrow>
          if oldVersion \<noteq> newVersion then
            (let (deps', cs) = update_entries sec us (AList.update name newVersion deps)
             in (deps',
                 \<lparr>c_file = ''package.json'',
                  c_description = sec @ '': '' @ name @ '' '' @ oldVersion @ '' -> '' @ newVersion,
                  c_before = Some oldVersion, c_after = Some newVersion\<rparr> # cs))
          else update_entries sec us deps)"

text \<open>The outer loop over the sections, skipping a section the manifest lacks.\<close>

fun update_sections ::
  "(string \<times> string) list \<Rightarrow> Section list \<Rightarrow> PackageJson \<Rightarrow> PackageJson \<times> Change list" where
  "update_sections updates [] pkg = (pkg, [])"
| "update_sections updates (sec # secs) pkg =
     (case get_section pkg sec of
        None \<Rightarrow> update_sections updates secs pkg
      | Some deps \<Rightarrow>
          (let (deps', cs) = update_entries (section_name sec) updates deps;
               (pkg', cs') = update_sections updates secs (set_section pkg sec deps')
           in (pkg', cs @ cs')))"

definition updatePackageVersions ::
  "MigrationContext \<Rightarrow> (string \<times> string) list \<Rightarrow> Disk \<Rightarrow> (Thrown + Change list) \<times> Disk" where
  "updatePackageVersions ctx updates d =
     (if skipPackageJson ctx then (Inr [], d)
      else case readPackageJson (projectPath ctx) d of
          Inl e \<Rightarrow> (Inl e, d)
        | Inr pkg \<Rightarrow>
            (let (pkg', cs) = update_sections updates sections pkg
             in (Inr cs, if cs \<noteq> [] \<and> \<not> dryRun ctx then writePackageJson pkg' d else d)))"

fun replace_sections ::
  "string \<Rightarrow> string \<Rightarrow> string \<Rightarrow> Section list \<Rightarrow> PackageJson \<Rightarrow> PackageJson \<times> Change list" where
  "replace_sections oldName newName newVersion [] pkg = (pkg, [])"
| "replace_sections oldName newName newVersion (sec # secs) pkg =
     (case get_section pkg sec of
        None \<Rightarrow> replace_sections oldName newName newVersion secs pkg
      | Some deps \<Rightarrow>
          (case map_of deps oldName of
             None \<Rightarrow> replace_sections oldName newName newVersion secs pkg
           | Some oldVersion \<Rightarrow>
               (let deps' = AList.update newName newVersion (AList.delete oldName deps);
                    (pkg', cs) =
                      replace_sections oldName newName newVersion secs (set_section pkg sec deps')
                in (pkg',
                    mk_change ''package.json''
                      (section_name sec @ '': replaced '' @ oldName @ '' ('' @ oldVersion @
                       '') with '' @ newName @ '' ('' @ newVersion @ '')'') # cs))))"

definition replacePackageDependency ::
  "MigrationContext \<Rightarrow> string \<Rightarrow> string \<Rightarrow> string \<Rightarrow> Disk \<Rightarrow> (Thrown + Change list) \<times> Disk" where
  "replacePackageDependency ctx oldName newName newVersion d =
     (if skipPackageJson ctx then (Inr [], d)
      else case readPackageJson (projectPath ctx) d of
          Inl e \<Rightarrow> (Inl e, d)
        | Inr pkg \<Rightarrow>
            (let (pkg', cs) = replace_sections oldName newName newVersion sections pkg
             in (Inr cs, if cs \<noteq> [] \<and> \<not> dryRun ctx then writePackageJson pkg' d else d)))"

section \<open>angular.json (utils/angular-json.ts)\<close>

text \<open>
  Property access on a parsed document. A value that is not an object has none of the
  properties the source asks for; failures of the source on \<open>null\<close> entries of an
  ill-formed \<open>angular.json\<close> are not represented.
\<close>

fun jget :: "Json \<Rightarrow> string \<Rightarrow> Json option" where
  "jget (JObject kvs) k = map_of kvs k"
| "jget j k = None"

fun jset :: "Json \<Rightarrow> string \<Rightarrow> Json \<Rightarrow> Json" where
  "jset (JObject kvs) k v = JObject (AList.update k v kvs)"
| "jset j k v = j"

fun jdelete :: "Json \<Rightarrow> string \<Rightarrow> Json" where
  "jdelete (JObject kvs) k = JObject (AList.delete k kvs)"
| "jdelete j k = j"

fun entries :: "Json \<Rightarrow> (string \<times> Json) list" where
  "entries (JObject kvs) = kvs"
| "entries j = []"

definition browser_builder :: string where
  "browser_builder = ''@angular-devkit/build-angular:browser''"

definition esbuild_builder :: string where
  "esbuild_builder = ''@angular-devkit/build-angular:browser-esbuild''"

definition application_builder :: string where
  "application_builder = ''@angular-devkit/build-angular:application''"

definition rename_main :: "string \<Rightarrow> Json \<Rightarrow> Json \<times> Change list" where
  "rename_main projectName options =
     (case jget options ''main'' of
        None \<Rightarrow> (options, [])
      | Some m \<Rightarrow>
          (jdelete (jset options ''browser'' m) ''main'',
           [mk_change ''angular.json''
              (''['' @ projectName @ ''] options: \"main\" renamed to \"browser\"'')]))"

definition wrap_polyfills :: "string \<Rightarrow> Json \<Rightarrow> Json \<times> Change list" where
  "wrap_polyfills projectName options =
     (case jget options ''polyfills'' of
        Some (JString p) \<Rightarrow>
          (jset options ''polyfills'' (JArray [JString p]),
           [mk_change ''angular.json''
              (''['' @ projectName @ ''] options.polyfills converted from string to array'')])
      | _ \<Rightarrow> (options, []))"

definition migrate_target :: "string \<Rightarrow> Json \<Rightarrow> Json \<times> Change list" where
  "migrate_target projectName target =
     (if jget target ''builder'' = Some (JString browser_builder) then
        (let t1 = jset target ''builder'' (JString application_builder);
             c1 = \<lparr>c_file = ''angular.json'',
                   c_description = ''['' @ projectName @ ''] builder: browser -> application'',
                   c_before = Some browser_builder, c_after = Some application_builder\<rparr>
         in case jget t1 ''options'' of
              None \<Rightarrow> (t1, [c1])
            | Some options \<Rightarrow>
                (let (o1, cs1) = rename_main projectName options;
                     (o2, cs2) = wrap_polyfills projectName o1
                 in (jset t1 ''options'' o2, c1 # cs1 @ cs2)))
      else if jget target ''builder'' = Some (JString esbuild_builder) then
        (jset target ''builder'' (JString application_builder),
         [\<lparr>c_file = ''angular.json'',
           c_description = ''['' @ projectName @ ''] builder: browser-esbuild -> application'',
           c_before = Some esbuild_builder, c_after = Some application_builder\<rparr>])
      else (target, []))"

text \<open>The loop over the targets of one project: only the target named \<open>build\<close>.\<close>

fun migrate_targets :: "string \<Rightarrow> (string \<times> Json) list \<Rightarrow> (string \<times> Json) list \<times> Change list" where
  "migrate_targets projectName [] = ([], [])"
| "migrate_targets projectName ((targetName, target) # ts) =
     (let (ts', cs') = migrate_targets projectName ts
      in if targetName \<noteq> ''build'' then ((targetName, target) # ts', cs')
         else (let (t', cs) = migrate_target projectName target
               in ((targetName, t') # ts', cs @ cs')))"

fun migrate_projects :: "(string \<times> Json) list \<Rightarrow> (string \<times> Json) list \<times> Change list" where
  "migrate_projects [] = ([], [])"
| "migrate_projects ((projectName, project) # ps) =
     (let (ps', cs') = migrate_projects ps
      in case jget project ''architect'' of
           Some (JObject targets) \<Rightarrow>
             (let (ts', cs) = migrate_targets projectName targets
              in ((projectName, jset project ''architect'' (JObject ts')) # ps', cs @ cs'))
         | _ \<Rightarrow> ((projectName, project) # ps', cs'))"

definition migrateBrowserBuilderToApplication :: "MigrationContext \<Rightarrow> Disk \<Rightarrow> Change list \<times> Disk" where
  "migrateBrowserBuilderToApplication ctx d =
     (case angularJson d of
        None \<Rightarrow> ([], d)
      | Some config \<Rightarrow>
          (case jget config ''projects'' of
             Some (JObject projects) \<Rightarrow>
               (let (ps', cs) = migrate_projects projects
                in (cs, if cs \<noteq> [] \<and> \<not> dryRun ctx
                        then d\<lparr>angularJson := Some (jset config ''projects'' (JObject ps'))\<rparr>
                        else d))
           | _ \<Rightarrow> ([], d)))"

definition removeDefaultProject :: "MigrationContext \<Rightarrow> Disk \<Rightarrow> Change list \<times> Disk" where
  "removeDefaultProject ctx d =
     (case angularJson d of
        None \<Rightarrow> ([], d)
      | Some config \<Rightarrow>
          (case jget config ''defaultProject'' of
             None \<Rightarrow> ([], d)
           | Some v \<Rightarrow>
               ([mk_change ''angular.json'' ''Removed deprecated \"defaultProject\" field''],
                if \<not> dryRun ctx then d\<lparr>angularJson := Some (jdelete config ''defaultProject'')\<rparr>
                else d)))"

section \<open>Loading and saving source files (utils/codemods.ts)\<close>

text \<open>
  \<open>createTsProject\<close> parses every TypeScript file of the project anew; the files under
  \<open>node_modules\<close> and \<open>dist\<close> that it may add are dropped again by
  \<open>getSourceFiles\<close>.
\<close>

definition createTsProject :: "string \<Rightarrow> Disk \<Rightarrow> Thrown + SourceFile list" where
  "createTsProject pp d =
     (case tsconfigError d of Some e \<Rightarrow> Inl e | None \<Rightarrow> Inr (tsFiles d))"

definition getSourceFiles :: "SourceFile list \<Rightarrow> SourceFile list" where
  "getSourceFiles project =
     filter (\<lambda>sf. \<not> str_includes (filePath sf) ''node_modules'' \<and>
                  \<not> str_includes (filePath sf) ''/dist/'') project"

fun save_file :: "SourceFile \<Rightarrow> SourceFile list \<Rightarrow> SourceFile list" where
  "save_file sf [] = [sf]"
| "save_file sf (f # fs) = (if filePath f = filePath sf then sf # fs else f # save_file sf fs)"

text \<open>\<open>sf.saveSync()\<close>: the tree in memory replaces the file on disk.\<close>

definition saveSync :: "SourceFile \<Rightarrow> Disk \<Rightarrow> Disk" where
  "saveSync sf d = d\<lparr>tsFiles := save_file sf (tsFiles d)\<rparr>"

text \<open>
  The loop \<open>for (const sf of sourceFiles)\<close> shared by the primitives: \<open>f\<close> edits one
  tree in memory and returns it with the changes and warnings it pushes and with
  \<open>fileChanged\<close>; the file is saved when it changed and the run is not a dry run. The
  edited trees stay in memory for the later primitives of the same step. When \<open>f\<close>
  throws on a file the loop ends there: the primitive returns nothing, the file is not
  saved, and the files saved before it stay saved.
\<close>

type_synonym FileEdit = "SourceFile \<times> Change list \<times> Warning list \<times> bool"

fun for_files ::
  "(SourceFile \<Rightarrow> Thrown + FileEdit) \<Rightarrow> MigrationContext \<Rightarrow> SourceFile list \<Rightarrow> Disk
     \<Rightarrow> (Thrown + (Change list \<times> Warning list) \<times> SourceFile list) \<times> Disk" where
  "for_files f ctx [] d = (Inr (([], []), []), d)"
| "for_files f ctx (sf # sfs) d =
     (case f sf of
        Inl e \<Rightarrow> (Inl e, d)
      | Inr (sf', cs, ws, fileChanged) \<Rightarrow>
          (case for_files f ctx sfs (if fileChanged \<and> \<not> dryRun ctx then saveSync sf' d else d) of
             (Inl e, d2) \<Rightarrow> (Inl e, d2)
           | (Inr ((cs', ws'), sfs'), d2) \<Rightarrow> (Inr ((cs @ cs', ws @ ws'), sf' # sfs'), d2)))"

text \<open>A primitive that returns its changes only.\<close>

definition changes_only ::
  "(Thrown + (Change list \<times> Warning list) \<times> SourceFile list) \<times> Disk
     \<Rightarrow> (Thrown + Change list \<times> SourceFile list) \<times> Disk" where
  "changes_only r =
     (case r of
        (Inl e, d) \<Rightarrow> (Inl e, d)
      | (Inr ((cs, ws), sfs), d) \<Rightarrow> (Inr (cs, sfs), d))"

section \<open>Import transformations\<close>

definition rename_str :: "string \<Rightarrow> string \<Rightarrow> string \<Rightarrow> string" where
  "rename_str old new s = (if s = old then new else s)"

text \<open>
  \<open>id.replaceWithText(newName)\<close> on every identifier of a tree whose text is the old
  name.
\<close>

fun rename_node :: "string \<Rightarrow> string \<Rightarrow> Node \<Rightarrow> Node" where
  "rename_node old new (Identifier s) = Identifier (rename_str old new s)"
| "rename_node old new (StringLiteral s) = StringLiteral s"
| "rename_node old new (PropertyAccessExpression e n) =
     PropertyAccessExpression (rename_node old new e) (rename_str old new n)"
| "rename_node old new (CallExpression f args) =
     CallExpression (rename_node old new f) (map (rename_node old new) args)"
| "rename_node old new (BinaryExpression l opr r) =
     BinaryExpression (rename_node old new l) opr (rename_node old new r)"
| "rename_node old new (ObjectLiteralExpression ps) =
     ObjectLiteralExpression (map (rename_node old new) ps)"
| "rename_node old new (PropertyAssignment n v) =
     PropertyAssignment (rename_str old new n) (rename_node old new v)"
| "rename_node old new (ShorthandPropertyAssignment n) =
     ShorthandPropertyAssignment (rename_str old new n)"
| "rename_node old new (ArrayLiteralExpression es) =
     ArrayLiteralExpression (map (rename_node old new) es)"
| "rename_node old new (TypeReference n targs) =
     TypeReference (rename_str old new n) (map (rename_node old new) targs)"
| "rename_node old new (VariableDeclaration n cs) =
     VariableDeclaration (rename_str old new n) (map (rename_node old new) cs)"
| "rename_node old new (OtherNode t cs) = OtherNode t (map (rename_node old new) cs)"

definition rename_decorator :: "string \<Rightarrow> string \<Rightarrow> Decorator \<Rightarrow> Decorator" where
  "rename_decorator old new dc =
     \<lparr>dec_name = rename_str old new (dec_name dc),
      dec_args = map (rename_node old new) (dec_args dc)\<rparr>"

definition rename_parameter :: "string \<Rightarrow> string \<Rightarrow> Parameter \<Rightarrow> Parameter" where
  "rename_parameter old new p =
     \<lparr>param_name = rename_str old new (param_name p),
      param_type = map_option (rename_node old new) (param_type p)\<rparr>"

definition rename_ctor :: "string \<Rightarrow> string \<Rightarrow> Constructor \<Rightarrow> Constructor" where
  "rename_ctor old new k =
     \<lparr>ctor_params = map (rename_parameter old new) (ctor_params k),
      ctor_body = map (rename_node old new) (ctor_body k)\<rparr>"

definition rename_property :: "string \<Rightarrow> string \<Rightarrow> PropertyDeclaration \<Rightarrow> PropertyDeclaration" where
  "rename_property old new p =
     \<lparr>prop_name = rename_str old new (prop_name p),
      prop_type = map_option (rename_node old new) (prop_type p),
      prop_init = map_option (rename_node old new) (prop_init p)\<rparr>"

fun rename_member :: "string \<Rightarrow> string \<Rightarrow> ClassMember \<Rightarrow> ClassMember" where
  "rename_member old new (ConstructorMember k) = ConstructorMember (rename_ctor old new k)"
| "rename_member old new (PropertyMember p) = PropertyMember (rename_property old new p)"
| "rename_member old new (OtherMember n) = OtherMember (rename_node old new n)"

definition rename_class :: "string \<Rightarrow> string \<Rightarrow> ClassDeclaration \<Rightarrow> ClassDeclaration" where
  "rename_class old new c =
     \<lparr>cls_name = map_option (rename_str old new) (cls_name c),
      cls_decorators = map (rename_decorator old new) (cls_decorators c),
      cls_members = map (rename_member old new) (cls_members c)\<rparr>"

fun rename_statement :: "string \<Rightarrow> string \<Rightarrow> Statement \<Rightarrow> Statement" where
  "rename_statement old new (ClassStatement c) = ClassStatement (rename_class old new c)"
| "rename_statement old new (OtherStatement n) = OtherStatement (rename_node old new n)"

text \<open>
  The identifiers of a file whose parent is not an import specifier: the names of the
  default and namespace imports, and every identifier of the classes and of the other
  statements.
\<close>

definition rename_usages :: "string \<Rightarrow> string \<Rightarrow> SourceFile \<Rightarrow> SourceFile" where
  "rename_usages old new sf =
     sf\<lparr>sf_imports :=
          map (\<lambda>imp. imp\<lparr>defaultImport := map_option (rename_str old new) (defaultImport imp),
                         namespaceImport := map_option (rename_str old new) (namespaceImport imp)\<rparr>)
            (sf_imports sf),
        sf_statements := map (rename_statement old new) (sf_statements sf)\<rparr>"

text \<open>\<open>ni.setName(newName)\<close> on the specifiers named \<open>oldName\<close> of one declaration.\<close>

definition rename_specifiers :: "string \<Rightarrow> string \<Rightarrow> ImportDeclaration \<Rightarrow> ImportDeclaration" where
  "rename_specifiers old new imp =
     imp\<lparr>namedImports :=
           map (\<lambda>ni. if is_name ni = old then ni\<lparr>is_name := new\<rparr> else ni) (namedImports imp)\<rparr>"

definition imports_name_from :: "string \<Rightarrow> string \<Rightarrow> ImportDeclaration \<Rightarrow> bool" where
  "imports_name_from moduleName symbolName imp =
     (moduleSpecifier imp = moduleName \<and> (\<exists>ni \<in> set (namedImports imp). is_name ni = symbolName))"

definition renameNamedImport_file ::
  "string \<Rightarrow> string \<Rightarrow> string \<Rightarrow> SourceFile \<Rightarrow> SourceFile \<times> Change list \<times> Warning list \<times> bool" where
  "renameNamedImport_file moduleName oldName newName sf =
     (let fileChanged = (\<exists>imp \<in> set (sf_imports sf). imports_name_from moduleName oldName imp);
          sf1 = sf\<lparr>sf_imports :=
                    map (\<lambda>imp. if moduleSpecifier imp = moduleName
                                then rename_specifiers oldName newName imp else imp)
                      (sf_imports sf)\<rparr>
      in if fileChanged then
           (rename_usages oldName newName sf1,
            [mk_change (filePath sf)
               (oldName @ '' -> '' @ newName @ '' (import from '' @ [CHR 0x27] @ moduleName @
                [CHR 0x27] @ '')'')],
            [], True)
         else (sf1, [], [], False))"

definition renameNamedImport ::
  "SourceFile list \<Rightarrow> string \<Rightarrow> string \<Rightarrow> string \<Rightarrow> MigrationContext \<Rightarrow> Disk
     \<Rightarrow> (Thrown + Change list \<times> SourceFile list) \<times> Disk" where
  "renameNamedImport sourceFiles moduleName oldName newName ctx d =
     changes_only
       (for_files (\<lambda>sf. Inr (renameNamedImport_file moduleName oldName newName sf)) ctx sourceFiles d)"

text \<open>\<open>namedImports.find(ni => ni.getName() === symbolName)?.remove()\<close>\<close>

fun remove_specifier :: "string \<Rightarrow> ImportSpecifier list \<Rightarrow> ImportSpecifier list" where
  "remove_specifier symbolName [] = []"
| "remove_specifier symbolName (ni # nis) =
     (if is_name ni = symbolName then nis else ni # remove_specifier symbolName nis)"

text \<open>
  The removal shared by \<open>moveImport\<close> and \<open>removeObsoleteImport\<close>, applied to the
  first declaration that imports the symbol from the module: the whole declaration goes
  when it has one named import, else the first specifier of that name.
\<close>

fun remove_binding :: "string \<Rightarrow> string \<Rightarrow> ImportDeclaration list \<Rightarrow> ImportDeclaration list" where
  "remove_binding moduleName symbolName [] = []"
| "remove_binding moduleName symbolName (imp # imps) =
     (if imports_name_from moduleName symbolName imp then
        (if length (namedImports imp) = 1 then imps
         else imp\<lparr>namedImports := remove_specifier symbolName (namedImports imp)\<rparr> # imps)
      else imp # remove_binding moduleName symbolName imps)"

text \<open>
  \<open>existingNewImport.addNamedImport(symbolName)\<close> on the first declaration of the
  target module, or \<open>sf.addImportDeclaration\<close> when there is none. The library refuses
  to add a named import to a declaration that has a namespace import, and throws.
\<close>

definition namespace_import_error :: Thrown where
  "namespace_import_error =
     Error ''Cannot add a named import to an import declaration that has a namespace import.''"

fun add_binding :: "string \<Rightarrow> string \<Rightarrow> ImportDeclaration list \<Rightarrow> Thrown + ImportDeclaration list" where
  "add_binding toModule symbolName [] =
     Inr [\<lparr>moduleSpecifier = toModule, defaultImport = None, namespaceImport = None,
           namedImports = [\<lparr>is_name = symbolName, is_alias = None\<rparr>]\<rparr>]"
| "add_binding toModule symbolName (imp # imps) =
     (if moduleSpecifier imp = toModule then
        (if namespaceImport imp \<noteq> None then Inl namespace_import_error
         else Inr (imp\<lparr>namedImports :=
                          namedImports imp @ [\<lparr>is_name = symbolName, is_alias = None\<rparr>]\<rparr> # imps))
      else (case add_binding toModule symbolName imps of
              Inl e \<Rightarrow> Inl e
            | Inr imps' \<Rightarrow> Inr (imp # imps')))"

definition quoted :: "string \<Rightarrow> string" where
  "quoted s = [CHR 0x27] @ s @ [CHR 0x27]"

definition moveImport_file :: "string \<Rightarrow> string \<Rightarrow> string \<Rightarrow> SourceFile \<Rightarrow> Thrown + FileEdit" where
  "moveImport_file symbolName fromModule toModule sf =
     (if \<not> (\<exists>imp \<in> set (sf_imports sf). imports_name_from fromModule symbolName imp)
      then Inr (sf, [], [], False)
      else
        (case add_binding toModule symbolName
                (remove_binding fromModule symbolName (sf_imports sf)) of
           Inl e \<Rightarrow> Inl e
         | Inr imps \<Rightarrow>
             Inr (sf\<lparr>sf_imports := imps\<rparr>,
                  [mk_change (filePath sf)
                     (symbolName @ '': '' @ quoted fromModule @ '' -> '' @ quoted toModule)],
                  [], True)))"

definition moveImport ::
  "SourceFile list \<Rightarrow> string \<Rightarrow> string \<Rightarrow> string \<Rightarrow> MigrationContext \<Rightarrow> Disk
     \<Rightarrow> (Thrown + Change list \<times> SourceFile list) \<times> Disk" where
  "moveImport sourceFiles symbolName fromModule toModule ctx d =
     changes_only
       (for_files (moveImport_file symbolName fromModule toModule) ctx sourceFiles d)"

definition removeObsoleteImport_file ::
  "string \<Rightarrow> string \<Rightarrow> SourceFile \<Rightarrow> SourceFile \<times> Change list \<times> Warning list \<times> bool" where
  "removeObsoleteImport_file moduleName symbolName sf =
     (if \<not> (\<exists>imp \<in> set (sf_imports sf). imports_name_from moduleName symbolName imp)
      then (sf, [], [], False)
      else
        (sf\<lparr>sf_imports := remove_binding moduleName symbolName (sf_imports sf)\<rparr>,
         [mk_change (filePath sf)
            (''Removed obsolete import '' @ quoted symbolName @ '' from '' @ quoted moduleName)],
         [mk_warning (filePath sf)
            (quoted symbolName @ '' was removed from '' @ quoted moduleName @
             ''. Check usages manually.'')],
         True))"

definition removeObsoleteImport ::
  "SourceFile list \<Rightarrow> string \<Rightarrow> string \<Rightarrow> MigrationContext \<Rightarrow> Disk
     \<Rightarrow> (Thrown + (Change list \<times> Warning list) \<times> SourceFile list) \<times> Disk" where
  "removeObsoleteImport sourceFiles moduleName symbolName ctx d =
     for_files (\<lambda>sf. Inr (removeObsoleteImport_file moduleName symbolName sf)) ctx sourceFiles d"

section \<open>Symbols in decorator arrays\<close>

text \<open>
  \<open>arg.getProperty(arrayProp)\<close>: the first property of that name. Of the properties of
  an object literal, the assignments and the shorthand assignments are the ones whose
  name the model knows.
\<close>

fun property_named :: "string \<Rightarrow> Node \<Rightarrow> bool" where
  "property_named nm (PropertyAssignment n v) = (n = nm)"
| "property_named nm (ShorthandPropertyAssignment n) = (n = nm)"
| "property_named nm nd = False"

definition getProperty :: "string \<Rightarrow> Node list \<Rightarrow> Node option" where
  "getProperty nm ps = find (property_named nm) ps"

text \<open>
  Whether the loop \<open>elements.forEach\<close> meets the symbol in the array of one property:
  the property is a property assignment, its initializer is an array literal, and an
  element is the plain identifier.
\<close>

definition array_has :: "string \<Rightarrow> string \<Rightarrow> Node list \<Rightarrow> bool" where
  "array_has arrayProp symbolName ps =
     (case getProperty arrayProp ps of
        Some (PropertyAssignment n (ArrayLiteralExpression els)) \<Rightarrow> Identifier symbolName \<in> set els
      | _ \<Rightarrow> False)"

definition array_props :: "string list" where
  "array_props = [''imports'', ''declarations'', ''exports'']"

definition decorator_has :: "string \<Rightarrow> Decorator \<Rightarrow> bool" where
  "decorator_has symbolName dc =
     ((dec_name dc = ''NgModule'' \<or> dec_name dc = ''Component'') \<and>
      (case dec_args dc of
         ObjectLiteralExpression ps # rest \<Rightarrow>
           (\<exists>arrayProp \<in> set array_props. array_has arrayProp symbolName ps)
       | _ \<Rightarrow> False))"

text \<open>
  At the first element that matches, the source calls \<open>el.remove()\<close>. An identifier
  node of the library has no method of that name, so the call throws a
  \<open>TypeError\<close> before \<open>fileChanged\<close> is set and before the change is pushed: the
  primitive either finds no such element in any file, or throws.
\<close>

definition remove_not_a_function :: Thrown where
  "remove_not_a_function = TypeError ''el.remove is not a function''"

definition removeFromNgModuleArrays_file :: "string \<Rightarrow> SourceFile \<Rightarrow> Thrown + FileEdit" where
  "removeFromNgModuleArrays_file symbolName sf =
     (if \<exists>c \<in> set (sf_classes sf). \<exists>dc \<in> set (cls_decorators c). decorator_has symbolName dc
      then Inl remove_not_a_function
      else Inr (sf, [], [], False))"

definition removeFromNgModuleArrays ::
  "SourceFile list \<Rightarrow> string \<Rightarrow> MigrationContext \<Rightarrow> Disk
     \<Rightarrow> (Thrown + Change list \<times> SourceFile list) \<times> Disk" where
  "removeFromNgModuleArrays sourceFiles symbolName ctx d =
     changes_only (for_files (removeFromNgModuleArrays_file symbolName) ctx sourceFiles d)"

text \<open>A per-element edit that pushes changes, run over a list in order.\<close>

fun map_changes :: "('a \<Rightarrow> 'a \<times> 'c list) \<Rightarrow> 'a list \<Rightarrow> 'a list \<times> 'c list" where
  "map_changes f [] = ([], [])"
| "map_changes f (x # xs) =
     (let (x', cs) = f x; (xs', cs') = map_changes f xs in (x' # xs', cs @ cs'))"

text \<open>The same edit of the classes among the statements of a file.\<close>

fun on_class :: "(ClassDeclaration \<Rightarrow> ClassDeclaration \<times> 'c list) \<Rightarrow> Statement \<Rightarrow> Statement \<times> 'c list" where
  "on_class f (ClassStatement c) = (let (c', cs) = f c in (ClassStatement c', cs))"
| "on_class f (OtherStatement n) = (OtherStatement n, [])"

section \<open>Call expressions\<close>

text \<open>\<open>Node.isPropertyAccessExpression(expr) && expr.getName() === m\<close>\<close>

fun is_method :: "string \<Rightarrow> Node \<Rightarrow> bool" where
  "is_method m (PropertyAccessExpression e n) = (n = m)"
| "is_method m nd = False"

text \<open>A call \<open>y.resolveComponentFactory(X)\<close> with exactly one argument gives \<open>X\<close>.\<close>

fun factory_arg :: "Node \<Rightarrow> Node option" where
  "factory_arg (CallExpression f [x]) =
     (if is_method ''resolveComponentFactory'' f then Some x else None)"
| "factory_arg nd = None"

text \<open>
  The shape the source rewrites: a call of \<open>createComponent\<close> whose first argument is
  such a call.
\<close>

fun inlinable :: "Node \<Rightarrow> bool" where
  "inlinable (CallExpression f (a # rest)) =
     (is_method ''createComponent'' f \<and> factory_arg a \<noteq> None)"
| "inlinable nd = False"

text \<open>
  \<open>node.replaceWithText(...)\<close> removes the node and its descendants from the tree of
  the library. The loops \<open>getDescendantsOfKind(SyntaxKind.CallExpression).forEach\<close>
  run over the calls collected before the first replacement, in source order, so a call
  below a replaced node is still reached; asking it for its expression makes the library
  throw (the message ends with the text of the removed node, which is left out here).
\<close>

definition forgotten_node_error :: Thrown where
  "forgotten_node_error =
     Error ''Attempted to get information from a node that was removed or forgotten.''"

fun is_call :: "Node \<Rightarrow> bool" where
  "is_call (CallExpression f args) = True"
| "is_call nd = False"

definition has_inner_call :: "Node \<Rightarrow> bool" where
  "has_inner_call n = (\<exists>m \<in> set (tl (nodes_of n)). is_call m)"

text \<open>\<open>BrowserModule.withServerTransition(...)\<close>\<close>

fun is_server_transition :: "Node \<Rightarrow> bool" where
  "is_server_transition (CallExpression (PropertyAccessExpression obj n) args) =
     (n = ''withServerTransition'' \<and> getText obj = ''BrowserModule'')"
| "is_server_transition nd = False"

fun strip_calls :: "Node \<Rightarrow> Node" where
  "strip_calls (Identifier s) = Identifier s"
| "strip_calls (StringLiteral s) = StringLiteral s"
| "strip_calls (PropertyAccessExpression e n) = PropertyAccessExpression (strip_calls e) n"
| "strip_calls (CallExpression f args) =
     (if is_server_transition (CallExpression f args) then Identifier ''BrowserModule''
      else CallExpression (strip_calls f) (map strip_calls args))"
| "strip_calls (BinaryExpression l opr r) = BinaryExpression (strip_calls l) opr (strip_calls r)"
| "strip_calls (ObjectLiteralExpression ps) = ObjectLiteralExpression (map strip_calls ps)"
| "strip_calls (PropertyAssignment n v) = PropertyAssignment n (strip_calls v)"
| "strip_calls (ShorthandPropertyAssignment n) = ShorthandPropertyAssignment n"
| "strip_calls (ArrayLiteralExpression es) = ArrayLiteralExpression (map strip_calls es)"
| "strip_calls (TypeReference n targs) = TypeReference n (map strip_calls targs)"
| "strip_calls (VariableDeclaration n cs) = VariableDeclaration n (map strip_calls cs)"
| "strip_calls (OtherNode t cs) = OtherNode t (map strip_calls cs)"

text \<open>An edit applied to every expression and type tree of a class and of a file.\<close>

fun map_member :: "(Node \<Rightarrow> Node) \<Rightarrow> ClassMember \<Rightarrow> ClassMember" where
  "map_member g (ConstructorMember k) =
     ConstructorMember
       \<lparr>ctor_params = map (\<lambda>p. p\<lparr>param_type := map_option g (param_type p)\<rparr>) (ctor_params k),
        ctor_body = map g (ctor_body k)\<rparr>"
| "map_member g (PropertyMember p) =
     PropertyMember (p\<lparr>prop_type := map_option g (prop_type p),
                        prop_init := map_option g (prop_init p)\<rparr>)"
| "map_member g (OtherMember n) = OtherMember (g n)"

definition map_class :: "(Node \<Rightarrow> Node) \<Rightarrow> ClassDeclaration \<Rightarrow> ClassDeclaration" where
  "map_class g c =
     c\<lparr>cls_decorators := map (\<lambda>dc. dc\<lparr>dec_args := map g (dec_args dc)\<rparr>) (cls_decorators c),
       cls_members := map (map_member g) (cls_members c)\<rparr>"

fun map_statement :: "(Node \<Rightarrow> Node) \<Rightarrow> Statement \<Rightarrow> Statement" where
  "map_statement g (ClassStatement c) = ClassStatement (map_class g c)"
| "map_statement g (OtherStatement n) = OtherStatement (g n)"

definition map_sf :: "(Node \<Rightarrow> Node) \<Rightarrow> SourceFile \<Rightarrow> SourceFile" where
  "map_sf g sf = sf\<lparr>sf_statements := map (map_statement g) (sf_statements sf)\<rparr>"

section \<open>ComponentFactoryResolver\<close>

definition is_resolver_type :: "Node option \<Rightarrow> bool" where
  "is_resolver_type t =
     (case t of None \<Rightarrow> False | Some n \<Rightarrow> getText n = ''ComponentFactoryResolver'')"

definition class_label :: "string \<Rightarrow> ClassDeclaration \<Rightarrow> string" where
  "class_label dflt c = (case cls_name c of None \<Rightarrow> dflt | Some n \<Rightarrow> n)"

text \<open>Steps 1 and 2 on one class: the typed constructor parameters and fields go.\<close>

fun without_resolver :: "ClassMember \<Rightarrow> ClassMember list" where
  "without_resolver (ConstructorMember k) =
     [ConstructorMember
        (k\<lparr>ctor_params := filter (\<lambda>p. \<not> is_resolver_type (param_type p)) (ctor_params k)\<rparr>)]"
| "without_resolver (PropertyMember p) =
     (if is_resolver_type (prop_type p) then [] else [PropertyMember p])"
| "without_resolver (OtherMember n) = [OtherMember n]"

definition remove_resolver_members :: "string \<Rightarrow> ClassDeclaration \<Rightarrow> ClassDeclaration \<times> Warning list \<times> bool" where
  "remove_resolver_members fp c =
     (let removed = concat (map (\<lambda>k. filter (\<lambda>p. is_resolver_type (param_type p)) (ctor_params k))
                              (cls_ctors c));
          fields = filter (\<lambda>p. is_resolver_type (prop_type p)) (cls_properties c)
      in (c\<lparr>cls_members := concat (map without_resolver (cls_members c))\<rparr>,
          map (\<lambda>p. mk_warning fp
                 (''Removed ComponentFactoryResolver constructor param in '' @
                  class_label ''anonymous'' c @
                  ''. Verify resolveComponentFactory() usages are migrated.''))
            removed,
          removed \<noteq> [] \<or> fields \<noteq> []))"

fun remove_resolver_classes :: "string \<Rightarrow> Statement list \<Rightarrow> Statement list \<times> Warning list \<times> bool" where
  "remove_resolver_classes fp [] = ([], [], False)"
| "remove_resolver_classes fp (ClassStatement c # ss) =
     (let (c', ws, ch) = remove_resolver_members fp c;
          (ss', ws', ch') = remove_resolver_classes fp ss
      in (ClassStatement c' # ss', ws @ ws', ch \<or> ch'))"
| "remove_resolver_classes fp (OtherStatement n # ss) =
     (let (ss', ws', ch') = remove_resolver_classes fp ss
      in (OtherStatement n # ss', ws', ch'))"

text \<open>Step 3: one warning for every call \<open>y.resolveComponentFactory(X)\<close> of the file.\<close>

definition factory_warnings :: "string \<Rightarrow> Node list \<Rightarrow> Warning list" where
  "factory_warnings fp ns =
     concat (map (\<lambda>n. case factory_arg n of
                         None \<Rightarrow> []
                       | Some x \<Rightarrow>
                           [mk_warning fp
                              (''Found resolveComponentFactory('' @ getText x @
                               '') - replace vcr.createComponent(factory) with vcr.createComponent('' @
                               getText x @ '') manually or check auto-migration below.'')])
              ns)"

text \<open>
  Step 4 replaces the first argument of every call of the shape by the text of the
  component type. The replaced argument is itself a call that the loop has still to
  visit, so the loop throws when it gets there: on a file with a call of the shape the
  primitive throws after the edit in memory, and nothing of it is returned or saved.
\<close>

definition migrateComponentFactoryResolver_file :: "SourceFile \<Rightarrow> Thrown + FileEdit" where
  "migrateComponentFactoryResolver_file sf =
     (let (sts', ws, ch) = remove_resolver_classes (filePath sf) (sf_statements sf);
          sf1 = sf\<lparr>sf_statements := sts'\<rparr>;
          ws3 = factory_warnings (filePath sf) (sf_nodes sf1)
      in if \<exists>n \<in> set (sf_nodes sf1). inlinable n then Inl forgotten_node_error
         else Inr (sf1, [], ws @ ws3, ch))"

definition migrateComponentFactoryResolver ::
  "SourceFile list \<Rightarrow> MigrationContext \<Rightarrow> Disk
     \<Rightarrow> (Thrown + (Change list \<times> Warning list) \<times> SourceFile list) \<times> Disk" where
  "migrateComponentFactoryResolver sourceFiles ctx d =
     for_files migrateComponentFactoryResolver_file ctx sourceFiles d"

section \<open>CanLoad, withServerTransition, ModuleWithProviders\<close>

text \<open>The specifiers of the first declaration that imports \<open>CanLoad\<close> from the router.\<close>

fun rename_first_import :: "string \<Rightarrow> string \<Rightarrow> string \<Rightarrow> ImportDeclaration list \<Rightarrow> ImportDeclaration list" where
  "rename_first_import moduleName old new [] = []"
| "rename_first_import moduleName old new (imp # imps) =
     (if imports_name_from moduleName old imp then rename_specifiers old new imp # imps
      else imp # rename_first_import moduleName old new imps)"

definition migrateCanLoadToCanMatch_file ::
  "SourceFile \<Rightarrow> SourceFile \<times> Change list \<times> Warning list \<times> bool" where
  "migrateCanLoadToCanMatch_file sf =
     (if \<not> (\<exists>imp \<in> set (sf_imports sf). imports_name_from ''@angular/router'' ''CanLoad'' imp)
      then (sf, [], [], False)
      else
        (rename_usages ''CanLoad'' ''CanMatch''
           (sf\<lparr>sf_imports :=
                 rename_first_import ''@angular/router'' ''CanLoad'' ''CanMatch'' (sf_imports sf)\<rparr>),
         [mk_change (filePath sf) ''CanLoad -> CanMatch (removed in Angular 17)''],
         [], True))"

definition migrateCanLoadToCanMatch ::
  "SourceFile list \<Rightarrow> MigrationContext \<Rightarrow> Disk
     \<Rightarrow> (Thrown + Change list \<times> SourceFile list) \<times> Disk" where
  "migrateCanLoadToCanMatch sourceFiles ctx d =
     changes_only (for_files (\<lambda>sf. Inr (migrateCanLoadToCanMatch_file sf)) ctx sourceFiles d)"

text \<open>
  Every call \<open>BrowserModule.withServerTransition(...)\<close> is replaced by
  \<open>BrowserModule\<close>. When such a call has a call among its descendants (in its
  arguments), the loop reaches that descendant after the replacement and throws.
\<close>

definition removeBrowserModuleWithServerTransition_file :: "SourceFile \<Rightarrow> Thrown + FileEdit" where
  "removeBrowserModuleWithServerTransition_file sf =
     (if \<exists>n \<in> set (sf_nodes sf). is_server_transition n \<and> has_inner_call n
      then Inl forgotten_node_error
      else
        (let k = length (filter is_server_transition (sf_nodes sf))
         in Inr (if k = 0 then sf else map_sf strip_calls sf,
                 replicate k
                   (mk_change (filePath sf)
                      ''BrowserModule.withServerTransition() -> BrowserModule (removed in Angular 18)''),
                 [], k \<noteq> 0)))"

definition removeBrowserModuleWithServerTransition ::
  "SourceFile list \<Rightarrow> MigrationContext \<Rightarrow> Disk
     \<Rightarrow> (Thrown + Change list \<times> SourceFile list) \<times> Disk" where
  "removeBrowserModuleWithServerTransition sourceFiles ctx d =
     changes_only (for_files removeBrowserModuleWithServerTransition_file ctx sourceFiles d)"

fun bare_module_with_providers :: "Node \<Rightarrow> bool" where
  "bare_module_with_providers (TypeReference n targs) =
     (getText (TypeReference n targs) = ''ModuleWithProviders'' \<and> length targs = 0)"
| "bare_module_with_providers nd = False"

definition ensureModuleWithProvidersGeneric :: "SourceFile list \<Rightarrow> Change list \<times> Warning list" where
  "ensureModuleWithProvidersGeneric sourceFiles =
     ([],
      concat (map (\<lambda>sf. map (\<lambda>n. mk_warning (filePath sf)
                                 ''ModuleWithProviders is missing a generic type parameter. Add ModuleWithProviders<YourModule>'')
                          (filter bare_module_with_providers (sf_nodes sf)))
                sourceFiles))"

section \<open>standalone: false\<close>

fun is_named_assignment :: "string \<Rightarrow> Node \<Rightarrow> bool" where
  "is_named_assignment nm (PropertyAssignment n v) = (n = nm)"
| "is_named_assignment nm nd = False"

definition standalone_false :: Node where
  "standalone_false = PropertyAssignment ''standalone'' (OtherNode ''false'' [])"

definition standalone_decorators :: "string list" where
  "standalone_decorators = [''Component'', ''Directive'', ''Pipe'']"

definition add_standalone :: "string \<Rightarrow> ClassDeclaration \<Rightarrow> Decorator \<Rightarrow> Decorator \<times> Change list" where
  "add_standalone fp c dc =
     (if dec_name dc \<notin> set standalone_decorators then (dc, [])
      else case dec_args dc of
          ObjectLiteralExpression ps # rest \<Rightarrow>
            (if \<exists>p \<in> set ps. is_named_assignment ''standalone'' p then (dc, [])
             else (dc\<lparr>dec_args := ObjectLiteralExpression (standalone_false # ps) # rest\<rparr>,
                   [mk_change fp
                      (''@'' @ dec_name dc @ ''('' @ class_label [] c @
                       ''): added standalone: false (Angular 19 default changed to true)'')]))
        | _ \<Rightarrow> (dc, []))"

text \<open>\<open>cls.getDecorators().forEach\<close> on one class.\<close>

definition add_standalone_class :: "string \<Rightarrow> ClassDeclaration \<Rightarrow> ClassDeclaration \<times> Change list" where
  "add_standalone_class fp c =
     (let (ds', cs) = map_changes (add_standalone fp c) (cls_decorators c)
      in (c\<lparr>cls_decorators := ds'\<rparr>, cs))"

definition addStandaloneFalse_file ::
  "SourceFile \<Rightarrow> SourceFile \<times> Change list \<times> Warning list \<times> bool" where
  "addStandaloneFalse_file sf =
     (let (sts', cs) = map_changes (on_class (add_standalone_class (filePath sf))) (sf_statements sf)
      in (sf\<lparr>sf_statements := sts'\<rparr>, cs, [], cs \<noteq> []))"

definition addStandaloneFalse ::
  "SourceFile list \<Rightarrow> MigrationContext \<Rightarrow> Disk
     \<Rightarrow> (Thrown + Change list \<times> SourceFile list) \<times> Disk" where
  "addStandaloneFalse sourceFiles ctx d =
     changes_only (for_files (\<lambda>sf. Inr (addStandaloneFalse_file sf)) ctx sourceFiles d)"

section \<open>zone.js import paths\<close>

definition zone_replacements :: "(string \<times> string) list" where
  "zone_replacements =
     [(''zone.js/dist/zone'', ''zone.js''),
      (''zone.js/dist/zone-testing'', ''zone.js/testing''),
      (''zone.js/bundles/zone-testing.js'', ''zone.js/testing''),
      (''zone.js/dist/long-stack-trace-zone'', ''zone.js/plugins/long-stack-trace-zone''),
      (''zone.js/dist/async-test'', ''zone.js/testing''),
      (''zone.js/dist/fake-async-test'', ''zone.js/testing'')]"

text \<open>
  The six replacements, one after the other, on the text between a pair of quotes. The
  file content is the tree here, so the quoted texts are the module specifiers and the
  string literals; a quoted path inside a comment or inside another string is not
  represented.
\<close>

definition zone_text :: "string \<Rightarrow> string" where
  "zone_text s = foldl (\<lambda>t (pat, rep). if t = pat then rep else t) s zone_replacements"

fun zone_node :: "Node \<Rightarrow> Node" where
  "zone_node (Identifier s) = Identifier s"
| "zone_node (StringLiteral s) = StringLiteral (zone_text s)"
| "zone_node (PropertyAccessExpression e n) = PropertyAccessExpression (zone_node e) n"
| "zone_node (CallExpression f args) = CallExpression (zone_node f) (map zone_node args)"
| "zone_node (BinaryExpression l opr r) = BinaryExpression (zone_node l) opr (zone_node r)"
| "zone_node (ObjectLiteralExpression ps) = ObjectLiteralExpression (map zone_node ps)"
| "zone_node (PropertyAssignment n v) = PropertyAssignment n (zone_node v)"
| "zone_node (ShorthandPropertyAssignment n) = ShorthandPropertyAssignment n"
| "zone_node (ArrayLiteralExpression es) = ArrayLiteralExpression (map zone_node es)"
| "zone_node (TypeReference n targs) = TypeReference n (map zone_node targs)"
| "zone_node (VariableDeclaration n cs) = VariableDeclaration n (map zone_node cs)"
| "zone_node (OtherNode t cs) = OtherNode t (map zone_node cs)"

definition zone_content :: "SourceFile \<Rightarrow> SourceFile" where
  "zone_content sf =
     map_sf zone_node
       (sf\<lparr>sf_imports :=
             map (\<lambda>imp. imp\<lparr>moduleSpecifier := zone_text (moduleSpecifier imp)\<rparr>) (sf_imports sf)\<rparr>)"

definition basename :: "string \<Rightarrow> string" where
  "basename p = rev (takeWhile (\<lambda>c. c \<noteq> CHR ''/'') (rev p))"

definition zone_file_names :: "string list" where
  "zone_file_names = [''polyfills.ts'', ''test.ts'', ''setup-jest.ts'', ''jest-setup.ts'', ''test-setup.ts'']"

text \<open>
  The glob \<open>**/{polyfills,test,setup-jest,jest-setup,test-setup}.ts\<close> under the project
  path, ignoring \<open>node_modules/**\<close> and \<open>dist/**\<close>.
\<close>

definition zone_candidate :: "string \<Rightarrow> string \<Rightarrow> bool" where
  "zone_candidate pp p =
     (startsWith p (pp @ ''/'') \<and> basename p \<in> set zone_file_names \<and>
      \<not> startsWith p (pp @ ''/node_modules/'') \<and> \<not> startsWith p (pp @ ''/dist/''))"

fun zone_loop :: "MigrationContext \<Rightarrow> SourceFile list \<Rightarrow> Disk \<Rightarrow> Change list \<times> Disk" where
  "zone_loop ctx [] d = ([], d)"
| "zone_loop ctx (f # fs) d =
     (let content = zone_content f;
          changed = (content \<noteq> f);
          d1 = (if changed \<and> \<not> dryRun ctx then saveSync content d else d);
          (cs, d2) = zone_loop ctx fs d1
      in ((if changed
           then [mk_change (filePath f) ''Fixed zone.js deep imports -> shallow imports'']
           else []) @ cs, d2))"

definition fixZoneJsImports :: "string \<Rightarrow> MigrationContext \<Rightarrow> Disk \<Rightarrow> Change list \<times> Disk" where
  "fixZoneJsImports pp ctx d =
     zone_loop ctx (filter (\<lambda>f. zone_candidate pp (filePath f)) (tsFiles d)) d"

section \<open>Migration steps (types.ts, migrations/)\<close>

record MigrationStep =
  step_from :: int
  step_to :: int
  step_name :: string
  run :: "MigrationContext \<Rightarrow> Disk \<Rightarrow> (Thrown + MigrationResult) \<times> Disk"

text \<open>
  A step returns its result (\<open>Inr\<close>) or throws (\<open>Inl\<close>); either way the disk is left
  as the writes made so far have it.

  While a step runs it holds the source files in memory, the disk, and the changes and
  warnings pushed onto its result.
\<close>

record StepState =
  st_files :: "SourceFile list"
  st_disk :: Disk
  st_changes :: "Change list"
  st_warnings :: "Warning list"

text \<open>
  A statement of a step body takes the state to the next one, or throws and leaves the
  disk as its writes have it.
\<close>

type_synonym Rule = "StepState \<Rightarrow> Thrown \<times> Disk + StepState"

text \<open>
  A primitive whose changes are pushed onto the result; \<open>kw\<close> is the warning the step
  adds when it looks at the changes.
\<close>

definition push_changes_with ::
  "(SourceFile list \<Rightarrow> Disk \<Rightarrow> (Thrown + Change list \<times> SourceFile list) \<times> Disk) \<Rightarrow>
     (Change list \<Rightarrow> Warning list) \<Rightarrow> Rule" where
  "push_changes_with prim kw st =
     (case prim (st_files st) (st_disk st) of
        (Inl e, d) \<Rightarrow> Inl (e, d)
      | (Inr (cs, sfs), d) \<Rightarrow>
          Inr (st\<lparr>st_files := sfs, st_disk := d, st_changes := st_changes st @ cs,
                   st_warnings := st_warnings st @ kw cs\<rparr>))"

definition push_changes ::
  "(SourceFile list \<Rightarrow> Disk \<Rightarrow> (Thrown + Change list \<times> SourceFile list) \<times> Disk) \<Rightarrow> Rule" where
  "push_changes prim = push_changes_with prim (\<lambda>cs. [])"

text \<open>
  A primitive that returns changes and warnings: \<open>kc\<close> and \<open>kw\<close> say what the step
  pushes of them (all of them, some rewording of them, or nothing).
\<close>

definition push_both ::
  "(SourceFile list \<Rightarrow> Disk
      \<Rightarrow> (Thrown + (Change list \<times> Warning list) \<times> SourceFile list) \<times> Disk) \<Rightarrow>
     (Change list \<Rightarrow> Change list) \<Rightarrow> (Warning list \<Rightarrow> Warning list) \<Rightarrow> Rule" where
  "push_both prim kc kw st =
     (case prim (st_files st) (st_disk st) of
        (Inl e, d) \<Rightarrow> Inl (e, d)
      | (Inr ((cs, ws), sfs), d) \<Rightarrow>
          Inr (st\<lparr>st_files := sfs, st_disk := d, st_changes := st_changes st @ kc cs,
                   st_warnings := st_warnings st @ kw ws\<rparr>))"

text \<open>A read-only scan of the files in memory that pushes warnings.\<close>

definition push_scan :: "(SourceFile list \<Rightarrow> Warning list) \<Rightarrow> Rule" where
  "push_scan scan st = Inr (st\<lparr>st_warnings := st_warnings st @ scan (st_files st)\<rparr>)"

definition push_warning :: "string \<Rightarrow> string \<Rightarrow> Rule" where
  "push_warning f m st = Inr (st\<lparr>st_warnings := st_warnings st @ [mk_warning f m]\<rparr>)"

text \<open>\<open>warnings.map(w => ({ ...w, message }))\<close>\<close>

definition reword :: "string \<Rightarrow> Warning list \<Rightarrow> Warning list" where
  "reword m ws = map (\<lambda>w. w\<lparr>w_message := m\<rparr>) ws"

definition drop_all :: "'a list \<Rightarrow> 'a list" where
  "drop_all xs = []"

text \<open>The statements of a step body, run in order up to the first that throws.\<close>

fun run_rules :: "Rule list \<Rightarrow> Rule" where
  "run_rules [] st = Inr st"
| "run_rules (r # rules) st =
     (case r st of
        Inl thrown \<Rightarrow> Inl thrown
      | Inr st' \<Rightarrow> run_rules rules st')"

text \<open>
  The part every step body shares after its configuration edits: the TypeScript project
  is loaded from the disk as it is now; when that fails the step returns with a warning,
  else the rules run on the loaded files. An error thrown by a rule leaves the step.
\<close>

definition run_codemods ::
  "string \<Rightarrow> MigrationContext \<Rightarrow> Rule list \<Rightarrow> Change list \<Rightarrow> Disk
     \<Rightarrow> (Thrown + MigrationResult) \<times> Disk" where
  "run_codemods nm ctx rules cs d =
     (case createTsProject (projectPath ctx) d of
        Inl e \<Rightarrow>
          (Inr \<lparr>r_step = nm, r_changes = cs,
                r_warnings = [mk_warning ''tsconfig.json''
                                (''Could not load TypeScript project: '' @ String_of_error e)],
                r_errors = []\<rparr>, d)
      | Inr project \<Rightarrow>
          (case run_rules rules
                  \<lparr>st_files = getSourceFiles project, st_disk = d, st_changes = cs,
                   st_warnings = []\<rparr> of
             Inl (e, d') \<Rightarrow> (Inl e, d')
           | Inr st \<Rightarrow>
               (Inr \<lparr>r_step = nm, r_changes = st_changes st, r_warnings = st_warnings st,
                     r_errors = []\<rparr>, st_disk st)))"

definition angular_packages :: "string list" where
  "angular_packages =
     [''@angular/animations'', ''@angular/cdk'', ''@angular/cli'', ''@angular/common'',
      ''@angular/compiler'', ''@angular/compiler-cli'', ''@angular/core'', ''@angular/elements'',
      ''@angular/forms'', ''@angular/language-service'', ''@angular/material'',
      ''@angular/platform-browser'', ''@angular/platform-browser-dynamic'',
      ''@angular/platform-server'', ''@angular/router'', ''@angular/service-worker'',
      ''@angular-devkit/build-angular'', ''@angular-devkit/core'', ''@angular-devkit/schematics'']"

text \<open>The table of versions a step passes to \<open>updatePackageVersions\<close>.\<close>

definition versions :: "string \<Rightarrow> (string \<times> string) list \<Rightarrow> (string \<times> string) list" where
  "versions v others = map (\<lambda>p. (p, v)) angular_packages @ others"

subsection \<open>Angular 15 to 16\<close>

text \<open>Every pair of a class of the file and one of its decorators, in order.\<close>

definition class_decorators :: "SourceFile \<Rightarrow> (ClassDeclaration \<times> Decorator) list" where
  "class_decorators sf = concat (map (\<lambda>c. map (\<lambda>dc. (c, dc)) (cls_decorators c)) (sf_classes sf))"

definition mentions_entryComponents :: "Decorator \<Rightarrow> bool" where
  "mentions_entryComponents dc =
     (dec_name dc = ''NgModule'' \<and>
      (case dec_args dc of [] \<Rightarrow> False | a # rest \<Rightarrow> str_includes (getText a) ''entryComponents''))"

definition entryComponents_scan_16 :: "SourceFile list \<Rightarrow> Warning list" where
  "entryComponents_scan_16 sfs =
     [mk_warning (filePath sf)
        (class_label ''NgModule'' c @
         '': 'entryComponents' is removed in Angular 16. Remove it from the decorator - Ivy handles dynamic components automatically.'').
      sf \<leftarrow> sfs, (c, dc) \<leftarrow> class_decorators sf, mentions_entryComponents dc]"

definition canLoad_scan :: "SourceFile list \<Rightarrow> Warning list" where
  "canLoad_scan sfs =
     [mk_warning (filePath sf)
        ''CanLoad is deprecated (Angular 15) and removed in Angular 17. Will be migrated to CanMatch automatically in the next step.''.
      sf \<leftarrow> sfs, \<exists>imp \<in> set (sf_imports sf). imports_name_from ''@angular/router'' ''CanLoad'' imp]"

definition v15ToV16_rules :: "MigrationContext \<Rightarrow> Rule list" where
  "v15ToV16_rules ctx =
     map (\<lambda>sym. push_changes
                  (\<lambda>sfs. moveImport sfs sym ''@angular/platform-browser'' ''@angular/core'' ctx))
       [''TransferState'', ''makeStateKey'', ''StateKey''] @
     [push_changes (\<lambda>sfs. moveImport sfs ''XhrFactory'' ''@angular/common/http'' ''@angular/common'' ctx),
      push_both
        (\<lambda>sfs. removeObsoleteImport sfs ''@angular/platform-browser'' ''BrowserTransferStateModule'' ctx)
        id drop_all,
      push_changes (\<lambda>sfs. removeFromNgModuleArrays sfs ''BrowserTransferStateModule'' ctx),
      push_both
        (\<lambda>sfs. removeObsoleteImport sfs ''@angular/platform-server'' ''ServerTransferStateModule'' ctx)
        id
        (reword ''ServerTransferStateModule removed. Remove from NgModule imports[], TransferState is now injected automatically.''),
      push_changes (\<lambda>sfs. removeFromNgModuleArrays sfs ''ServerTransferStateModule'' ctx),
      push_both
        (\<lambda>sfs. removeObsoleteImport sfs ''@angular/platform-server'' ''renderModuleFactory'' ctx)
        id
        (reword ''renderModuleFactory removed. Use renderModule() from '@angular/platform-server' instead.''),
      push_both
        (\<lambda>sfs. removeObsoleteImport sfs ''@angular/core'' ''ANALYZE_FOR_ENTRY_COMPONENTS'' ctx)
        id drop_all,
      push_both
        (\<lambda>sfs. removeObsoleteImport sfs ''@angular/core'' ''ReflectiveInjector'' ctx)
        id
        (reword ''ReflectiveInjector removed. Replace with Injector.create({ providers: [...] }).''),
      push_scan entryComponents_scan_16,
      push_scan (\<lambda>sfs. snd (ensureModuleWithProvidersGeneric sfs)),
      push_scan canLoad_scan,
      push_warning ''angular.json''
        ''[Angular 16] CSS keyframe animation names are now scoped per component. If you reference keyframe names globally, move them to a global stylesheet or use ViewEncapsulation.None.'']"

definition v15ToV16 :: MigrationStep where
  "v15ToV16 =
     \<lparr>step_from = 15, step_to = 16, step_name = ''Angular 15 -> 16'',
      run = (\<lambda>ctx d.
        case updatePackageVersions ctx
               (versions ''^16.2.0''
                  [(''typescript'', ''~5.1.0''), (''zone.js'', ''~0.13.0''), (''rxjs'', ''~7.8.0'')]) d of
          (Inl e, d1) \<Rightarrow> (Inl e, d1)
        | (Inr pkgChanges, d1) \<Rightarrow>
            run_codemods ''Angular 15 -> 16'' ctx (v15ToV16_rules ctx) pkgChanges d1)\<rparr>"

subsection \<open>Angular 17 to 18\<close>

text \<open>A property access \<open>obj.name\<close> gives its name and the text of \<open>obj\<close>.\<close>

fun access_of :: "Node \<Rightarrow> (string \<times> string) option" where
  "access_of (PropertyAccessExpression e n) = Some (n, getText e)"
| "access_of nd = None"

text \<open>The property accesses of a file, each with the path of the file.\<close>

definition accesses :: "SourceFile list \<Rightarrow> (string \<times> string \<times> string) list" where
  "accesses sfs =
     [(filePath sf, a). sf \<leftarrow> sfs, a \<leftarrow> List.map_filter access_of (sf_nodes sf)]"

definition matchesElement_scan :: "SourceFile list \<Rightarrow> Warning list" where
  "matchesElement_scan sfs =
     [mk_warning fp ''AnimationDriver.matchesElement() removed in Angular 18. Remove this usage.''.
      (fp, n, obj) \<leftarrow> accesses sfs, n = ''matchesElement'']"

definition removedTestabilityMethods :: "string list" where
  "removedTestabilityMethods =
     [''increasePendingRequestCount'', ''decreasePendingRequestCount'', ''getPendingRequestCount'']"

definition testability_scan :: "SourceFile list \<Rightarrow> Warning list" where
  "testability_scan sfs =
     [mk_warning fp
        (''Testability.'' @ n @ ''() removed in Angular 18. Remove this call - it has no replacement.'').
      (fp, n, obj) \<leftarrow> accesses sfs, n \<in> set removedTestabilityMethods]"

definition swUpdate_scan :: "SourceFile list \<Rightarrow> Warning list" where
  "swUpdate_scan sfs =
     [mk_warning fp
        (''Possible SwUpdate.'' @ n @
         '' usage. This observable was removed in Angular 18 - use swUpdate.versionUpdates observable instead.'').
      (fp, n, obj) \<leftarrow> accesses sfs,
      (n = ''available'' \<or> n = ''activated'') \<and>
      (str_includes (toLowerCase obj) ''update'' \<or> str_includes (toLowerCase obj) ''swupdate'')]"

text \<open>
  The named imports of one declaration that are in a given list, when the module
  specifier passes \<open>ok\<close>; one warning for a declaration that has some.
\<close>

definition named_import_scan ::
  "(string \<Rightarrow> bool) \<Rightarrow> string list \<Rightarrow> (string \<Rightarrow> string) \<Rightarrow> SourceFile list \<Rightarrow> Warning list" where
  "named_import_scan ok names msg sfs =
     [mk_warning (filePath sf)
        (msg (join '', '' (filter (\<lambda>n. n \<in> set names) (map is_name (namedImports imp))))).
      sf \<leftarrow> sfs, imp \<leftarrow> sf_imports sf, ok (moduleSpecifier imp),
      filter (\<lambda>n. n \<in> set names) (map is_name (namedImports imp)) \<noteq> []]"

definition migrateAsyncToWaitForAsync ::
  "SourceFile list \<Rightarrow> MigrationContext \<Rightarrow> Disk
     \<Rightarrow> (Thrown + Change list \<times> SourceFile list) \<times> Disk" where
  "migrateAsyncToWaitForAsync sourceFiles ctx d =
     renameNamedImport sourceFiles ''@angular/core/testing'' ''async'' ''waitForAsync'' ctx d"

definition v17ToV18_rules :: "MigrationContext \<Rightarrow> Rule list" where
  "v17ToV18_rules ctx =
     [push_changes (\<lambda>sfs. migrateAsyncToWaitForAsync sfs ctx)] @
     map (\<lambda>sym. push_both (\<lambda>sfs. removeObsoleteImport sfs ''@angular/common'' sym ctx) id
                  (reword (sym @ ''() removed in Angular 18 - the Angular WebWorker platform is discontinued. Remove usages.'')))
       [''isPlatformWorkerUi'', ''isPlatformWorkerApp''] @
     [push_both
        (\<lambda>sfs. removeObsoleteImport sfs ''@angular/platform-server'' ''platformDynamicServer'' ctx)
        id
        (reword ''platformDynamicServer removed. Add import '@angular/compiler' before bootstrapping and use platformServer() instead.''),
      push_both
        (\<lambda>sfs. removeObsoleteImport sfs ''@angular/platform-browser-dynamic'' ''RESOURCE_CACHE_PROVIDER'' ctx)
        id drop_all,
      push_both
        (\<lambda>sfs. removeObsoleteImport sfs ''@angular/animations/browser'' ''AnimationDriver'' ctx)
        drop_all drop_all,
      push_scan matchesElement_scan,
      push_scan testability_scan,
      push_scan swUpdate_scan,
      push_scan
        (named_import_scan (\<lambda>m. m = ''@angular/common/http'')
           [''HttpClientModule'', ''HttpClientXsrfModule'', ''HttpClientJsonpModule'']
           (\<lambda>found. found @ '' deprecated in Angular 18. Migrate to provideHttpClient() in your app config/bootstrap. See: https://angular.dev/guide/http/setup'')),
      push_warning ''angular.json''
        ''[Angular 18] withHttpTransferCache now excludes requests with Authorization headers by default. To include them: provideClientHydration(withHttpTransferCache({ includeRequestsWithAuthHeaders: true }))'',
      push_warning ''angular.json''
        ''[Angular 18] Infinite change detection loops now throw NG0103 error instead of silently running. Check for components that call markForCheck() unconditionally.'',
      push_warning ''angular.json''
        ''[Angular 18] Two-way bindings ([(ngModel)], [(value)]) now require writable expressions. Check banana-in-a-box bindings on computed/readonly properties.'',
      push_warning ''angular.json''
        ''[Angular 18] Router: component providers no longer come from RouterOutlet - only from the route config. If you rely on outlet providers, add them to the route directly.'']"

definition v17ToV18 :: MigrationStep where
  "v17ToV18 =
     \<lparr>step_from = 17, step_to = 18, step_name = ''Angular 17 -> 18'',
      run = (\<lambda>ctx d.
        case updatePackageVersions ctx (versions ''^18.2.0'' [(''typescript'', ''~5.4.0'')]) d of
          (Inl e, d1) \<Rightarrow> (Inl e, d1)
        | (Inr pkgChanges, d1) \<Rightarrow>
            run_codemods ''Angular 17 -> 18'' ctx (v17ToV18_rules ctx) pkgChanges d1)\<rparr>"

subsection \<open>Angular 18 to 19\<close>

definition factories_scan :: "SourceFile list \<Rightarrow> Warning list" where
  "factories_scan sfs =
     [mk_warning fp
        ''KeyValueDiffers.factories removed in Angular 19. Use KeyValueDiffer directly via DI.''.
      (fp, n, obj) \<leftarrow> accesses sfs, n = ''factories'' \<and> str_includes (toLowerCase obj) ''differ'']"

text \<open>
  The left side of a binary expression, when it is a property access: its name and the
  text of its object.
\<close>

fun assigned_access :: "Node \<Rightarrow> (string \<times> string) option" where
  "assigned_access (BinaryExpression l opr r) = access_of l"
| "assigned_access nd = None"

definition assignments :: "SourceFile list \<Rightarrow> (string \<times> string \<times> string) list" where
  "assignments sfs =
     [(filePath sf, a). sf \<leftarrow> sfs, a \<leftarrow> List.map_filter assigned_access (sf_nodes sf)]"

definition errorHandler_scan :: "SourceFile list \<Rightarrow> Warning list" where
  "errorHandler_scan sfs =
     [mk_warning fp
        ''router.errorHandler = ... removed in Angular 19. Use withNavigationErrorHandler((e) => ...) in provideRouter() or RouterModule.forRoot(routes, { errorHandler: ... }) instead.''.
      (fp, n, obj) \<leftarrow> assignments sfs, n = ''errorHandler'' \<and> str_includes (toLowerCase obj) ''router'']"

definition legacyMaterialModules :: "string list" where
  "legacyMaterialModules =
     [''MatLegacyButtonModule'', ''MatLegacyCardModule'', ''MatLegacyCheckboxModule'',
      ''MatLegacyChipsModule'', ''MatLegacyDialogModule'', ''MatLegacyFormFieldModule'',
      ''MatLegacyInputModule'', ''MatLegacyListModule'', ''MatLegacyMenuModule'',
      ''MatLegacyProgressBarModule'', ''MatLegacyProgressSpinnerModule'', ''MatLegacyRadioModule'',
      ''MatLegacySelectModule'', ''MatLegacySlideToggleModule'', ''MatLegacySliderModule'',
      ''MatLegacySnackBarModule'', ''MatLegacyTableModule'', ''MatLegacyTabsModule'',
      ''MatLegacyTooltipModule'']"

definition v18ToV19_rules :: "MigrationContext \<Rightarrow> Rule list" where
  "v18ToV19_rules ctx =
     [push_changes
        (\<lambda>sfs. renameNamedImport sfs ''@angular/core'' ''ExperimentalPendingTasks'' ''PendingTasks'' ctx),
      push_changes_with (\<lambda>sfs. removeBrowserModuleWithServerTransition sfs ctx)
        (\<lambda>cs. if length cs > 0
              then [mk_warning ''angular.json''
                      (''BrowserModule.withServerTransition() removed. Replaced with BrowserModule. If you need a stable app ID for SSR, add: { provide: APP_ID, useValue: 'my-app' } to providers.'')]
              else []),
      push_both (\<lambda>sfs. removeObsoleteImport sfs ''@angular/core'' ''KeyValueDiffers'' ctx)
        drop_all drop_all,
      push_scan factories_scan,
      push_scan errorHandler_scan,
      push_changes_with (\<lambda>sfs. addStandaloneFalse sfs ctx)
        (\<lambda>cs. if length cs > 0
              then [mk_warning ''angular.json''
                      (''[Angular 19] Added standalone: false to '' @ show_nat (length cs) @
                       '' component(s)/directive(s)/pipe(s). Angular 19 changed the default to standalone: true. Components with standalone: true that are still in NgModule.declarations should be removed from declarations[].'')]
              else []),
      push_scan
        (named_import_scan (\<lambda>m. startsWith m ''@angular/material'') legacyMaterialModules
           (\<lambda>found. ''Legacy Angular Material components removed in v19: '' @ found @
                    ''. Replace with MDC-based equivalents (remove 'Legacy' from the class name).'')),
      push_warning ''angular.json''
        ''[Angular 19] Signal effects now run during change detection (not as microtasks). Effects outside change detection will now run during the next CD cycle.'',
      push_warning ''angular.json''
        (''[Angular 19] [routerLink]='' @ [CHR 0x22] @ ''null'' @ [CHR 0x22] @
         '' now removes the href attribute. Review conditional routerLink bindings that use null/undefined as a '' @
         [CHR 0x22] @ ''disabled'' @ [CHR 0x22] @ '' state.''),
      push_warning ''angular.json''
        ''[Angular 19] Template property reads: this.foo in templates no longer refers to template variables. If you have template variables and class properties with the same name, remove this. prefix.'',
      push_warning ''angular.json''
        ''[Angular 19] ApplicationRef.tick() errors in TestBed are now rethrown. Wrap expected-to-throw scenarios with expect(() => fixture.detectChanges()).toThrow(), or set rethrowApplicationErrors: false in TestBed.'']"

definition v18ToV19 :: MigrationStep where
  "v18ToV19 =
     \<lparr>step_from = 18, step_to = 19, step_name = ''Angular 18 -> 19'',
      run = (\<lambda>ctx d.
        case updatePackageVersions ctx (versions ''^19.2.0'' [(''typescript'', ''~5.6.0'')]) d of
          (Inl e, d1) \<Rightarrow> (Inl e, d1)
        | (Inr pkgChanges, d1) \<Rightarrow>
            run_codemods ''Angular 18 -> 19'' ctx (v18ToV19_rules ctx) pkgChanges d1)\<rparr>"

subsection \<open>Angular 16 to 17\<close>

fun is_mutate_call :: "Node \<Rightarrow> bool" where
  "is_mutate_call (CallExpression f args) = is_method ''mutate'' f"
| "is_mutate_call nd = False"

definition mutate_scan :: "SourceFile list \<Rightarrow> Warning list" where
  "mutate_scan sfs =
     [mk_warning (filePath sf)
        (''signal.mutate() removed in Angular 17. Replace with signal.update(val => { ...val, changedProp }). Found: '' @
         take 80 (getText n)).
      sf \<leftarrow> sfs, n \<leftarrow> sf_nodes sf, is_mutate_call n]"

definition movedRouterProps :: "string list" where
  "movedRouterProps =
     [''urlHandlingStrategy'', ''canceledNavigationResolution'', ''paramsInheritanceStrategy'',
      ''titleStrategy'', ''urlUpdateStrategy'', ''malformedUriErrorHandler'']"

definition routerProps_scan :: "SourceFile list \<Rightarrow> Warning list" where
  "routerProps_scan sfs =
     [mk_warning fp
        (''router.'' @ n @
         '' = ... is no longer supported in Angular 17. Configure via provideRouter([routes], with'' @
         capitalize n @ ''(...)) or RouterModule.forRoot config.'').
      (fp, n, obj) \<leftarrow> assignments sfs, n \<in> set movedRouterProps]"

definition entryComponents_scan_17 :: "SourceFile list \<Rightarrow> Warning list" where
  "entryComponents_scan_17 sfs =
     [mk_warning (filePath sf)
        (class_label ''undefined'' c @ '': entryComponents must be removed before Angular 17.'').
      sf \<leftarrow> sfs, (c, dc) \<leftarrow> class_decorators sf, mentions_entryComponents dc]"

text \<open>
  The step calls \<open>removeDominoSetup\<close> of utils/codemods, which is not among the sources;
  it is the parameter \<open>removeDominoSetup\<close> of the step and of the pipeline.
\<close>

type_synonym DominoSetup =
  "SourceFile list \<Rightarrow> MigrationContext \<Rightarrow> Disk
     \<Rightarrow> (Thrown + Change list \<times> SourceFile list) \<times> Disk"

definition v16ToV17_rules :: "DominoSetup \<Rightarrow> MigrationContext \<Rightarrow> Rule list" where
  "v16ToV17_rules removeDominoSetup ctx =
     [push_changes
        (\<lambda>sfs. renameNamedImport sfs ''@angular/router'' ''RouterLinkWithHref'' ''RouterLink'' ctx),
      push_changes
        (\<lambda>sfs. moveImport sfs ''ngExpressEngine'' ''@nguniversal/express-engine'' ''@angular/ssr'' ctx),
      push_changes
        (\<lambda>sfs. moveImport sfs ''CommonEngine'' ''@nguniversal/express-engine'' ''@angular/ssr/node'' ctx),
      push_changes (\<lambda>sfs. removeDominoSetup sfs ctx),
      push_changes (\<lambda>sfs. migrateCanLoadToCanMatch sfs ctx),
      push_both (\<lambda>sfs. migrateComponentFactoryResolver sfs ctx) id id] @
     map (\<lambda>sym. push_both (\<lambda>sfs. removeObsoleteImport sfs ''@angular/core'' sym ctx) id drop_all)
       [''ComponentFactory'', ''ComponentFactoryResolver''] @
     [push_both
        (\<lambda>sfs. removeObsoleteImport sfs ''@angular/router/testing'' ''setupTestingRouter'' ctx)
        id
        (reword ''setupTestingRouter() removed. Use RouterModule.forRoot([]) or provideRouter([]) in TestBed.configureTestingModule instead.''),
      push_both
        (\<lambda>sfs. removeObsoleteImport sfs ''@angular/platform-browser'' ''withNoDomReuse'' ctx)
        id
        (reword ''withNoDomReuse() removed. Use the ngSkipHydration attribute on the <app-root> tag instead.''),
      push_scan mutate_scan,
      push_scan routerProps_scan,
      push_scan entryComponents_scan_17,
      push_warning ''angular.json''
        ''[Angular 17] REMOVE_STYLES_ON_COMPONENT_DESTROY now defaults to true. Component styles are removed on destroy. If your app relies on styles persisting, add { provide: REMOVE_STYLES_ON_COMPONENT_DESTROY, useValue: false } to providers.'',
      push_warning ''angular.json''
        ''[Angular 17] NgSwitch now uses strict equality (===) instead of loose equality (==). Review switch cases that relied on type coercion.'',
      push_warning ''angular.json''
        ''[Angular 17] Router absolute redirects are now non-terminal (processing continues after redirect). Check route configs for potential infinite redirect loops.'']"

definition v16ToV17 :: "DominoSetup \<Rightarrow> MigrationStep" where
  "v16ToV17 removeDominoSetup =
     \<lparr>step_from = 16, step_to = 17, step_name = ''Angular 16 -> 17'',
      run = (\<lambda>ctx d.
        case updatePackageVersions ctx
               (versions ''^17.3.0'' [(''typescript'', ''~5.2.0''), (''zone.js'', ''~0.14.0'')]) d of
          (Inl e, d1) \<Rightarrow> (Inl e, d1)
        | (Inr pkgChanges, d1) \<Rightarrow>
            (let (builderChanges, d2) = migrateBrowserBuilderToApplication ctx d1;
                 (defaultProjectChanges, d3) = removeDefaultProject ctx d2;
                 (zoneChanges, d4) = fixZoneJsImports (projectPath ctx) ctx d3
             in case replacePackageDependency ctx ''@nguniversal/express-engine'' ''@angular/ssr''
                       ''^17.3.0'' d4 of
                  (Inl e, d5) \<Rightarrow> (Inl e, d5)
                | (Inr ssrPkgChanges, d5) \<Rightarrow>
                    run_codemods ''Angular 16 -> 17'' ctx (v16ToV17_rules removeDominoSetup ctx)
                      (pkgChanges @ builderChanges @ defaultProjectChanges @ zoneChanges @
                       ssrPkgChanges) d5))\<rparr>"

section \<open>The pipeline (migrator.ts)\<close>

definition ALL_STEPS :: "DominoSetup \<Rightarrow> MigrationStep list" where
  "ALL_STEPS removeDominoSetup = [v15ToV16, v16ToV17 removeDominoSetup, v17ToV18, v18ToV19]"

record MigratorOptions =
  opt_projectPath :: string
  opt_fromVersion :: "int option"
  opt_toVersion :: "int option"
  opt_dryRun :: "bool option"
  opt_skipPackageJson :: "bool option"

definition or_default :: "'a \<Rightarrow> 'a option \<Rightarrow> 'a" where
  "or_default dflt v = (case v of None \<Rightarrow> dflt | Some x \<Rightarrow> x)"

definition failed_result :: "MigrationStep \<Rightarrow> Thrown \<Rightarrow> MigrationResult" where
  "failed_result s e =
     \<lparr>r_step = step_name s, r_changes = [], r_warnings = [],
      r_errors = [\<lparr>e_file = ''migrator'', e_message = String_of_error e\<rparr>]\<rparr>"

text \<open>The context the loop builds for a step.\<close>

definition step_ctx :: "string \<Rightarrow> bool \<Rightarrow> bool \<Rightarrow> MigrationStep \<Rightarrow> MigrationContext" where
  "step_ctx absPath dry skip s =
     \<lparr>projectPath = absPath, fromVersion = step_from s, toVersion = step_to s,
      dryRun = dry, skipPackageJson = skip\<rparr>"

text \<open>
  The \<open>try\<close>/\<open>catch\<close> around one step: the result the step returns, or the record
  that stands for the step when it throws.
\<close>

definition try_step :: "string \<Rightarrow> bool \<Rightarrow> bool \<Rightarrow> MigrationStep \<Rightarrow> Disk \<Rightarrow> MigrationResult \<times> Disk" where
  "try_step absPath dry skip s d =
     (case run s (step_ctx absPath dry skip s) d of
        (Inr result, d1) \<Rightarrow> (result, d1)
      | (Inl err, d1) \<Rightarrow> (failed_result s err, d1))"

text \<open>The loop \<open>for (const step of stepsToRun)\<close>, pushing onto \<open>allResults\<close>.\<close>

fun migrate_loop ::
  "string \<Rightarrow> bool \<Rightarrow> bool \<Rightarrow> MigrationStep list \<Rightarrow> MigrationResult list \<Rightarrow> Disk
     \<Rightarrow> MigrationResult list \<times> Disk" where
  "migrate_loop absPath dry skip [] allResults d = (allResults, d)"
| "migrate_loop absPath dry skip (s # steps) allResults d =
     (let (result, d1) = try_step absPath dry skip s d
      in migrate_loop absPath dry skip steps (allResults @ [result]) d1)"

subsection \<open>The report\<close>

definition shortFile :: "string \<Rightarrow> string \<Rightarrow> string" where
  "shortFile pp f = strip_leading_sep (replace_first f pp [])"

definition truthy :: "string option \<Rightarrow> bool" where
  "truthy v = (case v of None \<Rightarrow> False | Some x \<Rightarrow> x \<noteq> [])"

definition backticked :: "string \<Rightarrow> string" where
  "backticked x = [CHR 0x60] @ x @ [CHR 0x60]"

definition change_lines :: "string \<Rightarrow> Change \<Rightarrow> string list" where
  "change_lines pp c =
     (if truthy (c_before c) \<and> truthy (c_after c) then
        [''- **'' @ shortFile pp (c_file c) @ ''**: '' @ c_description c,
         ''  - Before: '' @ backticked (or_default [] (c_before c)),
         ''  - After: '' @ backticked (or_default [] (c_after c))]
      else [''- **'' @ shortFile pp (c_file c) @ ''**: '' @ c_description c])"

definition warning_line :: "string \<Rightarrow> Warning \<Rightarrow> string" where
  "warning_line pp w =
     (case w_line w of
        Some (Suc n) \<Rightarrow>
          ''- **'' @ shortFile pp (w_file w) @ '':'' @ show_nat (Suc n) @ ''**: '' @ w_message w
      | _ \<Rightarrow> ''- **'' @ shortFile pp (w_file w) @ ''**: '' @ w_message w)"

definition result_lines :: "string \<Rightarrow> MigrationResult \<Rightarrow> string list" where
  "result_lines pp r =
     [''## '' @ r_step r, []] @
     (if length (r_changes r) > 0 then
        [''### Changes applied ('' @ show_nat (length (r_changes r)) @ '')'', []] @
        concat (map (change_lines pp) (r_changes r)) @ [[]]
      else [''_No automatic changes in this step._'', []]) @
     (if length (r_warnings r) > 0 then
        [''### Manual attention required ('' @ show_nat (length (r_warnings r)) @ '')'', [],
         ''> These items were detected but require manual fixes:'', []] @
        map (warning_line pp) (r_warnings r) @ [[]]
      else []) @
     (if length (r_errors r) > 0 then
        [''### Errors'', []] @
        map (\<lambda>e. ''- **'' @ e_file e @ ''**: '' @ e_message e) (r_errors r) @ [[]]
      else []) @
     [''---'', []]"

text \<open>The lines of the report; \<open>now\<close> is the time stamp of the run.\<close>

definition report_lines :: "string \<Rightarrow> MigrationResult list \<Rightarrow> bool \<Rightarrow> string \<Rightarrow> string list" where
  "report_lines pp results dry now =
     [''# Angular Migration Report'', [],
      ''Generated: '' @ now,
      ''Mode: '' @ (if dry then ''DRY RUN (no files changed)'' else ''APPLIED''),
      [], ''---'', []] @
     concat (map (result_lines pp) results)"

text \<open>
  \<open>writeReport\<close> writes \<open>migration-report.md\<close> under the project path, whatever
  \<open>dryRun\<close> is.
\<close>

definition writeReport :: "string \<Rightarrow> MigrationResult list \<Rightarrow> bool \<Rightarrow> string \<Rightarrow> Disk \<Rightarrow> Disk" where
  "writeReport pp results dry now d = d\<lparr>reportFile := Some (report_lines pp results dry now)\<rparr>"

subsection \<open>migrate\<close>

text \<open>
  How a run ends: it throws before any step, it finds the project already at the target
  version, it finds no step to run, or it runs the selected steps and writes the report.
\<close>

datatype Outcome =
    Threw Thrown
  | NothingToDo
  | NoStepsFound
  | Completed "MigrationResult list"

definition stepsToRun :: "DominoSetup \<Rightarrow> int \<Rightarrow> int \<Rightarrow> MigrationStep list" where
  "stepsToRun removeDominoSetup currentVersion toV =
     filter (\<lambda>s. step_from s \<ge> currentVersion \<and> step_to s \<le> toV)
       (ALL_STEPS removeDominoSetup)"

text \<open>
  The project path is taken as given in absolute form. \<open>now\<close> is the clock reading that
  \<open>writeReport\<close> takes.
\<close>

definition migrate :: "DominoSetup \<Rightarrow> MigratorOptions \<Rightarrow> string \<Rightarrow> Disk \<Rightarrow> Outcome \<times> Disk" where
  "migrate removeDominoSetup options now d =
     (let absPath = opt_projectPath options;
          dry = or_default False (opt_dryRun options);
          skip = or_default False (opt_skipPackageJson options)
      in if \<not> projectDirExists d then (Threw (Error (''Project path does not exist: '' @ absPath)), d)
         else
           case (case opt_fromVersion options of
                   Some v \<Rightarrow> Inr v
                 | None \<Rightarrow> detectAngularVersion absPath d) of
             Inl e \<Rightarrow> (Threw e, d)
           | Inr currentVersion \<Rightarrow>
               (let toV = or_default 19 (opt_toVersion options)
                in if currentVersion \<ge> toV then (NothingToDo, d)
                   else
                     (let steps = stepsToRun removeDominoSetup currentVersion toV
                      in if length steps = 0 then (NoStepsFound, d)
                         else
                           (let (allResults, d1) = migrate_loop absPath dry skip steps [] d
                            in (Completed allResults, writeReport absPath allResults dry now d1)))))"

section \<open>Example projects\<close>

text \<open>A stand-in for \<open>removeDominoSetup\<close> that finds nothing to remove.\<close>

definition noDomino :: DominoSetup where
  "noDomino sfs ctx d = (Inr ([], sfs), d)"

definition emptyProject :: Disk where
  "emptyProject =
     \<lparr>projectDirExists = True, packageJson = None, angularJson = None, tsconfigError = None,
      tsFiles = [], reportFile = None\<rparr>"

definition options_from_to :: "int \<Rightarrow> int \<Rightarrow> bool \<Rightarrow> MigratorOptions" where
  "options_from_to v w dry =
     \<lparr>opt_projectPath = ''/app'', opt_fromVersion = Some v, opt_toVersion = Some w,
      opt_dryRun = Some dry, opt_skipPackageJson = None\<rparr>"

section \<open>Vocabulary of the properties\<close>

text \<open>The disk a rule of a step body leaves, whether it returns or throws.\<close>

fun end_disk :: "Thrown \<times> Disk + StepState \<Rightarrow> Disk" where
  "end_disk (Inl (e, d)) = d"
| "end_disk (Inr st) = st_disk st"

text \<open>A rule of a step body that leaves the disk as it found it.\<close>

definition keeps_disk :: "Rule \<Rightarrow> bool" where
  "keeps_disk r = (\<forall>st. end_disk (r st) = st_disk st)"

text \<open>
  What is asked of \<open>removeDominoSetup\<close> where a property speaks of a dry run: like
  the primitives whose source is given, it saves nothing when \<open>dryRun\<close> is set.
\<close>

definition dry_safe :: "DominoSetup \<Rightarrow> bool" where
  "dry_safe rds = (\<forall>sfs ctx d. dryRun ctx \<longrightarrow> snd (rds sfs ctx d) = d)"

text \<open>A project with a manifest and one component.\<close>

definition sampleComponent :: SourceFile where
  "sampleComponent =
     \<lparr>filePath = ''/app/src/app.component.ts'',
      sf_imports =
        [\<lparr>moduleSpecifier = ''@angular/core'', defaultImport = None, namespaceImport = None,
          namedImports = [\<lparr>is_name = ''Component'', is_alias = None\<rparr>]\<rparr>],
      sf_statements =
        [ClassStatement
           \<lparr>cls_name = Some ''AppComponent'',
            cls_decorators =
              [\<lparr>dec_name = ''Component'',
                dec_args = [ObjectLiteralExpression
                              [PropertyAssignment ''selector'' (StringLiteral ''app-root'')]]\<rparr>],
            cls_members = []\<rparr>]\<rparr>"

definition sampleProject :: Disk where
  "sampleProject =
     \<lparr>projectDirExists = True,
      packageJson = Some \<lparr>dependencies = Some [(''@angular/core'', ''^17.0.0'')],
                          devDependencies = None, peerDependencies = None\<rparr>,
      angularJson = None, tsconfigError = None, tsFiles = [sampleComponent], reportFile = None\<rparr>"

text \<open>
  Two states of a step body that agree on everything but the disk; two outcomes of a
  rule that both throw the same error or both return such states; and a pair of rules
  that take such states to such outcomes.
\<close>

definition same_memory :: "StepState \<Rightarrow> StepState \<Rightarrow> bool" where
  "same_memory st st' =
     (st_files st = st_files st' \<and> st_changes st = st_changes st' \<and> st_warnings st = st_warnings st')"

fun same_outcome :: "Thrown \<times> Disk + StepState \<Rightarrow> Thrown \<times> Disk + StepState \<Rightarrow> bool" where
  "same_outcome (Inl (e, d)) (Inl (e', d')) = (e = e')"
| "same_outcome (Inr st) (Inr st') = same_memory st st'"
| "same_outcome x y = False"

definition ignores_disk :: "Rule \<Rightarrow> Rule \<Rightarrow> bool" where
  "ignores_disk r r' = (\<forall>st st'. same_memory st st' \<longrightarrow> same_outcome (r st) (r' st'))"

text \<open>All the changes a run reports.\<close>

definition outcome_changes :: "Outcome \<Rightarrow> Change list" where
  "outcome_changes out = (case out of Completed rs \<Rightarrow> concat (map r_changes rs) | _ \<Rightarrow> [])"

text \<open>
  The texts of the identifier nodes of a tree, in source order, and those of the
  statements of a file.
\<close>

fun idents :: "Node \<Rightarrow> string list" where
  "idents (Identifier s) = [s]"
| "idents (StringLiteral s) = []"
| "idents (PropertyAccessExpression e n) = idents e @ [n]"
| "idents (CallExpression f args) = idents f @ concat (map idents args)"
| "idents (BinaryExpression l opr r) = idents l @ idents r"
| "idents (ObjectLiteralExpression ps) = concat (map idents ps)"
| "idents (PropertyAssignment n v) = n # idents v"
| "idents (ShorthandPropertyAssignment n) = [n]"
| "idents (ArrayLiteralExpression es) = concat (map idents es)"
| "idents (TypeReference n targs) = n # concat (map idents targs)"
| "idents (VariableDeclaration n cs) = n # concat (map idents cs)"
| "idents (OtherNode t cs) = concat (map idents cs)"

definition opt_name :: "string option \<Rightarrow> string list" where
  "opt_name t = (case t of None \<Rightarrow> [] | Some n \<Rightarrow> [n])"

definition opt_idents :: "Node option \<Rightarrow> string list" where
  "opt_idents t = (case t of None \<Rightarrow> [] | Some n \<Rightarrow> idents n)"

fun member_idents :: "ClassMember \<Rightarrow> string list" where
  "member_idents (ConstructorMember k) =
     concat (map (\<lambda>p. param_name p # opt_idents (param_type p)) (ctor_params k)) @
     concat (map idents (ctor_body k))"
| "member_idents (PropertyMember p) =
     prop_name p # opt_idents (prop_type p) @ opt_idents (prop_init p)"
| "member_idents (OtherMember n) = idents n"

definition cls_idents :: "ClassDeclaration \<Rightarrow> string list" where
  "cls_idents c =
     concat (map (\<lambda>dc. dec_name dc # concat (map idents (dec_args dc))) (cls_decorators c)) @
     opt_name (cls_name c) @
     concat (map member_idents (cls_members c))"

fun statement_idents :: "Statement \<Rightarrow> string list" where
  "statement_idents (ClassStatement c) = cls_idents c"
| "statement_idents (OtherStatement n) = idents n"

definition sf_idents :: "SourceFile \<Rightarrow> string list" where
  "sf_idents sf = concat (map statement_idents (sf_statements sf))"

text \<open>
  A tree with the texts of its identifier nodes blanked: what is left is its shape and
  everything in it that is not an identifier (string literals, operators, other text).
\<close>

fun blank :: "Node \<Rightarrow> Node" where
  "blank (Identifier s) = Identifier []"
| "blank (StringLiteral s) = StringLiteral s"
| "blank (PropertyAccessExpression e n) = PropertyAccessExpression (blank e) []"
| "blank (CallExpression f args) = CallExpression (blank f) (map blank args)"
| "blank (BinaryExpression l opr r) = BinaryExpression (blank l) opr (blank r)"
| "blank (ObjectLiteralExpression ps) = ObjectLiteralExpression (map blank ps)"
| "blank (PropertyAssignment n v) = PropertyAssignment [] (blank v)"
| "blank (ShorthandPropertyAssignment n) = ShorthandPropertyAssignment []"
| "blank (ArrayLiteralExpression es) = ArrayLiteralExpression (map blank es)"
| "blank (TypeReference n targs) = TypeReference [] (map blank targs)"
| "blank (VariableDeclaration n cs) = VariableDeclaration [] (map blank cs)"
| "blank (OtherNode t cs) = OtherNode t (map blank cs)"

fun blank_member :: "ClassMember \<Rightarrow> ClassMember" where
  "blank_member (ConstructorMember k) =
     ConstructorMember
       \<lparr>ctor_params = map (\<lambda>p. \<lparr>param_name = [], param_type = map_option blank (param_type p)\<rparr>)
                         (ctor_params k),
        ctor_body = map blank (ctor_body k)\<rparr>"
| "blank_member (PropertyMember p) =
     PropertyMember \<lparr>prop_name = [], prop_type = map_option blank (prop_type p),
                     prop_init = map_option blank (prop_init p)\<rparr>"
| "blank_member (OtherMember n) = OtherMember (blank n)"

fun blank_statement :: "Statement \<Rightarrow> Statement" where
  "blank_statement (ClassStatement c) =
     ClassStatement
       \<lparr>cls_name = map_option (\<lambda>n. []) (cls_name c),
        cls_decorators = map (\<lambda>dc. \<lparr>dec_name = [], dec_args = map blank (dec_args dc)\<rparr>)
                           (cls_decorators c),
        cls_members = map blank_member (cls_members c)\<rparr>"
| "blank_statement (OtherStatement n) = OtherStatement (blank n)"

text \<open>
  A test file that imports \<open>async\<close> from the testing module, calls it, and declares a
  class with a field of the same name whose initializer is the string \<open>'async'\<close>.
\<close>

definition asyncSpec :: SourceFile where
  "asyncSpec =
     \<lparr>filePath = ''/app/src/settings.spec.ts'',
      sf_imports =
        [\<lparr>moduleSpecifier = ''@angular/core/testing'', defaultImport = None, namespaceImport = None,
          namedImports = [\<lparr>is_name = ''async'', is_alias = None\<rparr>]\<rparr>],
      sf_statements =
        [ClassStatement
           \<lparr>cls_name = Some ''Settings'', cls_decorators = [],
            cls_members =
              [PropertyMember
                 \<lparr>prop_name = ''async'', prop_type = Some (OtherNode ''string'' []),
                  prop_init = Some (StringLiteral ''async'')\<rparr>]\<rparr>,
         OtherStatement
           (CallExpression (Identifier ''it'')
              [StringLiteral ''saves'',
               CallExpression (Identifier ''async'') [OtherNode ''() => {}'' []]])]\<rparr>"

text \<open>
  A symbol is importable from a module in a file when some import declaration of that
  module names it; \<open>binding_count\<close> counts the specifiers that do.
\<close>

definition importable_from :: "string \<Rightarrow> string \<Rightarrow> SourceFile \<Rightarrow> bool" where
  "importable_from m sy sf = (\<exists>imp \<in> set (sf_imports sf). imports_name_from m sy imp)"

definition binding_count :: "string \<Rightarrow> string \<Rightarrow> ImportDeclaration list \<Rightarrow> nat" where
  "binding_count m sy imps =
     length (filter (\<lambda>ni. is_name ni = sy)
               (concat (map namedImports (filter (\<lambda>imp. moduleSpecifier imp = m) imps))))"

text \<open>
  \<open>import { TransferState, TransferState as TS } from '@angular/platform-browser'\<close>, and
  the same file with the first specifier only.
\<close>

definition twoBindings :: SourceFile where
  "twoBindings =
     \<lparr>filePath = ''/app/src/state.service.ts'',
      sf_imports =
        [\<lparr>moduleSpecifier = ''@angular/platform-browser'', defaultImport = None,
          namespaceImport = None,
          namedImports = [\<lparr>is_name = ''TransferState'', is_alias = None\<rparr>,
                          \<lparr>is_name = ''TransferState'', is_alias = Some ''TS''\<rparr>]\<rparr>],
      sf_statements = []\<rparr>"

definition oneBinding :: SourceFile where
  "oneBinding =
     \<lparr>filePath = ''/app/src/state.service.ts'',
      sf_imports =
        [\<lparr>moduleSpecifier = ''@angular/platform-browser'', defaultImport = None,
          namespaceImport = None,
          namedImports = [\<lparr>is_name = ''TransferState'', is_alias = None\<rparr>]\<rparr>],
      sf_statements = []\<rparr>"

text \<open>
  The files that steps 1 and 2 of \<open>migrateComponentFactoryResolver\<close> leave, and the
  warnings they push.
\<close>

definition without_resolver_members :: "SourceFile \<Rightarrow> SourceFile" where
  "without_resolver_members sf =
     sf\<lparr>sf_statements := fst (remove_resolver_classes (filePath sf) (sf_statements sf))\<rparr>"

definition resolver_member_warnings :: "SourceFile \<Rightarrow> Warning list" where
  "resolver_member_warnings sf =
     fst (snd (remove_resolver_classes (filePath sf) (sf_statements sf)))"

text \<open>
  A component that gets the factory from a resolver, keeps it in a variable and passes
  the variable to \<open>createComponent\<close>: with the resolver injected through the
  constructor, as in the comment above \<open>migrateComponentFactoryResolver\<close>, and with a
  resolver from elsewhere.
\<close>

definition show_method :: Node where
  "show_method =
     OtherNode ''show()''
       [VariableDeclaration ''factory''
          [CallExpression
             (PropertyAccessExpression
                (PropertyAccessExpression (Identifier ''this'') ''resolver'')
                ''resolveComponentFactory'')
             [Identifier ''CardComponent'']],
        CallExpression (PropertyAccessExpression (Identifier ''vcr'') ''createComponent'')
          [Identifier ''factory'']]"

definition injectedHost :: SourceFile where
  "injectedHost =
     \<lparr>filePath = ''/app/src/host.component.ts'',
      sf_imports = [],
      sf_statements =
        [ClassStatement
           \<lparr>cls_name = Some ''HostComponent'', cls_decorators = [],
            cls_members =
              [ConstructorMember
                 \<lparr>ctor_params =
                     [\<lparr>param_name = ''resolver'',
                       param_type = Some (TypeReference ''ComponentFactoryResolver'' [])\<rparr>],
                   ctor_body = []\<rparr>,
               OtherMember show_method]\<rparr>]\<rparr>"

definition factoryHost :: SourceFile where
  "factoryHost =
     \<lparr>filePath = ''/app/src/host.component.ts'',
      sf_imports = [],
      sf_statements =
        [ClassStatement
           \<lparr>cls_name = Some ''HostComponent'', cls_decorators = [],
            cls_members = [OtherMember show_method]\<rparr>]\<rparr>"

text \<open>A project at version 15 whose one file binds \<open>TransferState\<close> twice.\<close>

definition dupProject :: Disk where
  "dupProject =
     \<lparr>projectDirExists = True,
      packageJson = Some \<lparr>dependencies = Some [(''@angular/core'', ''^15.2.0'')],
                          devDependencies = None, peerDependencies = None\<rparr>,
      angularJson = None, tsconfigError = None, tsFiles = [twoBindings], reportFile = None\<rparr>"

text \<open>Three of the example files as one list of source files.\<close>

definition sampleFiles :: "SourceFile list" where
  "sampleFiles = [oneBinding, asyncSpec, sampleComponent]"

text \<open>
  \<open>const standalone = true; @Component({ standalone, selector: 'app-card' })\<close>: the
  decorator sets the property in shorthand form.
\<close>

definition shorthandComponent :: SourceFile where
  "shorthandComponent =
     \<lparr>filePath = ''/app/src/card.component.ts'',
      sf_imports =
        [\<lparr>moduleSpecifier = ''@angular/core'', defaultImport = None, namespaceImport = None,
          namedImports = [\<lparr>is_name = ''Component'', is_alias = None\<rparr>]\<rparr>],
      sf_statements =
        [OtherStatement (OtherNode ''const'' [VariableDeclaration ''standalone'' [OtherNode ''true'' []]]),
         ClassStatement
           \<lparr>cls_name = Some ''CardComponent'',
            cls_decorators =
              [\<lparr>dec_name = ''Component'',
                dec_args = [ObjectLiteralExpression
                              [ShorthandPropertyAssignment ''standalone'',
                               PropertyAssignment ''selector'' (StringLiteral ''app-card'')]]\<rparr>],
            cls_members = []\<rparr>]\<rparr>"

text \<open>
  \<open>import { TransferState } from '@angular/platform-browser'\<close> in a file that has
  \<open>import * as core from '@angular/core'\<close>.
\<close>

definition namespaceTarget :: SourceFile where
  "namespaceTarget =
     \<lparr>filePath = ''/app/src/state.service.ts'',
      sf_imports =
        [\<lparr>moduleSpecifier = ''@angular/platform-browser'', defaultImport = None,
          namespaceImport = None,
          namedImports = [\<lparr>is_name = ''TransferState'', is_alias = None\<rparr>]\<rparr>,
         \<lparr>moduleSpecifier = ''@angular/core'', defaultImport = None,
          namespaceImport = Some ''core'', namedImports = []\<rparr>],
      sf_statements = []\<rparr>"

text \<open>
  \<open>import { TransferState as TS } from '@angular/platform-browser'\<close> and
  \<open>import { TransferState } from '@angular/core'\<close>: the file \<open>twoBindings\<close> after
  \<open>moveImport\<close>.
\<close>

definition twoModules :: SourceFile where
  "twoModules =
     \<lparr>filePath = ''/app/src/state.service.ts'',
      sf_imports =
        [\<lparr>moduleSpecifier = ''@angular/platform-browser'', defaultImport = None,
          namespaceImport = None,
          namedImports = [\<lparr>is_name = ''TransferState'', is_alias = Some ''TS''\<rparr>]\<rparr>,
         \<lparr>moduleSpecifier = ''@angular/core'', defaultImport = None,
          namespaceImport = None,
          namedImports = [\<lparr>is_name = ''TransferState'', is_alias = None\<rparr>]\<rparr>],
      sf_statements = []\<rparr>"

text \<open>
  The declaration \<open>addNamedImport\<close> is called on: the first declaration of the target
  module that is left when the old binding is removed.
\<close>

definition existingNewImport :: "string \<Rightarrow> string \<Rightarrow> string \<Rightarrow> SourceFile \<Rightarrow> ImportDeclaration option" where
  "existingNewImport sy fm tm sf =
     find (\<lambda>imp. moduleSpecifier imp = tm) (remove_binding fm sy (sf_imports sf))"

text \<open>
  A file none of whose constructor parameters and fields has the resolver type.
\<close>

definition no_resolver_members :: "SourceFile \<Rightarrow> bool" where
  "no_resolver_members sf =
     (\<forall>c \<in> set (sf_classes sf).
        (\<forall>k \<in> set (cls_ctors c). \<forall>p \<in> set (ctor_params k). \<not> is_resolver_type (param_type p)) \<and>
        (\<forall>p \<in> set (cls_properties c). \<not> is_resolver_type (prop_type p)))"

text \<open>
  The members of a class that are neither constructors nor properties, and the
  statements of a file that are not classes.
\<close>

fun other_member :: "ClassMember \<Rightarrow> Node list" where
  "other_member (OtherMember n) = [n]"
| "other_member m = []"

fun other_statement :: "Statement \<Rightarrow> Node list" where
  "other_statement (OtherStatement n) = [n]"
| "other_statement s = []"

text \<open>
  The same component with the directly nested call
  \<open>vcr.createComponent(resolver.resolveComponentFactory(CardComponent))\<close>.
\<close>

definition nestedHost :: SourceFile where
  "nestedHost =
     \<lparr>filePath = ''/app/src/host.component.ts'',
      sf_imports = [],
      sf_statements =
        [ClassStatement
           \<lparr>cls_name = Some ''HostComponent'', cls_decorators = [],
            cls_members =
              [OtherMember
                 (OtherNode ''show()''
                    [CallExpression (PropertyAccessExpression (Identifier ''vcr'') ''createComponent'')
                       [CallExpression
                          (PropertyAccessExpression (Identifier ''resolver'')
                             ''resolveComponentFactory'')
                          [Identifier ''CardComponent'']]])]\<rparr>]\<rparr>"

section \<open>Selection of steps\<close>

lemma step_from_to [simp]:
  "step_from v15ToV16 = 15" "step_to v15ToV16 = 16"
  "step_from (v16ToV17 rds) = 16" "step_to (v16ToV17 rds) = 17"
  "step_from v17ToV18 = 17" "step_to v17ToV18 = 18"
  "step_from v18ToV19 = 18" "step_to v18ToV19 = 19"
  by (simp_all add: v15ToV16_def v16ToV17_def v17ToV18_def v18ToV19_def)







section \<open>The loop over the steps\<close>

lemma migrate_loop_acc:
  "migrate_loop p dry skip steps acc d =
     (acc @ fst (migrate_loop p dry skip steps [] d), snd (migrate_loop p dry skip steps [] d))"
proof (induction steps arbitrary: acc d)
  case Nil
  show ?case by simp
next
  case (Cons s steps)
  obtain r d1 where t: "try_step p dry skip s d = (r, d1)" by (cases "try_step p dry skip s d")
  show ?case
    using Cons.IH [of "acc @ [r]" d1] Cons.IH [of "[r]" d1] by (simp add: t)
qed

lemma migrate_loop_Cons:
  "migrate_loop p dry skip (s # steps) [] d =
     (fst (try_step p dry skip s d) # fst (migrate_loop p dry skip steps [] (snd (try_step p dry skip s d))),
      snd (migrate_loop p dry skip steps [] (snd (try_step p dry skip s d))))"
proof -
  obtain r d1 where t: "try_step p dry skip s d = (r, d1)" by (cases "try_step p dry skip s d")
  show ?thesis using migrate_loop_acc [of p dry skip steps "[r]" d1] by (simp add: t)
qed

declare migrate_loop.simps(2) [simp del]

lemma migrate_loop_length:
  "length (fst (migrate_loop p dry skip steps [] d)) = length steps"
  by (induction steps arbitrary: d) (simp_all add: migrate_loop_Cons)

lemma migrate_loop_append:
  "migrate_loop p dry skip (pre @ post) [] d =
     (fst (migrate_loop p dry skip pre [] d) @
        fst (migrate_loop p dry skip post [] (snd (migrate_loop p dry skip pre [] d))),
      snd (migrate_loop p dry skip post [] (snd (migrate_loop p dry skip pre [] d))))"
  by (induction pre arbitrary: d) (simp_all add: migrate_loop_Cons)

lemma migrate_loop_nth:
  "fst (migrate_loop p dry skip (pre @ s # post) [] d) ! length pre =
     fst (try_step p dry skip s (snd (migrate_loop p dry skip pre [] d)))"
  by (simp add: migrate_loop_append migrate_loop_Cons nth_append migrate_loop_length)

lemma run_codemods_Inr:
  "run_codemods nm ctx rules cs d = (Inr r, d') \<Longrightarrow> r_step r = nm \<and> r_errors r = []"
  by (auto simp add: run_codemods_def Let_def split: sum.splits)

lemma step_result_name:
  assumes "s \<in> set (ALL_STEPS rds)" and "run s ctx d = (Inr r, d')"
  shows "r_step r = step_name s \<and> r_errors r = []"
proof -
  from assms(1) consider "s = v15ToV16" | "s = v16ToV17 rds" | "s = v17ToV18" | "s = v18ToV19"
    by (auto simp add: ALL_STEPS_def)
  then show ?thesis
  proof cases
    case 1
    with assms(2) show ?thesis
      by (auto simp add: v15ToV16_def split: prod.splits sum.splits dest: run_codemods_Inr)
  next
    case 2
    with assms(2) show ?thesis
      by (auto simp add: v16ToV17_def Let_def split: prod.splits sum.splits dest: run_codemods_Inr)
  next
    case 3
    with assms(2) show ?thesis
      by (auto simp add: v17ToV18_def split: prod.splits sum.splits dest: run_codemods_Inr)
  next
    case 4
    with assms(2) show ?thesis
      by (auto simp add: v18ToV19_def split: prod.splits sum.splits dest: run_codemods_Inr)
  qed
qed

lemma try_step_name:
  assumes "s \<in> set (ALL_STEPS rds)"
  shows "r_step (fst (try_step p dry skip s d)) = step_name s"
proof (cases "run s (step_ctx p dry skip s) d")
  case (Pair x d1)
  show ?thesis
  proof (cases x)
    case (Inl e)
    with Pair show ?thesis by (simp add: try_step_def failed_result_def)
  next
    case (Inr r)
    with Pair step_result_name [OF assms, of "step_ctx p dry skip s" d r d1] show ?thesis
      by (simp add: try_step_def)
  qed
qed

lemma migrate_loop_names:
  "set steps \<subseteq> set (ALL_STEPS rds) \<Longrightarrow>
   map r_step (fst (migrate_loop p dry skip steps [] d)) = map step_name steps"
  by (induction steps arbitrary: d) (auto simp add: migrate_loop_Cons intro: try_step_name)

lemma stepsToRun_subset: "set (stepsToRun rds cur tgt) \<subseteq> set (ALL_STEPS rds)"
  by (auto simp add: stepsToRun_def)

lemma try_step_throws:
  "run s (step_ctx p dry skip s) d = (Inl e, d1) \<Longrightarrow>
   try_step p dry skip s d =
     (\<lparr>r_step = step_name s, r_changes = [], r_warnings = [],
       r_errors = [\<lparr>e_file = ''migrator'', e_message = String_of_error e\<rparr>]\<rparr>, d1)"
  by (simp add: try_step_def failed_result_def)

lemma migrate_Completed:
  assumes "migrate rds options now d = (Completed results, d')"
  shows "\<exists>cur. (case opt_fromVersion options of Some v \<Rightarrow> Inr v
               | None \<Rightarrow> detectAngularVersion (opt_projectPath options) d) = Inr cur \<and>
           stepsToRun rds cur (or_default 19 (opt_toVersion options)) \<noteq> [] \<and>
           results = fst (migrate_loop (opt_projectPath options) (or_default False (opt_dryRun options))
                        (or_default False (opt_skipPackageJson options))
                        (stepsToRun rds cur (or_default 19 (opt_toVersion options))) [] d)"
  using assms
  by (auto simp add: migrate_def Let_def split: if_splits sum.splits prod.splits)

text \<open>
  C10. A run that executes steps ends with one result per selected step, in the order of
  selection, each carrying the name of its step. A step that throws contributes the
  result with no changes, no warnings and the one error record of the \<open>catch\<close> branch,
  so the number of results is the number of selected steps whatever fails.
\<close>

theorem one_result_per_step:
  assumes "migrate rds options now d = (Completed results, d')"
  shows "\<exists>cur. (case opt_fromVersion options of Some v \<Rightarrow> Inr v
               | None \<Rightarrow> detectAngularVersion (opt_projectPath options) d) = Inr cur \<and>
     stepsToRun rds cur (or_default 19 (opt_toVersion options)) \<noteq> [] \<and>
     length results = length (stepsToRun rds cur (or_default 19 (opt_toVersion options))) \<and>
     map r_step results = map step_name (stepsToRun rds cur (or_default 19 (opt_toVersion options))) \<and>
     (\<forall>pre s post e d1.
        stepsToRun rds cur (or_default 19 (opt_toVersion options)) = pre @ s # post \<and>
        run s (step_ctx (opt_projectPath options) (or_default False (opt_dryRun options))
                 (or_default False (opt_skipPackageJson options)) s)
          (snd (migrate_loop (opt_projectPath options) (or_default False (opt_dryRun options))
                  (or_default False (opt_skipPackageJson options)) pre [] d)) = (Inl e, d1)
        \<longrightarrow> results ! length pre =
              \<lparr>r_step = step_name s, r_changes = [], r_warnings = [],
               r_errors = [\<lparr>e_file = ''migrator'', e_message = String_of_error e\<rparr>]\<rparr>)"
proof -
  from migrate_Completed [OF assms] obtain cur where
    cur: "(case opt_fromVersion options of Some v \<Rightarrow> Inr v
               | None \<Rightarrow> detectAngularVersion (opt_projectPath options) d) = Inr cur"
    and ne: "stepsToRun rds cur (or_default 19 (opt_toVersion options)) \<noteq> []"
    and res: "results = fst (migrate_loop (opt_projectPath options) (or_default False (opt_dryRun options))
                        (or_default False (opt_skipPackageJson options))
                        (stepsToRun rds cur (or_default 19 (opt_toVersion options))) [] d)"
    by blast
  have len: "length results = length (stepsToRun rds cur (or_default 19 (opt_toVersion options)))"
    by (simp add: res migrate_loop_length)
  have names: "map r_step results = map step_name (stepsToRun rds cur (or_default 19 (opt_toVersion options)))"
    unfolding res by (rule migrate_loop_names [OF stepsToRun_subset])
  have thrown: "\<forall>pre s post e d1.
        stepsToRun rds cur (or_default 19 (opt_toVersion options)) = pre @ s # post \<and>
        run s (step_ctx (opt_projectPath options) (or_default False (opt_dryRun options))
                 (or_default False (opt_skipPackageJson options)) s)
          (snd (migrate_loop (opt_projectPath options) (or_default False (opt_dryRun options))
                  (or_default False (opt_skipPackageJson options)) pre [] d)) = (Inl e, d1)
        \<longrightarrow> results ! length pre =
              \<lparr>r_step = step_name s, r_changes = [], r_warnings = [],
               r_errors = [\<lparr>e_file = ''migrator'', e_message = String_of_error e\<rparr>]\<rparr>"
    by (auto simp add: res migrate_loop_nth try_step_throws)
  from cur ne len names thrown show ?thesis by blast
qed

lemma report_has_heading:
  "r \<in> set results \<Longrightarrow> (''## '' @ r_step r) \<in> set (report_lines pp results dry now)"
  by (auto simp add: report_lines_def result_lines_def)

lemma result_lines_error:
  assumes "e \<in> set (r_errors r)"
  shows "(''- **'' @ e_file e @ ''**: '' @ e_message e) \<in> set (result_lines pp r)"
proof -
  from assms have ne: "length (r_errors r) > 0" by (cases "r_errors r") auto
  have "(''- **'' @ e_file e @ ''**: '' @ e_message e) \<in>
          set (map (\<lambda>e. ''- **'' @ e_file e @ ''**: '' @ e_message e) (r_errors r))"
    using assms by (simp only: set_map) (rule imageI)
  with ne show ?thesis
    unfolding result_lines_def by (simp only: set_append if_True) blast
qed

lemma report_has_error:
  assumes "r \<in> set results" and "e \<in> set (r_errors r)"
  shows "(''- **'' @ e_file e @ ''**: '' @ e_message e) \<in> set (report_lines pp results dry now)"
proof -
  have "(''- **'' @ e_file e @ ''**: '' @ e_message e) \<in> set (concat (map (result_lines pp) results))"
    using assms(1) result_lines_error [OF assms(2), of pp] by (simp only: set_concat set_map) blast
  then show ?thesis unfolding report_lines_def by (simp only: set_append) blast
qed

lemma migrate_runs_steps:
  assumes "projectDirExists d"
    and "(case opt_fromVersion options of Some v \<Rightarrow> Inr v
          | None \<Rightarrow> detectAngularVersion (opt_projectPath options) d) = Inr cur"
    and "cur < or_default 19 (opt_toVersion options)"
    and "stepsToRun rds cur (or_default 19 (opt_toVersion options)) \<noteq> []"
  shows "migrate rds options now d =
     (Completed (fst (migrate_loop (opt_projectPath options) (or_default False (opt_dryRun options))
                        (or_default False (opt_skipPackageJson options))
                        (stepsToRun rds cur (or_default 19 (opt_toVersion options))) [] d)),
      writeReport (opt_projectPath options)
        (fst (migrate_loop (opt_projectPath options) (or_default False (opt_dryRun options))
                        (or_default False (opt_skipPackageJson options))
                        (stepsToRun rds cur (or_default 19 (opt_toVersion options))) [] d))
        (or_default False (opt_dryRun options)) now
        (snd (migrate_loop (opt_projectPath options) (or_default False (opt_dryRun options))
                        (or_default False (opt_skipPackageJson options))
                        (stepsToRun rds cur (or_default 19 (opt_toVersion options))) [] d)))"
  using assms by (simp add: migrate_def Let_def split: prod.splits)

text \<open>
  C8. When steps are selected the run always completes: for every selected step, in
  order, the result is that of the step run on the disk its predecessors left, or the
  step-level error record named after the step when its body throws; the steps after a
  failing one still run; and the report is written from all the results, with the heading
  of every step and the line of every such error. The loop does the same for any list of
  steps, whatever their bodies are: a step that throws leaves its error record at its
  place, and the steps after it run on the disk it left.
\<close>

theorem step_failure_does_not_abort:
  assumes "projectDirExists d"
    and "(case opt_fromVersion options of Some v \<Rightarrow> Inr v
          | None \<Rightarrow> detectAngularVersion (opt_projectPath options) d) = Inr cur"
    and "cur < or_default 19 (opt_toVersion options)"
    and "steps = stepsToRun rds cur (or_default 19 (opt_toVersion options))"
    and "steps \<noteq> []"
    and "p = opt_projectPath options"
    and "dry = or_default False (opt_dryRun options)"
    and "skip = or_default False (opt_skipPackageJson options)"
  shows "(\<exists>results d'.
     migrate rds options now d = (Completed results, d') \<and>
     reportFile d' = Some (report_lines p results dry now) \<and>
     length results = length steps \<and>
     (\<forall>pre s post. steps = pre @ s # post \<longrightarrow>
        results ! length pre = fst (try_step p dry skip s (snd (migrate_loop p dry skip pre [] d))) \<and>
        (''## '' @ step_name s) \<in> set (report_lines p results dry now) \<and>
        (\<forall>e d1. run s (step_ctx p dry skip s) (snd (migrate_loop p dry skip pre [] d)) = (Inl e, d1) \<longrightarrow>
           results ! length pre =
             \<lparr>r_step = step_name s, r_changes = [], r_warnings = [],
              r_errors = [\<lparr>e_file = ''migrator'', e_message = String_of_error e\<rparr>]\<rparr> \<and>
           (''- **migrator**: '' @ String_of_error e) \<in> set (report_lines p results dry now)))) \<and>
   (\<forall>any pre s post e d1.
      any = pre @ s # post \<and>
      run s (step_ctx p dry skip s) (snd (migrate_loop p dry skip pre [] d)) = (Inl e, d1) \<longrightarrow>
      length (fst (migrate_loop p dry skip any [] d)) = length any \<and>
      fst (migrate_loop p dry skip any [] d) ! length pre =
        \<lparr>r_step = step_name s, r_changes = [], r_warnings = [],
         r_errors = [\<lparr>e_file = ''migrator'', e_message = String_of_error e\<rparr>]\<rparr> \<and>
      snd (migrate_loop p dry skip any [] d) = snd (migrate_loop p dry skip post [] d1))"
proof -
  let ?results = "fst (migrate_loop p dry skip steps [] d)"
  let ?d1 = "snd (migrate_loop p dry skip steps [] d)"
  have m: "migrate rds options now d = (Completed ?results, writeReport p ?results dry now ?d1)"
    using migrate_runs_steps [OF assms(1) assms(2) assms(3)] assms(4-8) by simp
  have len: "length ?results = length steps" by (rule migrate_loop_length)
  have each: "\<forall>pre s post. steps = pre @ s # post \<longrightarrow>
        ?results ! length pre = fst (try_step p dry skip s (snd (migrate_loop p dry skip pre [] d))) \<and>
        (''## '' @ step_name s) \<in> set (report_lines p ?results dry now) \<and>
        (\<forall>e d1. run s (step_ctx p dry skip s) (snd (migrate_loop p dry skip pre [] d)) = (Inl e, d1) \<longrightarrow>
           ?results ! length pre =
             \<lparr>r_step = step_name s, r_changes = [], r_warnings = [],
              r_errors = [\<lparr>e_file = ''migrator'', e_message = String_of_error e\<rparr>]\<rparr> \<and>
           (''- **migrator**: '' @ String_of_error e) \<in> set (report_lines p ?results dry now))"
  proof (intro allI impI)
    fix pre s post
    assume split: "steps = pre @ s # post"
    have nth: "?results ! length pre = fst (try_step p dry skip s (snd (migrate_loop p dry skip pre [] d)))"
      unfolding split by (rule migrate_loop_nth)
    have mem: "?results ! length pre \<in> set ?results"
      using len split by (intro nth_mem) simp
    have "s \<in> set (ALL_STEPS rds)"
      using split assms(4) stepsToRun_subset [of rds cur "or_default 19 (opt_toVersion options)"] by auto
    then have nm: "r_step (?results ! length pre) = step_name s"
      unfolding nth by (rule try_step_name)
    have head: "(''## '' @ step_name s) \<in> set (report_lines p ?results dry now)"
      using report_has_heading [OF mem, of p dry now] nm by simp
    have thrown: "\<forall>e d1. run s (step_ctx p dry skip s) (snd (migrate_loop p dry skip pre [] d)) = (Inl e, d1) \<longrightarrow>
           ?results ! length pre =
             \<lparr>r_step = step_name s, r_changes = [], r_warnings = [],
              r_errors = [\<lparr>e_file = ''migrator'', e_message = String_of_error e\<rparr>]\<rparr> \<and>
           (''- **migrator**: '' @ String_of_error e) \<in> set (report_lines p ?results dry now)"
    proof (intro allI impI)
      fix e d1
      assume r: "run s (step_ctx p dry skip s) (snd (migrate_loop p dry skip pre [] d)) = (Inl e, d1)"
      have eq: "?results ! length pre =
             \<lparr>r_step = step_name s, r_changes = [], r_warnings = [],
              r_errors = [\<lparr>e_file = ''migrator'', e_message = String_of_error e\<rparr>]\<rparr>"
        unfolding nth using try_step_throws [OF r] by simp
      have "\<lparr>e_file = ''migrator'', e_message = String_of_error e\<rparr> \<in> set (r_errors (?results ! length pre))"
        unfolding eq by simp
      from report_has_error [OF mem this, of p dry now]
      have "(''- **migrator**: '' @ String_of_error e) \<in> set (report_lines p ?results dry now)" by simp
      with eq show "?results ! length pre =
             \<lparr>r_step = step_name s, r_changes = [], r_warnings = [],
              r_errors = [\<lparr>e_file = ''migrator'', e_message = String_of_error e\<rparr>]\<rparr> \<and>
           (''- **migrator**: '' @ String_of_error e) \<in> set (report_lines p ?results dry now)" by simp
    qed
    from nth head thrown
    show "?results ! length pre = fst (try_step p dry skip s (snd (migrate_loop p dry skip pre [] d))) \<and>
        (''## '' @ step_name s) \<in> set (report_lines p ?results dry now) \<and>
        (\<forall>e d1. run s (step_ctx p dry skip s) (snd (migrate_loop p dry skip pre [] d)) = (Inl e, d1) \<longrightarrow>
           ?results ! length pre =
             \<lparr>r_step = step_name s, r_changes = [], r_warnings = [],
              r_errors = [\<lparr>e_file = ''migrator'', e_message = String_of_error e\<rparr>]\<rparr> \<and>
           (''- **migrator**: '' @ String_of_error e) \<in> set (report_lines p ?results dry now))"
      by blast
  qed
  have rep: "reportFile (writeReport p ?results dry now ?d1) = Some (report_lines p ?results dry now)"
    by (simp add: writeReport_def)
  from m rep len each have pipeline: "\<exists>results d'.
     migrate rds options now d = (Completed results, d') \<and>
     reportFile d' = Some (report_lines p results dry now) \<and>
     length results = length steps \<and>
     (\<forall>pre s post. steps = pre @ s # post \<longrightarrow>
        results ! length pre = fst (try_step p dry skip s (snd (migrate_loop p dry skip pre [] d))) \<and>
        (''## '' @ step_name s) \<in> set (report_lines p results dry now) \<and>
        (\<forall>e d1. run s (step_ctx p dry skip s) (snd (migrate_loop p dry skip pre [] d)) = (Inl e, d1) \<longrightarrow>
           results ! length pre =
             \<lparr>r_step = step_name s, r_changes = [], r_warnings = [],
              r_errors = [\<lparr>e_file = ''migrator'', e_message = String_of_error e\<rparr>]\<rparr> \<and>
           (''- **migrator**: '' @ String_of_error e) \<in> set (report_lines p results dry now)))"
    by blast
  have loop: "\<forall>any pre s post e d1.
      any = pre @ s # post \<and>
      run s (step_ctx p dry skip s) (snd (migrate_loop p dry skip pre [] d)) = (Inl e, d1) \<longrightarrow>
      length (fst (migrate_loop p dry skip any [] d)) = length any \<and>
      fst (migrate_loop p dry skip any [] d) ! length pre =
        \<lparr>r_step = step_name s, r_changes = [], r_warnings = [],
         r_errors = [\<lparr>e_file = ''migrator'', e_message = String_of_error e\<rparr>]\<rparr> \<and>
      snd (migrate_loop p dry skip any [] d) = snd (migrate_loop p dry skip post [] d1)"
    by (auto simp add: migrate_loop_length migrate_loop_nth try_step_throws migrate_loop_append
          migrate_loop_Cons nth_append)
  from pipeline loop show ?thesis by (rule conjI)
qed

lemma stepsToRun_17_19: "stepsToRun rds 17 19 = [v17ToV18, v18ToV19]"
  by (simp add: stepsToRun_def ALL_STEPS_def)

lemma run_without_manifest:
  "run v17ToV18 (step_ctx p dry False v17ToV18) emptyProject =
     (Inl (Error (''package.json not found at '' @ p @ ''/package.json'')), emptyProject)"
  "run v18ToV19 (step_ctx p dry False v18ToV19) emptyProject =
     (Inl (Error (''package.json not found at '' @ p @ ''/package.json'')), emptyProject)"
  by (simp_all add: v17ToV18_def v18ToV19_def step_ctx_def updatePackageVersions_def
        readPackageJson_def emptyProject_def)

lemma step_name_simps [simp]:
  "step_name v15ToV16 = ''Angular 15 -> 16''" "step_name (v16ToV17 rds) = ''Angular 16 -> 17''"
  "step_name v17ToV18 = ''Angular 17 -> 18''" "step_name v18ToV19 = ''Angular 18 -> 19''"
  by (simp_all add: v15ToV16_def v16ToV17_def v17ToV18_def v18ToV19_def)

theorem one_result_per_step_witness:
  "\<exists>results d'.
     migrate noDomino (options_from_to 17 19 False) ''2026-01-01 00:00:00'' emptyProject =
       (Completed results, d') \<and>
     length results = 2 \<and>
     map r_step results = [''Angular 17 -> 18'', ''Angular 18 -> 19''] \<and>
     results ! 0 =
       \<lparr>r_step = ''Angular 17 -> 18'', r_changes = [], r_warnings = [],
        r_errors = [\<lparr>e_file = ''migrator'',
                     e_message = ''Error: package.json not found at /app/package.json''\<rparr>]\<rparr>"
proof -
  let ?opts = "options_from_to 17 19 False"
  have o: "opt_fromVersion ?opts = Some 17" "or_default 19 (opt_toVersion ?opts) = 19"
    "opt_projectPath ?opts = ''/app''" "or_default False (opt_dryRun ?opts) = False"
    "or_default False (opt_skipPackageJson ?opts) = False"
    by (simp_all add: options_from_to_def or_default_def)
  have ex: "projectDirExists emptyProject" by (simp add: emptyProject_def)
  obtain results d' where
    m: "migrate noDomino ?opts ''2026-01-01 00:00:00'' emptyProject = (Completed results, d')"
    using migrate_runs_steps [of emptyProject ?opts 17 noDomino "''2026-01-01 00:00:00''"] ex
    by (simp add: o stepsToRun_17_19)
  from one_result_per_step [OF m] obtain cur where
    c: "(case opt_fromVersion ?opts of Some v \<Rightarrow> Inr v
         | None \<Rightarrow> detectAngularVersion (opt_projectPath ?opts) emptyProject) = Inr cur"
    and l: "length results = length (stepsToRun noDomino cur (or_default 19 (opt_toVersion ?opts)))"
    and n: "map r_step results = map step_name (stepsToRun noDomino cur (or_default 19 (opt_toVersion ?opts)))"
    and t: "\<forall>pre s post e d1.
        stepsToRun noDomino cur (or_default 19 (opt_toVersion ?opts)) = pre @ s # post \<and>
        run s (step_ctx (opt_projectPath ?opts) (or_default False (opt_dryRun ?opts))
                 (or_default False (opt_skipPackageJson ?opts)) s)
          (snd (migrate_loop (opt_projectPath ?opts) (or_default False (opt_dryRun ?opts))
                  (or_default False (opt_skipPackageJson ?opts)) pre [] emptyProject)) = (Inl e, d1)
        \<longrightarrow> results ! length pre =
              \<lparr>r_step = step_name s, r_changes = [], r_warnings = [],
               r_errors = [\<lparr>e_file = ''migrator'', e_message = String_of_error e\<rparr>]\<rparr>"
    by (elim exE conjE) (rule that)
  from c have cur: "cur = 17" by (simp add: o)
  have "stepsToRun noDomino cur (or_default 19 (opt_toVersion ?opts)) = [] @ v17ToV18 # [v18ToV19] \<and>
        run v17ToV18 (step_ctx (opt_projectPath ?opts) (or_default False (opt_dryRun ?opts))
                 (or_default False (opt_skipPackageJson ?opts)) v17ToV18)
          (snd (migrate_loop (opt_projectPath ?opts) (or_default False (opt_dryRun ?opts))
                  (or_default False (opt_skipPackageJson ?opts)) [] [] emptyProject)) =
          (Inl (Error ''package.json not found at /app/package.json''), emptyProject)"
    using run_without_manifest(1) [of "''/app''" False] by (simp add: cur o stepsToRun_17_19)
  from t [rule_format, OF this]
  have r0: "results ! 0 =
       \<lparr>r_step = ''Angular 17 -> 18'', r_changes = [], r_warnings = [],
        r_errors = [\<lparr>e_file = ''migrator'',
                     e_message = ''Error: package.json not found at /app/package.json''\<rparr>]\<rparr>"
    by simp
  from l n have ln: "length results = 2" "map r_step results = [''Angular 17 -> 18'', ''Angular 18 -> 19'']"
    by (simp_all add: cur o stepsToRun_17_19)
  show ?thesis
    apply (rule exI [of _ results])
    apply (rule exI [of _ d'])
    using m r0 ln by simp
qed

theorem step_failure_does_not_abort_witness:
  "\<exists>results d'.
     migrate noDomino (options_from_to 17 19 False) ''2026-01-01 00:00:00'' emptyProject =
       (Completed results, d') \<and>
     reportFile d' = Some (report_lines ''/app'' results False ''2026-01-01 00:00:00'') \<and>
     length results = 2 \<and>
     results ! 0 =
       \<lparr>r_step = ''Angular 17 -> 18'', r_changes = [], r_warnings = [],
        r_errors = [\<lparr>e_file = ''migrator'',
                     e_message = ''Error: package.json not found at /app/package.json''\<rparr>]\<rparr> \<and>
     results ! 1 = fst (try_step ''/app'' False False v18ToV19 emptyProject) \<and>
     ''## Angular 18 -> 19'' \<in> set (report_lines ''/app'' results False ''2026-01-01 00:00:00'') \<and>
     ''- **migrator**: Error: package.json not found at /app/package.json''
        \<in> set (report_lines ''/app'' results False ''2026-01-01 00:00:00'')"
proof -
  let ?opts = "options_from_to 17 19 False"
  let ?now = "''2026-01-01 00:00:00''"
  have pre: "snd (migrate_loop ''/app'' False False [v17ToV18] [] emptyProject) = emptyProject"
    using run_without_manifest(1) [of "''/app''" False]
    by (simp add: migrate_loop_Cons try_step_def)
  have h1: "projectDirExists emptyProject" by (simp add: emptyProject_def)
  have h2: "(case opt_fromVersion ?opts of Some v \<Rightarrow> Inr v
          | None \<Rightarrow> detectAngularVersion (opt_projectPath ?opts) emptyProject) = Inr 17"
    by (simp add: options_from_to_def)
  have h3: "17 < or_default 19 (opt_toVersion ?opts)"
    by (simp add: options_from_to_def or_default_def)
  have h4: "[v17ToV18, v18ToV19] = stepsToRun noDomino 17 (or_default 19 (opt_toVersion ?opts))"
    by (simp add: options_from_to_def or_default_def stepsToRun_17_19)
  have h5: "[v17ToV18, v18ToV19] \<noteq> []" by simp
  have h6: "''/app'' = opt_projectPath ?opts" by (simp add: options_from_to_def)
  have h7: "False = or_default False (opt_dryRun ?opts)" by (simp add: options_from_to_def or_default_def)
  have h8: "False = or_default False (opt_skipPackageJson ?opts)"
    by (simp add: options_from_to_def or_default_def)
  from step_failure_does_not_abort [OF h1 h2 h3 h4 h5 h6 h7 h8, of ?now, THEN conjunct1]
  obtain results d' where
    m: "migrate noDomino ?opts ?now emptyProject = (Completed results, d')"
    and rep: "reportFile d' = Some (report_lines ''/app'' results False ?now)"
    and len: "length results = length [v17ToV18, v18ToV19]"
    and each: "\<forall>pre s post. [v17ToV18, v18ToV19] = pre @ s # post \<longrightarrow>
        results ! length pre =
          fst (try_step ''/app'' False False s (snd (migrate_loop ''/app'' False False pre [] emptyProject))) \<and>
        (''## '' @ step_name s) \<in> set (report_lines ''/app'' results False ?now) \<and>
        (\<forall>e d1. run s (step_ctx ''/app'' False False s)
                   (snd (migrate_loop ''/app'' False False pre [] emptyProject)) = (Inl e, d1) \<longrightarrow>
           results ! length pre =
             \<lparr>r_step = step_name s, r_changes = [], r_warnings = [],
              r_errors = [\<lparr>e_file = ''migrator'', e_message = String_of_error e\<rparr>]\<rparr> \<and>
           (''- **migrator**: '' @ String_of_error e) \<in> set (report_lines ''/app'' results False ?now))"
    by (elim exE conjE) (rule that)
  have s0: "[v17ToV18, v18ToV19] = [] @ v17ToV18 # [v18ToV19]" by simp
  have s1: "[v17ToV18, v18ToV19] = [v17ToV18] @ v18ToV19 # []" by simp
  have r0: "run v17ToV18 (step_ctx ''/app'' False False v17ToV18)
              (snd (migrate_loop ''/app'' False False [] [] emptyProject)) =
            (Inl (Error ''package.json not found at /app/package.json''), emptyProject)"
    using run_without_manifest(1) [of "''/app''" False] by simp
  from each [rule_format, OF s0] r0
  have a: "results ! 0 =
       \<lparr>r_step = ''Angular 17 -> 18'', r_changes = [], r_warnings = [],
        r_errors = [\<lparr>e_file = ''migrator'',
                     e_message = ''Error: package.json not found at /app/package.json''\<rparr>]\<rparr> \<and>
     ''- **migrator**: Error: package.json not found at /app/package.json''
        \<in> set (report_lines ''/app'' results False ?now)"
    by (simp add: try_step_def failed_result_def)
  from each [rule_format, OF s1]
  have b: "results ! 1 = fst (try_step ''/app'' False False v18ToV19 emptyProject) \<and>
     ''## Angular 18 -> 19'' \<in> set (report_lines ''/app'' results False ?now)"
    by (simp add: pre)
  show ?thesis
    apply (rule exI [of _ results])
    apply (rule exI [of _ d'])
    using m rep len a b by simp
qed

section \<open>Dry runs\<close>

lemma for_files_dry: "dryRun ctx \<Longrightarrow> snd (for_files f ctx sfs d) = d"
proof (induction sfs arbitrary: d)
  case Nil
  show ?case by simp
next
  case (Cons sf sfs)
  show ?case
  proof (cases "f sf")
    case (Inl e)
    then show ?thesis by simp
  next
    case (Inr edit)
    obtain sf' cs ws ch where e: "edit = (sf', cs, ws, ch)" by (cases edit)
    obtain x d2 where r: "for_files f ctx sfs d = (x, d2)" by (cases "for_files f ctx sfs d")
    with Cons.IH [OF Cons.prems, of d] have "d2 = d" by simp
    with Inr e r Cons.prems show ?thesis by (cases x) auto
  qed
qed

lemma changes_only_disk [simp]: "snd (changes_only r) = snd r"
  by (simp add: changes_only_def split: prod.splits sum.splits)

lemma prims_dry:
  assumes "dryRun ctx"
  shows "snd (renameNamedImport sfs m old new ctx d) = d"
    and "snd (moveImport sfs sy fm tm ctx d) = d"
    and "snd (removeObsoleteImport sfs m sy ctx d) = d"
    and "snd (removeFromNgModuleArrays sfs sy ctx d) = d"
    and "snd (migrateComponentFactoryResolver sfs ctx d) = d"
    and "snd (migrateCanLoadToCanMatch sfs ctx d) = d"
    and "snd (removeBrowserModuleWithServerTransition sfs ctx d) = d"
    and "snd (addStandaloneFalse sfs ctx d) = d"
    and "snd (migrateAsyncToWaitForAsync sfs ctx d) = d"
  using for_files_dry [OF assms]
  by (simp_all add: renameNamedImport_def moveImport_def removeObsoleteImport_def
        removeFromNgModuleArrays_def migrateComponentFactoryResolver_def
        migrateCanLoadToCanMatch_def removeBrowserModuleWithServerTransition_def
        addStandaloneFalse_def migrateAsyncToWaitForAsync_def)

lemma pkg_dry:
  assumes "dryRun ctx"
  shows "snd (updatePackageVersions ctx u d) = d"
    and "snd (replacePackageDependency ctx old new v d) = d"
    and "snd (migrateBrowserBuilderToApplication ctx d) = d"
    and "snd (removeDefaultProject ctx d) = d"
  using assms
  by (auto simp add: updatePackageVersions_def replacePackageDependency_def
        migrateBrowserBuilderToApplication_def removeDefaultProject_def Let_def
        split: sum.splits prod.splits option.splits Json.splits)

lemma zone_loop_dry: "dryRun ctx \<Longrightarrow> snd (zone_loop ctx fs d) = d"
  by (induction fs arbitrary: d) (simp_all add: Let_def case_prod_beta)

lemma fixZoneJsImports_dry: "dryRun ctx \<Longrightarrow> snd (fixZoneJsImports pp ctx d) = d"
  by (simp add: fixZoneJsImports_def zone_loop_dry)

lemma keeps_disk_push_changes_with:
  assumes "\<And>sfs d. snd (prim sfs d) = d"
  shows "keeps_disk (push_changes_with prim kw)"
  unfolding keeps_disk_def
proof
  fix st :: StepState
  obtain x d' where p: "prim (st_files st) (st_disk st) = (x, d')"
    by (cases "prim (st_files st) (st_disk st)")
  with assms [of "st_files st" "st_disk st"] have "d' = st_disk st" by simp
  with p show "end_disk (push_changes_with prim kw st) = st_disk st"
    by (cases x) (auto simp add: push_changes_with_def)
qed

lemma keeps_disk_push_both:
  assumes "\<And>sfs d. snd (prim sfs d) = d"
  shows "keeps_disk (push_both prim kc kw)"
  unfolding keeps_disk_def
proof
  fix st :: StepState
  obtain x d' where p: "prim (st_files st) (st_disk st) = (x, d')"
    by (cases "prim (st_files st) (st_disk st)")
  with assms [of "st_files st" "st_disk st"] have "d' = st_disk st" by simp
  with p show "end_disk (push_both prim kc kw st) = st_disk st"
    by (cases x) (auto simp add: push_both_def)
qed

lemma keeps_disk_push:
  "(\<And>sfs d. snd (prim sfs d) = d) \<Longrightarrow> keeps_disk (push_changes_with prim kw)"
  "(\<And>sfs d. snd (prim sfs d) = d) \<Longrightarrow> keeps_disk (push_changes prim)"
  "(\<And>sfs d. snd (prim2 sfs d) = d) \<Longrightarrow> keeps_disk (push_both prim2 kc kw2)"
  "keeps_disk (push_scan scan)"
  "keeps_disk (push_warning f m)"
  by (simp_all add: keeps_disk_push_changes_with keeps_disk_push_both push_changes_def)
     (simp_all add: keeps_disk_def push_scan_def push_warning_def)

lemma run_rules_keeps_disk:
  "(\<forall>r \<in> set rules. keeps_disk r) \<Longrightarrow> end_disk (run_rules rules st) = st_disk st"
proof (induction rules arbitrary: st)
  case Nil
  show ?case by simp
next
  case (Cons r rules)
  from Cons.prems have k: "end_disk (r st) = st_disk st" by (simp add: keeps_disk_def)
  show ?case
  proof (cases "r st")
    case (Inl x)
    with k show ?thesis by simp
  next
    case (Inr st')
    with k Cons.IH [of st'] Cons.prems show ?thesis by simp
  qed
qed

lemma rules_dry:
  assumes "dryRun ctx"
  shows "\<forall>r \<in> set (v15ToV16_rules ctx). keeps_disk r"
    and "dry_safe rds \<Longrightarrow> \<forall>r \<in> set (v16ToV17_rules rds ctx). keeps_disk r"
    and "\<forall>r \<in> set (v17ToV18_rules ctx). keeps_disk r"
    and "\<forall>r \<in> set (v18ToV19_rules ctx). keeps_disk r"
  using assms
  by (simp_all add: v15ToV16_rules_def v16ToV17_rules_def v17ToV18_rules_def v18ToV19_rules_def
        keeps_disk_push prims_dry dry_safe_def)

lemma run_codemods_dry:
  assumes "\<forall>r \<in> set rules. keeps_disk r"
  shows "snd (run_codemods nm ctx rules cs d) = d"
proof (cases "createTsProject (projectPath ctx) d")
  case (Inl e)
  then show ?thesis by (simp add: run_codemods_def)
next
  case (Inr project)
  let ?st = "\<lparr>st_files = getSourceFiles project, st_disk = d, st_changes = cs, st_warnings = []\<rparr>"
  from run_rules_keeps_disk [OF assms, of ?st] have "end_disk (run_rules rules ?st) = d" by simp
  with Inr show ?thesis
    by (cases "run_rules rules ?st") (auto simp add: run_codemods_def)
qed

lemma steps_dry:
  assumes "dryRun ctx"
  shows "snd (run v15ToV16 ctx d) = d"
    and "dry_safe rds \<Longrightarrow> snd (run (v16ToV17 rds) ctx d) = d"
    and "snd (run v17ToV18 ctx d) = d"
    and "snd (run v18ToV19 ctx d) = d"
  using pkg_dry [OF assms] fixZoneJsImports_dry [OF assms] rules_dry [OF assms]
  by (simp_all add: v15ToV16_def v16ToV17_def v17ToV18_def v18ToV19_def case_prod_beta Let_def
        run_codemods_dry split: sum.splits)

lemma all_steps_dry:
  "dry_safe rds \<Longrightarrow> s \<in> set (ALL_STEPS rds) \<Longrightarrow> dryRun ctx \<Longrightarrow> snd (run s ctx d) = d"
  by (auto simp add: ALL_STEPS_def steps_dry)

lemma try_step_dry:
  "dry_safe rds \<Longrightarrow> s \<in> set (ALL_STEPS rds) \<Longrightarrow> snd (try_step p True skip s d) = d"
  using all_steps_dry [of rds s "step_ctx p True skip s" d]
  by (simp add: try_step_def step_ctx_def case_prod_beta split: sum.splits)

lemma migrate_loop_dry:
  "dry_safe rds \<Longrightarrow> set steps \<subseteq> set (ALL_STEPS rds) \<Longrightarrow>
   snd (migrate_loop p True skip steps acc d) = d"
  by (induction steps arbitrary: acc d) (auto simp add: migrate_loop.simps case_prod_beta try_step_dry)

lemma stepsToRun_18_19: "stepsToRun rds 18 19 = [v18ToV19]"
  by (simp add: stepsToRun_def ALL_STEPS_def)

text \<open>
  C2, as stated, fails: a dry run that selects a step writes the report document.
\<close>

theorem dry_run_writes_report_counterexample:
  "reportFile sampleProject = None \<and>
   reportFile (snd (migrate noDomino (options_from_to 18 19 True) ''2026-01-01 00:00:00'' sampleProject)) \<noteq> None \<and>
   snd (migrate noDomino (options_from_to 18 19 True) ''2026-01-01 00:00:00'' sampleProject) \<noteq> sampleProject"
proof -
  have a: "reportFile sampleProject = None" by (simp add: sampleProject_def)
  have "reportFile (snd (migrate noDomino (options_from_to 18 19 True) ''2026-01-01 00:00:00'' sampleProject)) \<noteq> None"
    using migrate_runs_steps [of sampleProject "options_from_to 18 19 True" 18 noDomino "''2026-01-01 00:00:00''"]
    by (simp add: options_from_to_def or_default_def stepsToRun_18_19 sampleProject_def writeReport_def)
  with a show ?thesis by auto
qed

text \<open>
  C2, amended. In a dry run nothing under the project path is written except the report
  document: the manifest, the build configuration and every source file stay as they
  were, and the report is written from the results of the steps when steps were selected.
\<close>

theorem dry_run_persists_only_report:
  assumes "opt_dryRun options = Some True" and "dry_safe rds"
  shows "case fst (migrate rds options now d) of
           Completed results \<Rightarrow>
             snd (migrate rds options now d) =
               d\<lparr>reportFile := Some (report_lines (opt_projectPath options) results True now)\<rparr>
         | _ \<Rightarrow> snd (migrate rds options now d) = d"
  using assms migrate_loop_dry [OF assms(2) stepsToRun_subset]
  by (simp add: migrate_def Let_def or_default_def writeReport_def case_prod_beta split: sum.splits option.splits)

lemma noDomino_dry_safe: "dry_safe noDomino"
  by (simp add: dry_safe_def noDomino_def)

theorem dry_run_persists_only_report_witness:
  "opt_dryRun (options_from_to 18 19 True) = Some True \<and> dry_safe noDomino \<and>
   (\<exists>results.
      fst (migrate noDomino (options_from_to 18 19 True) ''2026-01-01 00:00:00'' sampleProject) =
        Completed results \<and>
      snd (migrate noDomino (options_from_to 18 19 True) ''2026-01-01 00:00:00'' sampleProject) =
        sampleProject\<lparr>reportFile := Some (report_lines ''/app'' results True ''2026-01-01 00:00:00'')\<rparr>)"
proof -
  let ?opts = "options_from_to 18 19 True"
  let ?now = "''2026-01-01 00:00:00''"
  have h1: "opt_dryRun ?opts = Some True" by (simp add: options_from_to_def)
  have pp: "opt_projectPath ?opts = ''/app''" by (simp add: options_from_to_def)
  obtain results where
    f: "fst (migrate noDomino ?opts ?now sampleProject) = Completed results"
    using migrate_runs_steps [of sampleProject ?opts 18 noDomino ?now]
    by (simp add: options_from_to_def or_default_def stepsToRun_18_19 sampleProject_def)
  from dry_run_persists_only_report [OF h1 noDomino_dry_safe, of ?now sampleProject]
  have "snd (migrate noDomino ?opts ?now sampleProject) =
        sampleProject\<lparr>reportFile := Some (report_lines ''/app'' results True ?now)\<rparr>"
    using pp by (simp add: f)
  with h1 noDomino_dry_safe f show ?thesis
    apply (intro conjI)
      apply assumption
     apply assumption
    apply (rule exI [of _ results])
    by simp
qed

section \<open>Preview and applied runs\<close>

lemma for_files_memory:
  "fst (for_files f ctx sfs d) = fst (for_files f ctx' sfs d')"
proof (induction sfs arbitrary: d d')
  case Nil
  show ?case by simp
next
  case (Cons sf sfs)
  show ?case
  proof (cases "f sf")
    case (Inl e)
    then show ?thesis by simp
  next
    case (Inr edit)
    obtain sf' cs ws ch where e: "edit = (sf', cs, ws, ch)" by (cases edit)
    let ?d1 = "if ch \<and> \<not> dryRun ctx then saveSync sf' d else d"
    let ?d1' = "if ch \<and> \<not> dryRun ctx' then saveSync sf' d' else d'"
    obtain x d2 where r: "for_files f ctx sfs ?d1 = (x, d2)" by (cases "for_files f ctx sfs ?d1")
    obtain x' d2' where r': "for_files f ctx' sfs ?d1' = (x', d2')"
      by (cases "for_files f ctx' sfs ?d1'")
    from Cons.IH [of ?d1 ?d1'] r r' have "x = x'" by simp
    with Inr e r r' show ?thesis by (cases x') auto
  qed
qed

lemma changes_only_fst:
  "fst r = fst r' \<Longrightarrow> fst (changes_only r) = fst (changes_only r')"
  by (cases r; cases r') (auto simp add: changes_only_def split: sum.splits)

lemma prims_memory:
  "fst (renameNamedImport sfs m old new ctx d) = fst (renameNamedImport sfs m old new ctx' d')"
  "fst (moveImport sfs sy fm tm ctx d) = fst (moveImport sfs sy fm tm ctx' d')"
  "fst (removeObsoleteImport sfs m sy ctx d) = fst (removeObsoleteImport sfs m sy ctx' d')"
  "fst (removeFromNgModuleArrays sfs sy ctx d) = fst (removeFromNgModuleArrays sfs sy ctx' d')"
  "fst (removeBrowserModuleWithServerTransition sfs ctx d) = fst (removeBrowserModuleWithServerTransition sfs ctx' d')"
  "fst (addStandaloneFalse sfs ctx d) = fst (addStandaloneFalse sfs ctx' d')"
  "fst (migrateAsyncToWaitForAsync sfs ctx d) = fst (migrateAsyncToWaitForAsync sfs ctx' d')"
  unfolding renameNamedImport_def moveImport_def removeObsoleteImport_def
    removeFromNgModuleArrays_def removeBrowserModuleWithServerTransition_def
    addStandaloneFalse_def migrateAsyncToWaitForAsync_def
  by (rule changes_only_fst for_files_memory)+

lemma ignores_disk_push_changes_with:
  assumes "\<And>sfs d d'. fst (prim sfs d) = fst (prim' sfs d')"
  shows "ignores_disk (push_changes_with prim kw) (push_changes_with prim' kw)"
  unfolding ignores_disk_def
proof (intro allI impI)
  fix st st' :: StepState
  assume m: "same_memory st st'"
  obtain x d1 where p: "prim (st_files st) (st_disk st) = (x, d1)"
    by (cases "prim (st_files st) (st_disk st)")
  obtain x' d1' where p': "prim' (st_files st') (st_disk st') = (x', d1')"
    by (cases "prim' (st_files st') (st_disk st')")
  from m have "st_files st = st_files st'" by (simp add: same_memory_def)
  with assms [of "st_files st'" "st_disk st" "st_disk st'"] p p' have "x = x'" by simp
  with p p' m show "same_outcome (push_changes_with prim kw st) (push_changes_with prim' kw st')"
    by (cases x') (auto simp add: push_changes_with_def same_memory_def)
qed

lemma ignores_disk_push_changes:
  assumes "\<And>sfs d d'. fst (prim sfs d) = fst (prim' sfs d')"
  shows "ignores_disk (push_changes prim) (push_changes prim')"
  unfolding push_changes_def using assms by (rule ignores_disk_push_changes_with)

lemma ignores_disk_push_both:
  assumes "\<And>sfs d d'. fst (prim sfs d) = fst (prim' sfs d')"
  shows "ignores_disk (push_both prim kc kw) (push_both prim' kc kw)"
  unfolding ignores_disk_def
proof (intro allI impI)
  fix st st' :: StepState
  assume m: "same_memory st st'"
  obtain x d1 where p: "prim (st_files st) (st_disk st) = (x, d1)"
    by (cases "prim (st_files st) (st_disk st)")
  obtain x' d1' where p': "prim' (st_files st') (st_disk st') = (x', d1')"
    by (cases "prim' (st_files st') (st_disk st')")
  from m have "st_files st = st_files st'" by (simp add: same_memory_def)
  with assms [of "st_files st'" "st_disk st" "st_disk st'"] p p' have "x = x'" by simp
  with p p' m show "same_outcome (push_both prim kc kw st) (push_both prim' kc kw st')"
    by (cases x') (auto simp add: push_both_def same_memory_def)
qed

lemma ignores_disk_scan:
  "ignores_disk (push_scan scan) (push_scan scan)"
  "ignores_disk (push_warning f m) (push_warning f m)"
  by (simp_all add: ignores_disk_def same_memory_def push_scan_def push_warning_def)

lemma run_rules_memory:
  "list_all2 ignores_disk rs rs' \<Longrightarrow> same_memory st st' \<Longrightarrow>
   same_outcome (run_rules rs st) (run_rules rs' st')"
proof (induction rs rs' arbitrary: st st' rule: list_all2_induct)
  case Nil
  then show ?case by simp
next
  case (Cons r rs r' rs')
  from Cons.hyps(1) Cons.prems have o: "same_outcome (r st) (r' st')"
    by (simp add: ignores_disk_def)
  show ?case
  proof (cases "r st")
    case (Inl x)
    with o show ?thesis by (cases "r' st'") auto
  next
    case (Inr st1)
    with o obtain st1' where r': "r' st' = Inr st1'" and m: "same_memory st1 st1'"
      by (cases "r' st'") auto
    from Cons.IH [OF m] Inr r' show ?thesis by simp
  qed
qed

lemma rules_memory:
  "list_all2 ignores_disk (v15ToV16_rules ctx) (v15ToV16_rules ctx')"
  "list_all2 ignores_disk (v17ToV18_rules ctx) (v17ToV18_rules ctx')"
  "list_all2 ignores_disk (v18ToV19_rules ctx) (v18ToV19_rules ctx')"
  by (simp_all add: v15ToV16_rules_def v17ToV18_rules_def v18ToV19_rules_def
        ignores_disk_push_changes_with ignores_disk_push_changes ignores_disk_push_both
        ignores_disk_scan prims_memory)

lemma run_codemods_memory:
  assumes "list_all2 ignores_disk rules rules'"
    and "tsconfigError d = tsconfigError d'" and "tsFiles d = tsFiles d'"
  shows "fst (run_codemods nm ctx rules cs d) = fst (run_codemods nm ctx' rules' cs d')"
proof (cases "tsconfigError d")
  case (Some e)
  with assms(2) have "tsconfigError d' = Some e" by simp
  with Some show ?thesis by (simp add: run_codemods_def createTsProject_def)
next
  case None
  let ?st = "\<lparr>st_files = getSourceFiles (tsFiles d), st_disk = d, st_changes = cs, st_warnings = []\<rparr>"
  let ?st' = "\<lparr>st_files = getSourceFiles (tsFiles d'), st_disk = d', st_changes = cs, st_warnings = []\<rparr>"
  have "same_memory ?st ?st'" using assms(3) by (simp add: same_memory_def)
  from None assms(2) have n': "tsconfigError d' = None" by simp
  from run_rules_memory [OF assms(1) \<open>same_memory ?st ?st'\<close>]
  have "same_outcome (run_rules rules ?st) (run_rules rules' ?st')" .
  then show ?thesis using None n'
    by (cases "run_rules rules ?st"; cases "run_rules rules' ?st'")
       (auto simp add: run_codemods_def createTsProject_def same_memory_def)
qed

lemma updatePackageVersions_memory:
  "fst (updatePackageVersions (ctx\<lparr>dryRun := b\<rparr>) u d) = fst (updatePackageVersions ctx u d)"
  "tsconfigError (snd (updatePackageVersions ctx u d)) = tsconfigError d"
  "tsFiles (snd (updatePackageVersions ctx u d)) = tsFiles d"
  by (simp_all add: updatePackageVersions_def readPackageJson_def writePackageJson_def
        case_prod_beta Let_def split: option.splits)

lemma step_parity:
  "fst (run v15ToV16 (ctx\<lparr>dryRun := True\<rparr>) d) = fst (run v15ToV16 (ctx\<lparr>dryRun := False\<rparr>) d)"
  "fst (run v17ToV18 (ctx\<lparr>dryRun := True\<rparr>) d) = fst (run v17ToV18 (ctx\<lparr>dryRun := False\<rparr>) d)"
  "fst (run v18ToV19 (ctx\<lparr>dryRun := True\<rparr>) d) = fst (run v18ToV19 (ctx\<lparr>dryRun := False\<rparr>) d)"
proof -
  have rc: "\<And>nm rules rules' cs u.
      list_all2 ignores_disk rules rules' \<Longrightarrow>
      fst (run_codemods nm (ctx\<lparr>dryRun := True\<rparr>) rules cs (snd (updatePackageVersions (ctx\<lparr>dryRun := True\<rparr>) u d))) =
      fst (run_codemods nm (ctx\<lparr>dryRun := False\<rparr>) rules' cs (snd (updatePackageVersions (ctx\<lparr>dryRun := False\<rparr>) u d)))"
    by (rule run_codemods_memory) (simp_all add: updatePackageVersions_memory)
  show "fst (run v15ToV16 (ctx\<lparr>dryRun := True\<rparr>) d) = fst (run v15ToV16 (ctx\<lparr>dryRun := False\<rparr>) d)"
    using rc [OF rules_memory(1)] updatePackageVersions_memory(1)
    by (simp add: v15ToV16_def case_prod_beta split: sum.splits)
  show "fst (run v17ToV18 (ctx\<lparr>dryRun := True\<rparr>) d) = fst (run v17ToV18 (ctx\<lparr>dryRun := False\<rparr>) d)"
    using rc [OF rules_memory(2)] updatePackageVersions_memory(1)
    by (simp add: v17ToV18_def case_prod_beta split: sum.splits)
  show "fst (run v18ToV19 (ctx\<lparr>dryRun := True\<rparr>) d) = fst (run v18ToV19 (ctx\<lparr>dryRun := False\<rparr>) d)"
    using rc [OF rules_memory(3)] updatePackageVersions_memory(1)
    by (simp add: v18ToV19_def case_prod_beta split: sum.splits)
qed

lemma try_step_parity:
  assumes "s \<in> {v15ToV16, v17ToV18, v18ToV19}"
  shows "fst (try_step p True skip s d) = fst (try_step p False skip s d)"
proof -
  have c: "step_ctx p True skip s = (step_ctx p True skip s)\<lparr>dryRun := True\<rparr>"
    "step_ctx p False skip s = (step_ctx p True skip s)\<lparr>dryRun := False\<rparr>"
    by (simp_all add: step_ctx_def)
  have "fst (run s (step_ctx p True skip s) d) = fst (run s (step_ctx p False skip s) d)"
    using assms step_parity [of "step_ctx p True skip s" d] c by auto
  then show ?thesis
    by (simp add: try_step_def case_prod_beta split: sum.splits)
qed

text \<open>
  C3, as stated, fails on a run of two steps: the second step reads the manifest from
  the disk, which only the applied run has updated, and reports another change.
\<close>

theorem preview_parity_counterexample:
  "set (outcome_changes (fst (migrate noDomino (options_from_to 17 19 True) ''2026-01-01 00:00:00'' sampleProject))) \<noteq>
   set (outcome_changes (fst (migrate noDomino (options_from_to 17 19 False) ''2026-01-01 00:00:00'' sampleProject)))"
  by code_simp

text \<open>
  C3, amended. For each of the steps 15-16, 17-18 and 18-19 and any project state, the
  result of the step in a dry run is the result of the step in an applied run, and a run
  that selects that one step reports the same results in both modes.
\<close>

theorem preview_parity_single_step:
  assumes "s \<in> {v15ToV16, v17ToV18, v18ToV19}"
  shows "fst (run s (ctx\<lparr>dryRun := True\<rparr>) d) = fst (run s (ctx\<lparr>dryRun := False\<rparr>) d) \<and>
     (stepsToRun rds cur (or_default 19 (opt_toVersion options)) = [s] \<and>
      (case opt_fromVersion options of Some v \<Rightarrow> Inr v
       | None \<Rightarrow> detectAngularVersion (opt_projectPath options) d) = Inr cur
      \<longrightarrow> fst (migrate rds (options\<lparr>opt_dryRun := Some True\<rparr>) now d) =
          fst (migrate rds (options\<lparr>opt_dryRun := Some False\<rparr>) now d))"
proof
  show "fst (run s (ctx\<lparr>dryRun := True\<rparr>) d) = fst (run s (ctx\<lparr>dryRun := False\<rparr>) d)"
    using assms step_parity [of ctx d] by auto
  show "stepsToRun rds cur (or_default 19 (opt_toVersion options)) = [s] \<and>
      (case opt_fromVersion options of Some v \<Rightarrow> Inr v
       | None \<Rightarrow> detectAngularVersion (opt_projectPath options) d) = Inr cur
      \<longrightarrow> fst (migrate rds (options\<lparr>opt_dryRun := Some True\<rparr>) now d) =
          fst (migrate rds (options\<lparr>opt_dryRun := Some False\<rparr>) now d)"
    using try_step_parity [OF assms]
    by (simp add: migrate_def Let_def or_default_def migrate_loop.simps case_prod_beta)
qed

theorem preview_parity_single_step_witness:
  "v18ToV19 \<in> {v15ToV16, v17ToV18, v18ToV19} \<and>
   stepsToRun noDomino 18 19 = [v18ToV19] \<and>
   fst (migrate noDomino (options_from_to 18 19 True) ''2026-01-01 00:00:00'' sampleProject) =
   fst (migrate noDomino (options_from_to 18 19 False) ''2026-01-01 00:00:00'' sampleProject)"
proof -
  let ?opts = "options_from_to 18 19 False"
  have h: "v18ToV19 \<in> {v15ToV16, v17ToV18, v18ToV19}" by simp
  have o: "?opts\<lparr>opt_dryRun := Some True\<rparr> = options_from_to 18 19 True"
    "?opts\<lparr>opt_dryRun := Some False\<rparr> = options_from_to 18 19 False"
    by (simp_all add: options_from_to_def)
  have sel: "stepsToRun noDomino 18 (or_default 19 (opt_toVersion ?opts)) = [v18ToV19] \<and>
      (case opt_fromVersion ?opts of Some v \<Rightarrow> Inr v
       | None \<Rightarrow> detectAngularVersion (opt_projectPath ?opts) sampleProject) = Inr 18"
    by (simp add: options_from_to_def or_default_def stepsToRun_18_19)
  from preview_parity_single_step [OF h, of _ sampleProject noDomino 18 ?opts "''2026-01-01 00:00:00''"] sel
  have "fst (migrate noDomino (?opts\<lparr>opt_dryRun := Some True\<rparr>) ''2026-01-01 00:00:00'' sampleProject) =
        fst (migrate noDomino (?opts\<lparr>opt_dryRun := Some False\<rparr>) ''2026-01-01 00:00:00'' sampleProject)"
    by blast
  then show ?thesis using h stepsToRun_18_19 [of noDomino] by (simp only: o)
qed

section \<open>Renaming a named import\<close>

lemma idents_rename_node: "idents (rename_node old new n) = map (rename_str old new) (idents n)"
  by (induction n) (simp_all add: map_concat comp_def cong: map_cong)

lemma blank_rename_node: "blank (rename_node old new n) = blank n"
  by (induction n) (simp_all cong: map_cong)

lemma opt_name_rename:
  "opt_name (map_option (rename_str old new) t) = map (rename_str old new) (opt_name t)"
  by (cases t) (simp_all add: opt_name_def)

lemma opt_idents_rename:
  "opt_idents (map_option (rename_node old new) t) = map (rename_str old new) (opt_idents t)"
  by (cases t) (simp_all add: opt_idents_def idents_rename_node)

lemma opt_blank_rename:
  "map_option blank (map_option (rename_node old new) t) = map_option blank t"
  by (cases t) (simp_all add: blank_rename_node)

lemma member_idents_rename:
  "member_idents (rename_member old new mb) = map (rename_str old new) (member_idents mb)"
  by (cases mb)
     (simp_all add: rename_ctor_def rename_parameter_def rename_property_def map_concat comp_def
        idents_rename_node opt_idents_rename)

lemma blank_member_rename: "blank_member (rename_member old new mb) = blank_member mb"
  by (cases mb)
     (simp_all add: rename_ctor_def rename_parameter_def rename_property_def comp_def
        blank_rename_node opt_blank_rename)

lemma cls_idents_rename:
  "cls_idents (rename_class old new c) = map (rename_str old new) (cls_idents c)"
  by (simp add: cls_idents_def opt_name_rename rename_class_def rename_decorator_def
        map_concat comp_def idents_rename_node member_idents_rename)

lemma statement_idents_rename:
  "statement_idents (rename_statement old new s) = map (rename_str old new) (statement_idents s)"
  by (cases s) (simp_all add: cls_idents_rename idents_rename_node)

lemma blank_statement_rename: "blank_statement (rename_statement old new s) = blank_statement s"
  by (cases s)
     (simp_all add: rename_class_def rename_decorator_def comp_def blank_rename_node
        blank_member_rename option.map_comp)

lemma sf_idents_rename:
  "sf_idents (rename_usages old new sf) = map (rename_str old new) (sf_idents sf)"
  by (simp add: sf_idents_def rename_usages_def map_concat comp_def statement_idents_rename)

lemma rename_specifiers_absent:
  "\<not> (\<exists>ni \<in> set (namedImports imp). is_name ni = old) \<Longrightarrow> rename_specifiers old new imp = imp"
  by (simp add: rename_specifiers_def map_idI)

lemma rename_imports_absent:
  "\<not> (\<exists>imp \<in> set imps. imports_name_from m old imp) \<Longrightarrow>
   map (\<lambda>imp. if moduleSpecifier imp = m then rename_specifiers old new imp else imp) imps = imps"
  by (rule map_idI) (auto simp add: imports_name_from_def rename_specifiers_absent)

lemma renameNamedImport_file_absent:
  "\<not> importable_from m old sf \<Longrightarrow> renameNamedImport_file m old new sf = (sf, [], [], False)"
  by (simp add: renameNamedImport_file_def Let_def rename_imports_absent importable_from_def)

lemma for_files_noop:
  "(\<forall>sf \<in> set sfs. f sf = Inr (sf, [], [], False)) \<Longrightarrow>
   for_files f ctx sfs d = (Inr (([], []), sfs), d)"
  by (induction sfs arbitrary: d) simp_all

text \<open>
  C4, as stated, fails: the field \<open>async\<close> of the class is a declaration of its own,
  and the rename takes it along with the usages of the import.
\<close>

theorem rename_unrelated_declaration_counterexample:
  "map prop_name (concat (map cls_properties (sf_classes asyncSpec))) = [''async''] \<and>
   map prop_name
     (concat (map cls_properties
        (sf_classes (fst (renameNamedImport_file ''@angular/core/testing'' ''async'' ''waitForAsync''
                            asyncSpec))))) = [''waitForAsync'']"
  by code_simp

text \<open>
  C4, amended. A file without an import of the old name from the module is returned as it
  is, with no change and no error, and a run over such files returns them with no change.
  In a file with such an import one change is reported and only identifiers are
  rewritten: the specifiers of that name in the declarations of the module are renamed;
  outside the import specifiers every identifier whose text is the old name becomes the
  new name, whatever it belongs to (the name of a default or namespace import, and every
  identifier of the statements), while every other identifier keeps its text; and with
  the identifiers blanked the statements are what they were, so that string literals,
  operators, other text and the shape of the trees are untouched.
\<close>

theorem rename_touches_matching_identifiers:
  "(\<not> importable_from m old sf \<longrightarrow>
      renameNamedImport_file m old new sf = (sf, [], [], False)) \<and>
   ((\<forall>sf \<in> set sfs. \<not> importable_from m old sf) \<longrightarrow>
      renameNamedImport sfs m old new ctx d = (Inr ([], sfs), d)) \<and>
   (importable_from m old sf \<longrightarrow>
      (\<exists>sf'. renameNamedImport_file m old new sf =
               (sf',
                [mk_change (filePath sf)
                   (old @ '' -> '' @ new @ '' (import from '' @ quoted m @ '')'')],
                [], True) \<and>
         filePath sf' = filePath sf \<and>
         map moduleSpecifier (sf_imports sf') = map moduleSpecifier (sf_imports sf) \<and>
         map namedImports (sf_imports sf') =
           map (\<lambda>imp. if moduleSpecifier imp = m
                      then map (\<lambda>ni. if is_name ni = old then ni\<lparr>is_name := new\<rparr> else ni)
                             (namedImports imp)
                      else namedImports imp)
             (sf_imports sf) \<and>
         map defaultImport (sf_imports sf') =
           map (\<lambda>imp. map_option (rename_str old new) (defaultImport imp)) (sf_imports sf) \<and>
         map namespaceImport (sf_imports sf') =
           map (\<lambda>imp. map_option (rename_str old new) (namespaceImport imp)) (sf_imports sf) \<and>
         sf_idents sf' = map (rename_str old new) (sf_idents sf) \<and>
         map blank_statement (sf_statements sf') = map blank_statement (sf_statements sf)))"
proof (intro conjI impI)
  assume "\<not> importable_from m old sf"
  then show "renameNamedImport_file m old new sf = (sf, [], [], False)"
    by (rule renameNamedImport_file_absent)
next
  assume "\<forall>sf \<in> set sfs. \<not> importable_from m old sf"
  then have "\<forall>sf \<in> set sfs. Inr (renameNamedImport_file m old new sf) = Inr (sf, [], [], False)"
    by (simp add: renameNamedImport_file_absent)
  from for_files_noop [of sfs "\<lambda>sf. Inr (renameNamedImport_file m old new sf)", OF this]
  show "renameNamedImport sfs m old new ctx d = (Inr ([], sfs), d)"
    by (simp add: renameNamedImport_def changes_only_def)
next
  assume i: "importable_from m old sf"
  let ?sf1 = "sf\<lparr>sf_imports :=
                  map (\<lambda>imp. if moduleSpecifier imp = m then rename_specifiers old new imp else imp)
                    (sf_imports sf)\<rparr>"
  let ?sf' = "rename_usages old new ?sf1"
  from i have r: "renameNamedImport_file m old new sf =
      (?sf', [mk_change (filePath sf) (old @ '' -> '' @ new @ '' (import from '' @ quoted m @ '')'')],
       [], True)"
    by (simp add: renameNamedImport_file_def Let_def importable_from_def quoted_def)
  have p: "filePath ?sf' = filePath sf" by (simp add: rename_usages_def)
  have ms: "map moduleSpecifier (sf_imports ?sf') = map moduleSpecifier (sf_imports sf)"
    by (simp add: rename_usages_def rename_specifiers_def comp_def)
  have ni: "map namedImports (sf_imports ?sf') =
        map (\<lambda>imp. if moduleSpecifier imp = m
                   then map (\<lambda>ni. if is_name ni = old then ni\<lparr>is_name := new\<rparr> else ni)
                          (namedImports imp)
                   else namedImports imp)
          (sf_imports sf)"
    by (simp add: rename_usages_def rename_specifiers_def comp_def if_distrib cong: if_cong)
  have di: "map defaultImport (sf_imports ?sf') =
        map (\<lambda>imp. map_option (rename_str old new) (defaultImport imp)) (sf_imports sf)"
    by (simp add: rename_usages_def rename_specifiers_def comp_def if_distrib cong: if_cong)
  have ns: "map namespaceImport (sf_imports ?sf') =
        map (\<lambda>imp. map_option (rename_str old new) (namespaceImport imp)) (sf_imports sf)"
    by (simp add: rename_usages_def rename_specifiers_def comp_def if_distrib cong: if_cong)
  have ids: "sf_idents ?sf' = map (rename_str old new) (sf_idents sf)"
    by (simp add: sf_idents_rename) (simp add: sf_idents_def)
  have bl: "map blank_statement (sf_statements ?sf') = map blank_statement (sf_statements sf)"
    by (simp add: rename_usages_def comp_def blank_statement_rename)
  from r p ms ni di ns ids bl
  show "\<exists>sf'. renameNamedImport_file m old new sf =
               (sf',
                [mk_change (filePath sf)
                   (old @ '' -> '' @ new @ '' (import from '' @ quoted m @ '')'')],
                [], True) \<and>
         filePath sf' = filePath sf \<and>
         map moduleSpecifier (sf_imports sf') = map moduleSpecifier (sf_imports sf) \<and>
         map namedImports (sf_imports sf') =
           map (\<lambda>imp. if moduleSpecifier imp = m
                      then map (\<lambda>ni. if is_name ni = old then ni\<lparr>is_name := new\<rparr> else ni)
                             (namedImports imp)
                      else namedImports imp)
             (sf_imports sf) \<and>
         map defaultImport (sf_imports sf') =
           map (\<lambda>imp. map_option (rename_str old new) (defaultImport imp)) (sf_imports sf) \<and>
         map namespaceImport (sf_imports sf') =
           map (\<lambda>imp. map_option (rename_str old new) (namespaceImport imp)) (sf_imports sf) \<and>
         sf_idents sf' = map (rename_str old new) (sf_idents sf) \<and>
         map blank_statement (sf_statements sf') = map blank_statement (sf_statements sf)"
    by (intro exI [of _ ?sf'] conjI)
qed

theorem rename_touches_matching_identifiers_witness:
  "renameNamedImport_file ''@angular/core/testing'' ''async'' ''waitForAsync'' sampleComponent =
     (sampleComponent, [], [], False) \<and>
   renameNamedImport [sampleComponent] ''@angular/core/testing'' ''async'' ''waitForAsync''
       (step_ctx ''/app'' False False v17ToV18) sampleProject =
     (Inr ([], [sampleComponent]), sampleProject) \<and>
   importable_from ''@angular/core/testing'' ''async'' asyncSpec \<and>
   sf_idents asyncSpec = [''Settings'', ''async'', ''it'', ''async''] \<and>
   sf_idents (fst (renameNamedImport_file ''@angular/core/testing'' ''async'' ''waitForAsync'' asyncSpec)) =
     [''Settings'', ''waitForAsync'', ''it'', ''waitForAsync''] \<and>
   map blank_statement
     (sf_statements (fst (renameNamedImport_file ''@angular/core/testing'' ''async'' ''waitForAsync''
                            asyncSpec))) =
     map blank_statement (sf_statements asyncSpec)"
proof -
  let ?m = "''@angular/core/testing''"
  have no: "\<not> importable_from ?m ''async'' sampleComponent"
    by (simp add: sampleComponent_def imports_name_from_def importable_from_def)
  then have nos: "\<forall>sf \<in> set [sampleComponent]. \<not> importable_from ?m ''async'' sf"
    by simp
  have yes: "importable_from ?m ''async'' asyncSpec"
    by (simp add: asyncSpec_def imports_name_from_def importable_from_def)
  have ids: "sf_idents asyncSpec = [''Settings'', ''async'', ''it'', ''async'']"
    by (simp add: asyncSpec_def sf_idents_def cls_idents_def opt_name_def opt_idents_def)
  from rename_touches_matching_identifiers
         [of ?m "''async''" sampleComponent "''waitForAsync''" "[sampleComponent]"
             "step_ctx ''/app'' False False v17ToV18" sampleProject] no nos
  have a: "renameNamedImport_file ?m ''async'' ''waitForAsync'' sampleComponent =
             (sampleComponent, [], [], False)"
    and b: "renameNamedImport [sampleComponent] ?m ''async'' ''waitForAsync''
              (step_ctx ''/app'' False False v17ToV18) sampleProject =
            (Inr ([], [sampleComponent]), sampleProject)"
    by blast+
  from rename_touches_matching_identifiers
         [of ?m "''async''" asyncSpec "''waitForAsync''" "[]"
             "step_ctx ''/app'' False False v17ToV18" sampleProject] yes
  obtain sf' where
    r: "fst (renameNamedImport_file ?m ''async'' ''waitForAsync'' asyncSpec) = sf'"
    and i: "sf_idents sf' = map (rename_str ''async'' ''waitForAsync'') (sf_idents asyncSpec)"
    and bl: "map blank_statement (sf_statements sf') = map blank_statement (sf_statements asyncSpec)"
    by auto
  from i have c: "sf_idents sf' = [''Settings'', ''waitForAsync'', ''it'', ''waitForAsync'']"
    by (simp add: ids rename_str_def)
  from a b yes ids c bl show ?thesis unfolding r by (intro conjI)
qed

section \<open>Moving an import\<close>

lemma add_binding_importable:
  "add_binding tm sy imps = Inr imps' \<Longrightarrow> \<exists>imp \<in> set imps'. imports_name_from tm sy imp"
  by (induction imps arbitrary: imps')
     (auto simp add: imports_name_from_def split: if_splits sum.splits)

lemma add_binding_filter:
  "fm \<noteq> tm \<Longrightarrow> add_binding tm sy imps = Inr imps' \<Longrightarrow>
   filter (\<lambda>imp. moduleSpecifier imp = fm) imps' = filter (\<lambda>imp. moduleSpecifier imp = fm) imps"
  by (induction imps arbitrary: imps') (auto split: if_splits sum.splits)

lemma imports_name_from_filter:
  "(\<exists>imp \<in> set imps. imports_name_from fm sy imp) =
   (\<exists>imp \<in> set (filter (\<lambda>imp. moduleSpecifier imp = fm) imps).
      \<exists>ni \<in> set (namedImports imp). is_name ni = sy)"
  by (auto simp add: imports_name_from_def)

lemma add_binding_other:
  "fm \<noteq> tm \<Longrightarrow> add_binding tm sy imps = Inr imps' \<Longrightarrow>
   (\<exists>imp \<in> set imps'. imports_name_from fm sy' imp) =
   (\<exists>imp \<in> set imps. imports_name_from fm sy' imp)"
  by (simp only: imports_name_from_filter add_binding_filter)

lemma add_binding_throws:
  "(add_binding tm sy imps = Inl e) =
   (e = namespace_import_error \<and>
    (\<exists>imp. find (\<lambda>imp. moduleSpecifier imp = tm) imps = Some imp \<and> namespaceImport imp \<noteq> None))"
  by (induction imps) (auto split: sum.splits)

lemma binding_count_pos:
  "(\<exists>imp \<in> set imps. imports_name_from m sy imp) = (0 < binding_count m sy imps)"
  by (induction imps) (auto simp add: binding_count_def imports_name_from_def filter_empty_conv)

lemma remove_specifier_count:
  "\<exists>ni \<in> set nis. is_name ni = sy \<Longrightarrow>
   length (filter (\<lambda>ni. is_name ni = sy) (remove_specifier sy nis)) =
   length (filter (\<lambda>ni. is_name ni = sy) nis) - 1"
  by (induction nis) auto

lemma single_specifier:
  "length nis = 1 \<Longrightarrow> \<exists>ni \<in> set nis. is_name ni = sy \<Longrightarrow>
   length (filter (\<lambda>ni. is_name ni = sy) nis) = 1"
  by (cases nis) auto

lemma remove_binding_count:
  "\<exists>imp \<in> set imps. imports_name_from m sy imp \<Longrightarrow>
   binding_count m sy (remove_binding m sy imps) = binding_count m sy imps - 1"
proof (induction imps)
  case Nil
  then show ?case by simp
next
  case (Cons imp imps)
  show ?case
  proof (cases "imports_name_from m sy imp")
    case True
    then have ex: "\<exists>ni \<in> set (namedImports imp). is_name ni = sy" and md: "moduleSpecifier imp = m"
      by (simp_all add: imports_name_from_def)
    obtain k where pos: "length (filter (\<lambda>ni. is_name ni = sy) (namedImports imp)) = Suc k"
      using ex by (cases "filter (\<lambda>ni. is_name ni = sy) (namedImports imp)")
                  (auto simp add: filter_empty_conv)
    show ?thesis
    proof (cases "length (namedImports imp) = 1")
      case True
      with single_specifier [OF True ex] \<open>imports_name_from m sy imp\<close> md show ?thesis
        by (simp add: binding_count_def)
    next
      case False
      with remove_specifier_count [OF ex] \<open>imports_name_from m sy imp\<close> md show ?thesis
        by (simp add: binding_count_def pos)
    qed
  next
    case False
    with Cons.prems have "\<exists>imp \<in> set imps. imports_name_from m sy imp" by simp
    from Cons.IH [OF this] False binding_count_pos [of imps m sy] this show ?thesis
      by (auto simp add: binding_count_def imports_name_from_def)
  qed
qed

text \<open>
  When \<open>moveImport\<close> throws on a file: the file imports the symbol from the old module,
  and the declaration of the target module that \<open>addNamedImport\<close> is called on has a
  namespace import. The old binding is gone from the tree in memory by then; the file is
  not saved.
\<close>

lemma moveImport_file_throws:
  "(moveImport_file sy fm tm sf = Inl e) =
   (importable_from fm sy sf \<and> e = namespace_import_error \<and>
    (\<exists>imp. existingNewImport sy fm tm sf = Some imp \<and> namespaceImport imp \<noteq> None))"
proof (cases "importable_from fm sy sf")
  case False
  then show ?thesis by (simp add: moveImport_file_def importable_from_def)
next
  case True
  then have "(moveImport_file sy fm tm sf = Inl e) =
    (add_binding tm sy (remove_binding fm sy (sf_imports sf)) = Inl e)"
    by (simp add: moveImport_file_def importable_from_def split: sum.splits)
  with True show ?thesis
    by (simp only: add_binding_throws existingNewImport_def) simp
qed

lemma moveImport_namespace_target:
  "moveImport_file ''TransferState'' ''@angular/platform-browser'' ''@angular/core'' namespaceTarget =
     Inl namespace_import_error \<and>
   moveImport [namespaceTarget] ''TransferState'' ''@angular/platform-browser'' ''@angular/core''
       ctx d =
     (Inl namespace_import_error, d)"
  by (simp add: moveImport_def changes_only_def moveImport_file_def namespaceTarget_def
        imports_name_from_def)

text \<open>
  C5, as stated, fails: when the file binds the symbol twice from the old module, only
  the first specifier moves, and the symbol is importable from both modules afterwards.
\<close>

theorem move_import_both_modules_counterexample:
  "importable_from ''@angular/platform-browser'' ''TransferState'' twoBindings \<and>
   ''@angular/platform-browser'' \<noteq> ''@angular/core'' \<and>
   moveImport_file ''TransferState'' ''@angular/platform-browser'' ''@angular/core'' twoBindings =
     Inr (twoModules,
          [mk_change ''/app/src/state.service.ts''
             (''TransferState: '' @ quoted ''@angular/platform-browser'' @ '' -> '' @
              quoted ''@angular/core'')],
          [], True) \<and>
   importable_from ''@angular/platform-browser'' ''TransferState'' twoModules \<and>
   importable_from ''@angular/core'' ''TransferState'' twoModules"
  by (simp add: importable_from_def twoBindings_def twoModules_def moveImport_file_def
        imports_name_from_def)

text \<open>
  C5, amended. When \<open>moveImport\<close> has run on a file that imported the symbol from the
  old module, it has reported one change and the symbol is importable from the new
  module, also when the two modules are the same; it is no longer importable from the
  old module when the modules differ and the file bound the symbol from the old module
  once. Nothing is said of the file on which \<open>addNamedImport\<close> throws.
\<close>

theorem move_import_keeps_symbol:
  assumes "importable_from fm sy sf"
    and "moveImport_file sy fm tm sf = Inr (sf', cs, ws, ch)"
  shows "importable_from tm sy sf' \<and>
         (fm \<noteq> tm \<and> binding_count fm sy (sf_imports sf) = 1 \<longrightarrow> \<not> importable_from fm sy sf') \<and>
         filePath sf' = filePath sf \<and> sf_statements sf' = sf_statements sf \<and>
         cs = [mk_change (filePath sf) (sy @ '': '' @ quoted fm @ '' -> '' @ quoted tm)] \<and>
         ws = [] \<and> ch"
proof -
  from assms(1) have ex: "\<exists>imp \<in> set (sf_imports sf). imports_name_from fm sy imp"
    by (simp add: importable_from_def)
  obtain imps where ab: "add_binding tm sy (remove_binding fm sy (sf_imports sf)) = Inr imps"
  proof (cases "add_binding tm sy (remove_binding fm sy (sf_imports sf))")
    case (Inl e)
    with ex assms(2) show ?thesis by (simp add: moveImport_file_def)
  next
    case (Inr imps)
    then show ?thesis by (rule that)
  qed
  from ex ab assms(2) have sf': "sf' = sf\<lparr>sf_imports := imps\<rparr>"
    and rest: "cs = [mk_change (filePath sf) (sy @ '': '' @ quoted fm @ '' -> '' @ quoted tm)]"
      "ws = []" "ch"
    by (simp_all add: moveImport_file_def)
  from add_binding_importable [OF ab] sf' have a: "importable_from tm sy sf'"
    by (simp add: importable_from_def)
  have b: "fm \<noteq> tm \<and> binding_count fm sy (sf_imports sf) = 1 \<longrightarrow> \<not> importable_from fm sy sf'"
  proof
    assume h: "fm \<noteq> tm \<and> binding_count fm sy (sf_imports sf) = 1"
    from remove_binding_count [OF ex] h
    have "binding_count fm sy (remove_binding fm sy (sf_imports sf)) = 0" by simp
    then have "\<not> (\<exists>imp \<in> set (remove_binding fm sy (sf_imports sf)). imports_name_from fm sy imp)"
      by (simp add: binding_count_pos)
    with h add_binding_other [OF _ ab, of fm sy] sf' show "\<not> importable_from fm sy sf'"
      by (simp add: importable_from_def)
  qed
  from a b sf' rest show ?thesis by simp
qed

theorem move_import_keeps_symbol_witness:
  "importable_from ''@angular/platform-browser'' ''TransferState'' oneBinding \<and>
   binding_count ''@angular/platform-browser'' ''TransferState'' (sf_imports oneBinding) = 1 \<and>
   (\<exists>sf' cs.
      moveImport_file ''TransferState'' ''@angular/platform-browser'' ''@angular/core'' oneBinding =
        Inr (sf', cs, [], True) \<and>
      importable_from ''@angular/core'' ''TransferState'' sf' \<and>
      \<not> importable_from ''@angular/platform-browser'' ''TransferState'' sf') \<and>
   (\<exists>sf' cs.
      moveImport_file ''TransferState'' ''@angular/platform-browser'' ''@angular/platform-browser''
          oneBinding =
        Inr (sf', cs, [], True) \<and>
      importable_from ''@angular/platform-browser'' ''TransferState'' sf')"
proof -
  let ?pb = "''@angular/platform-browser''"
  have h: "importable_from ?pb ''TransferState'' oneBinding"
    by (simp add: importable_from_def oneBinding_def imports_name_from_def)
  have c: "binding_count ?pb ''TransferState'' (sf_imports oneBinding) = 1"
    by (simp add: binding_count_def oneBinding_def)
  have n: "?pb \<noteq> ''@angular/core''" by simp
  obtain sf1 cs1 where
    r1: "moveImport_file ''TransferState'' ?pb ''@angular/core'' oneBinding = Inr (sf1, cs1, [], True)"
    by (simp add: moveImport_file_def oneBinding_def imports_name_from_def)
  obtain sf2 cs2 where
    r2: "moveImport_file ''TransferState'' ?pb ?pb oneBinding = Inr (sf2, cs2, [], True)"
    by (simp add: moveImport_file_def oneBinding_def imports_name_from_def)
  from move_import_keeps_symbol [OF h r1] c n
  have a: "importable_from ''@angular/core'' ''TransferState'' sf1"
    and b: "\<not> importable_from ?pb ''TransferState'' sf1"
    by blast+
  from move_import_keeps_symbol [OF h r2]
  have e: "importable_from ?pb ''TransferState'' sf2"
    by blast
  from r1 a b have x: "\<exists>sf' cs.
      moveImport_file ''TransferState'' ?pb ''@angular/core'' oneBinding = Inr (sf', cs, [], True) \<and>
      importable_from ''@angular/core'' ''TransferState'' sf' \<and>
      \<not> importable_from ?pb ''TransferState'' sf'"
    by blast
  from r2 e have y: "\<exists>sf' cs.
      moveImport_file ''TransferState'' ?pb ?pb oneBinding = Inr (sf', cs, [], True) \<and>
      importable_from ?pb ''TransferState'' sf'"
    by blast
  from h c x y show ?thesis by (intro conjI)
qed

section \<open>Factory calls\<close>

lemma concat_singletons: "(\<forall>x \<in> set xs. f x = [x]) \<Longrightarrow> concat (map f xs) = xs"
  by (induction xs) simp_all

lemma without_resolver_free:
  assumes "\<forall>k \<in> set (ctor_of mb). \<forall>p \<in> set (ctor_params k). \<not> is_resolver_type (param_type p)"
    and "\<forall>p \<in> set (property_of mb). \<not> is_resolver_type (prop_type p)"
  shows "without_resolver mb = [mb]"
  using assms by (cases mb) (simp_all add: filter_id_conv)

lemma remove_resolver_members_free:
  assumes "\<forall>k \<in> set (cls_ctors c). \<forall>p \<in> set (ctor_params k). \<not> is_resolver_type (param_type p)"
    and "\<forall>p \<in> set (cls_properties c). \<not> is_resolver_type (prop_type p)"
  shows "remove_resolver_members fp c = (c, [], False)"
proof -
  have a: "concat (map without_resolver (cls_members c)) = cls_members c"
  proof (rule concat_singletons, rule ballI)
    fix mb assume "mb \<in> set (cls_members c)"
    with assms show "without_resolver mb = [mb]"
      by (intro without_resolver_free) (auto simp add: cls_ctors_def cls_properties_def)
  qed
  have c: "concat (map (\<lambda>k. filter (\<lambda>p. is_resolver_type (param_type p)) (ctor_params k)) (cls_ctors c)) = []"
    using assms(1) by (simp add: filter_empty_conv)
  have d: "filter (\<lambda>p. is_resolver_type (prop_type p)) (cls_properties c) = []"
    using assms(2) by (simp add: filter_empty_conv)
  show ?thesis by (simp add: remove_resolver_members_def Let_def a c d)
qed

lemma remove_resolver_classes_free:
  "(\<forall>c \<in> set (concat (map class_of ss)).
        (\<forall>k \<in> set (cls_ctors c). \<forall>p \<in> set (ctor_params k). \<not> is_resolver_type (param_type p)) \<and>
        (\<forall>p \<in> set (cls_properties c). \<not> is_resolver_type (prop_type p)))
   \<Longrightarrow> remove_resolver_classes fp ss = (ss, [], False)"
proof (induction ss)
  case Nil
  show ?case by simp
next
  case (Cons s ss)
  then show ?case by (cases s) (simp_all add: remove_resolver_members_free)
qed

lemma factory_warnings_single:
  assumes "filter (\<lambda>n. factory_arg n \<noteq> None) ns = [c]" and "factory_arg c = Some x"
  shows "factory_warnings fp ns =
     [mk_warning fp
        (''Found resolveComponentFactory('' @ getText x @
         '') - replace vcr.createComponent(factory) with vcr.createComponent('' @
         getText x @ '') manually or check auto-migration below.'')]"
proof -
  have "factory_warnings fp ns = factory_warnings fp (filter (\<lambda>n. factory_arg n \<noteq> None) ns)"
    unfolding factory_warnings_def by (induction ns) auto
  with assms show ?thesis by (simp add: factory_warnings_def)
qed

text \<open>Steps 1 and 2 in closed form.\<close>

lemma remove_resolver_classes_statements:
  "fst (remove_resolver_classes fp ss) =
     map (\<lambda>s. case s of
                ClassStatement c \<Rightarrow> ClassStatement (fst (remove_resolver_members fp c))
              | OtherStatement n \<Rightarrow> OtherStatement n) ss"
proof (induction ss)
  case Nil
  show ?case by simp
next
  case (Cons s ss)
  then show ?case by (cases s) (simp_all add: case_prod_beta Let_def)
qed

lemma remove_resolver_classes_warnings:
  "fst (snd (remove_resolver_classes fp ss)) =
     concat (map (\<lambda>c. fst (snd (remove_resolver_members fp c))) (concat (map class_of ss)))"
proof (induction ss)
  case Nil
  show ?case by simp
next
  case (Cons s ss)
  then show ?case by (cases s) (simp_all add: case_prod_beta Let_def)
qed

lemma without_resolver_classes:
  "sf_classes (without_resolver_members sf) =
     map (\<lambda>c. fst (remove_resolver_members (filePath sf) c)) (sf_classes sf)"
proof -
  have "\<And>ss. concat (map class_of (fst (remove_resolver_classes (filePath sf) ss))) =
      map (\<lambda>c. fst (remove_resolver_members (filePath sf) c)) (concat (map class_of ss))"
  proof -
    fix ss
    show "concat (map class_of (fst (remove_resolver_classes (filePath sf) ss))) =
      map (\<lambda>c. fst (remove_resolver_members (filePath sf) c)) (concat (map class_of ss))"
    proof (induction ss)
      case Nil
      show ?case by simp
    next
      case (Cons s ss)
      then show ?case by (cases s) (simp_all add: case_prod_beta Let_def)
    qed
  qed
  then show ?thesis by (simp add: without_resolver_members_def sf_classes_def)
qed

lemma without_resolver_others:
  "concat (map other_statement (sf_statements (without_resolver_members sf))) =
     concat (map other_statement (sf_statements sf))"
proof -
  have "\<And>ss. concat (map other_statement (fst (remove_resolver_classes (filePath sf) ss))) =
      concat (map other_statement ss)"
  proof -
    fix ss
    show "concat (map other_statement (fst (remove_resolver_classes (filePath sf) ss))) =
      concat (map other_statement ss)"
    proof (induction ss)
      case Nil
      show ?case by simp
    next
      case (Cons s ss)
      then show ?case by (cases s) (simp_all add: case_prod_beta Let_def)
    qed
  qed
  then show ?thesis by (simp add: without_resolver_members_def)
qed

lemma without_resolver_projections:
  "concat (map other_member (without_resolver mb)) = other_member mb"
  "map ctor_body (concat (map ctor_of (without_resolver mb))) = map ctor_body (ctor_of mb)"
  "map ctor_params (concat (map ctor_of (without_resolver mb))) =
     map (\<lambda>k. filter (\<lambda>p. \<not> is_resolver_type (param_type p)) (ctor_params k)) (ctor_of mb)"
  "concat (map property_of (without_resolver mb)) =
     filter (\<lambda>p. \<not> is_resolver_type (prop_type p)) (property_of mb)"
  by (cases mb; simp)+

lemma members_kept:
  "cls_name (fst (remove_resolver_members fp c)) = cls_name c"
  "cls_decorators (fst (remove_resolver_members fp c)) = cls_decorators c"
  "concat (map other_member (cls_members (fst (remove_resolver_members fp c)))) =
     concat (map other_member (cls_members c))"
  "map ctor_body (cls_ctors (fst (remove_resolver_members fp c))) = map ctor_body (cls_ctors c)"
  "map ctor_params (cls_ctors (fst (remove_resolver_members fp c))) =
     map (\<lambda>k. filter (\<lambda>p. \<not> is_resolver_type (param_type p)) (ctor_params k)) (cls_ctors c)"
  "cls_properties (fst (remove_resolver_members fp c)) =
     filter (\<lambda>p. \<not> is_resolver_type (prop_type p)) (cls_properties c)"
proof -
  show "cls_name (fst (remove_resolver_members fp c)) = cls_name c"
    and "cls_decorators (fst (remove_resolver_members fp c)) = cls_decorators c"
    by (simp_all add: remove_resolver_members_def Let_def)
  have m: "cls_members (fst (remove_resolver_members fp c)) =
             concat (map without_resolver (cls_members c))"
    by (simp add: remove_resolver_members_def Let_def)
  have w: "\<And>ms. concat (map other_member (concat (map without_resolver ms))) =
              concat (map other_member ms)"
  proof -
    fix ms show "concat (map other_member (concat (map without_resolver ms))) =
              concat (map other_member ms)"
      by (induction ms) (simp_all add: without_resolver_projections)
  qed
  show "concat (map other_member (cls_members (fst (remove_resolver_members fp c)))) =
     concat (map other_member (cls_members c))"
    by (simp add: m w)
  have x: "\<And>ms. map ctor_body (concat (map ctor_of (concat (map without_resolver ms)))) =
              map ctor_body (concat (map ctor_of ms))"
  proof -
    fix ms show "map ctor_body (concat (map ctor_of (concat (map without_resolver ms)))) =
              map ctor_body (concat (map ctor_of ms))"
      by (induction ms) (simp_all add: without_resolver_projections)
  qed
  show "map ctor_body (cls_ctors (fst (remove_resolver_members fp c))) = map ctor_body (cls_ctors c)"
    by (simp add: cls_ctors_def m x)
  have y: "\<And>ms. map ctor_params (concat (map ctor_of (concat (map without_resolver ms)))) =
     map (\<lambda>k. filter (\<lambda>p. \<not> is_resolver_type (param_type p)) (ctor_params k))
       (concat (map ctor_of ms))"
  proof -
    fix ms show "map ctor_params (concat (map ctor_of (concat (map without_resolver ms)))) =
     map (\<lambda>k. filter (\<lambda>p. \<not> is_resolver_type (param_type p)) (ctor_params k))
       (concat (map ctor_of ms))"
      by (induction ms) (simp_all add: without_resolver_projections)
  qed
  show "map ctor_params (cls_ctors (fst (remove_resolver_members fp c))) =
     map (\<lambda>k. filter (\<lambda>p. \<not> is_resolver_type (param_type p)) (ctor_params k)) (cls_ctors c)"
    by (simp add: cls_ctors_def m y)
  have z: "\<And>ms. concat (map property_of (concat (map without_resolver ms))) =
     filter (\<lambda>p. \<not> is_resolver_type (prop_type p)) (concat (map property_of ms))"
  proof -
    fix ms show "concat (map property_of (concat (map without_resolver ms))) =
     filter (\<lambda>p. \<not> is_resolver_type (prop_type p)) (concat (map property_of ms))"
      by (induction ms) (simp_all add: without_resolver_projections)
  qed
  show "cls_properties (fst (remove_resolver_members fp c)) =
     filter (\<lambda>p. \<not> is_resolver_type (prop_type p)) (cls_properties c)"
    by (simp add: cls_properties_def m z)
qed

lemma member_nodes_removed_subset:
  "set (concat (map member_nodes (without_resolver mb))) \<subseteq> set (member_nodes mb)"
  by (cases mb) (auto simp add: ctor_nodes_def)

lemma cls_nodes_removed_subset:
  "set (cls_nodes (fst (remove_resolver_members fp c))) \<subseteq> set (cls_nodes c)"
proof -
  have "\<And>ms. set (concat (map member_nodes (concat (map without_resolver ms)))) \<subseteq>
          set (concat (map member_nodes ms))"
  proof -
    fix ms show "set (concat (map member_nodes (concat (map without_resolver ms)))) \<subseteq>
          set (concat (map member_nodes ms))"
    proof (induction ms)
      case Nil
      show ?case by simp
    next
      case (Cons mb ms)
      from member_nodes_removed_subset [of mb] Cons.IH show ?case
        by (simp del: set_concat) blast
    qed
  qed
  from this [of "cls_members c"] show ?thesis
    by (simp add: remove_resolver_members_def Let_def cls_nodes_def del: set_concat) blast
qed

lemma sf_nodes_removed_subset:
  "set (sf_nodes (without_resolver_members sf)) \<subseteq> set (sf_nodes sf)"
proof -
  have "\<And>ss. set (concat (map statement_nodes (fst (remove_resolver_classes (filePath sf) ss)))) \<subseteq>
          set (concat (map statement_nodes ss))"
  proof -
    fix ss
    show "set (concat (map statement_nodes (fst (remove_resolver_classes (filePath sf) ss)))) \<subseteq>
          set (concat (map statement_nodes ss))"
    proof (induction ss)
      case Nil
      show ?case by simp
    next
      case (Cons s ss)
      then show ?case
        using cls_nodes_removed_subset [of "filePath sf"]
        by (cases s) (auto simp add: case_prod_beta Let_def)
    qed
  qed
  then show ?thesis by (simp add: without_resolver_members_def sf_nodes_def)
qed

lemma migrateComponentFactoryResolver_file_returns:
  assumes "\<not> (\<exists>n \<in> set (sf_nodes (without_resolver_members sf)). inlinable n)"
  shows "migrateComponentFactoryResolver_file sf =
     Inr (without_resolver_members sf, [],
          resolver_member_warnings sf @
          factory_warnings (filePath sf) (sf_nodes (without_resolver_members sf)),
          snd (snd (remove_resolver_classes (filePath sf) (sf_statements sf))))"
  using assms
  by (simp add: migrateComponentFactoryResolver_file_def Let_def case_prod_beta
        without_resolver_members_def resolver_member_warnings_def)

text \<open>
  On a file that has the directly nested shape after steps 1 and 2 the primitive throws:
  it returns no change and no warning, and the file is not saved.
\<close>

lemma migrateComponentFactoryResolver_file_throws:
  "(migrateComponentFactoryResolver_file sf = Inl e) =
   (e = forgotten_node_error \<and> (\<exists>n \<in> set (sf_nodes (without_resolver_members sf)). inlinable n))"
  by (auto simp add: migrateComponentFactoryResolver_file_def Let_def case_prod_beta
        without_resolver_members_def)

lemma nested_call_throws:
  "migrateComponentFactoryResolver_file nestedHost = Inl forgotten_node_error \<and>
   migrateComponentFactoryResolver [nestedHost] ctx d = (Inl forgotten_node_error, d)"
  by (simp add: migrateComponentFactoryResolver_def migrateComponentFactoryResolver_file_def
        nestedHost_def remove_resolver_members_def cls_ctors_def cls_properties_def sf_nodes_def
        cls_nodes_def)

lemma resolver_member_warnings_closed:
  "resolver_member_warnings sf =
     concat (map (\<lambda>c. map (\<lambda>p. mk_warning (filePath sf)
                               (''Removed ComponentFactoryResolver constructor param in '' @
                                class_label ''anonymous'' c @
                                ''. Verify resolveComponentFactory() usages are migrated.''))
                        (concat (map (\<lambda>k. filter (\<lambda>p. is_resolver_type (param_type p)) (ctor_params k))
                                   (cls_ctors c))))
               (sf_classes sf))"
  by (simp add: resolver_member_warnings_def remove_resolver_classes_warnings sf_classes_def
        remove_resolver_members_def Let_def)

lemma factory_warnings_length:
  "length (factory_warnings fp ns) = length (filter (\<lambda>n. factory_arg n \<noteq> None) ns)"
  unfolding factory_warnings_def by (induction ns) auto

text \<open>
  C9, as stated, fails on the pattern of the comment above the function (the resolver
  injected through the constructor, the factory kept in a variable): the primitive
  pushes two warnings, one for the removed constructor parameter and one for the call,
  and it edits the file, which loses the parameter.
\<close>

theorem factory_two_warnings_counterexample:
  "migrateComponentFactoryResolver_file injectedHost =
     Inr (without_resolver_members injectedHost, [],
          [mk_warning ''/app/src/host.component.ts''
             ''Removed ComponentFactoryResolver constructor param in HostComponent. Verify resolveComponentFactory() usages are migrated.'',
           mk_warning ''/app/src/host.component.ts''
             ''Found resolveComponentFactory(CardComponent) - replace vcr.createComponent(factory) with vcr.createComponent(CardComponent) manually or check auto-migration below.''],
          True) \<and>
   without_resolver_members injectedHost \<noteq> injectedHost"
  by (simp add: migrateComponentFactoryResolver_file_def without_resolver_members_def
        injectedHost_def show_method_def remove_resolver_members_def is_resolver_type_def
        class_label_def cls_ctors_def cls_properties_def sf_nodes_def cls_nodes_def ctor_nodes_def
        opt_nodes_def factory_warnings_def mk_warning_def Let_def)

text \<open>
  C9, amended. On a file without the directly nested shape (for one, a file where the
  result of \<open>resolveComponentFactory\<close> goes to a variable that is passed to
  \<open>createComponent\<close> later) the primitive reports no change and rewrites no call: the
  file it returns differs from the one it got only by the constructor parameters and the
  fields of type \<open>ComponentFactoryResolver\<close>, which are gone; names, decorators,
  constructor bodies, the other members and the other statements are as they were. Its
  warnings are one for each removed constructor parameter, followed by one for each call
  \<open>y.resolveComponentFactory(X)\<close> with one argument. So a single such call gives
  exactly one warning and an untouched file when no constructor parameter or field has
  the resolver type, and one warning after those of the removed parameters otherwise.
  Nothing is said of a file with the directly nested shape.
\<close>

theorem factory_via_variable_is_warned:
  assumes "\<not> (\<exists>n \<in> set (sf_nodes sf). inlinable n)"
  shows "(\<exists>ch. migrateComponentFactoryResolver_file sf =
            Inr (without_resolver_members sf, [],
                 resolver_member_warnings sf @
                 factory_warnings (filePath sf) (sf_nodes (without_resolver_members sf)),
                 ch)) \<and>
     filePath (without_resolver_members sf) = filePath sf \<and>
     sf_imports (without_resolver_members sf) = sf_imports sf \<and>
     concat (map other_statement (sf_statements (without_resolver_members sf))) =
       concat (map other_statement (sf_statements sf)) \<and>
     map cls_name (sf_classes (without_resolver_members sf)) = map cls_name (sf_classes sf) \<and>
     map cls_decorators (sf_classes (without_resolver_members sf)) =
       map cls_decorators (sf_classes sf) \<and>
     map (\<lambda>c. concat (map other_member (cls_members c))) (sf_classes (without_resolver_members sf)) =
       map (\<lambda>c. concat (map other_member (cls_members c))) (sf_classes sf) \<and>
     map (\<lambda>c. map ctor_body (cls_ctors c)) (sf_classes (without_resolver_members sf)) =
       map (\<lambda>c. map ctor_body (cls_ctors c)) (sf_classes sf) \<and>
     map (\<lambda>c. map ctor_params (cls_ctors c)) (sf_classes (without_resolver_members sf)) =
       map (\<lambda>c. map (\<lambda>k. filter (\<lambda>p. \<not> is_resolver_type (param_type p)) (ctor_params k))
                   (cls_ctors c))
         (sf_classes sf) \<and>
     map cls_properties (sf_classes (without_resolver_members sf)) =
       map (\<lambda>c. filter (\<lambda>p. \<not> is_resolver_type (prop_type p)) (cls_properties c)) (sf_classes sf) \<and>
     resolver_member_warnings sf =
       concat (map (\<lambda>c. map (\<lambda>p. mk_warning (filePath sf)
                                 (''Removed ComponentFactoryResolver constructor param in '' @
                                  class_label ''anonymous'' c @
                                  ''. Verify resolveComponentFactory() usages are migrated.''))
                          (concat (map (\<lambda>k. filter (\<lambda>p. is_resolver_type (param_type p))
                                               (ctor_params k))
                                     (cls_ctors c))))
                 (sf_classes sf)) \<and>
     length (factory_warnings (filePath sf) (sf_nodes (without_resolver_members sf))) =
       length (filter (\<lambda>n. factory_arg n \<noteq> None) (sf_nodes (without_resolver_members sf))) \<and>
     (no_resolver_members sf \<and>
      filter (\<lambda>n. factory_arg n \<noteq> None) (sf_nodes sf) = [c] \<and> factory_arg c = Some x
      \<longrightarrow> migrateComponentFactoryResolver_file sf =
            Inr (sf, [],
                 [mk_warning (filePath sf)
                    (''Found resolveComponentFactory('' @ getText x @
                     '') - replace vcr.createComponent(factory) with vcr.createComponent('' @
                     getText x @ '') manually or check auto-migration below.'')],
                 False)) \<and>
     (filter (\<lambda>n. factory_arg n \<noteq> None) (sf_nodes (without_resolver_members sf)) = [c] \<and>
      factory_arg c = Some x
      \<longrightarrow> (\<exists>ch. migrateComponentFactoryResolver_file sf =
                 Inr (without_resolver_members sf, [],
                      resolver_member_warnings sf @
                      [mk_warning (filePath sf)
                         (''Found resolveComponentFactory('' @ getText x @
                          '') - replace vcr.createComponent(factory) with vcr.createComponent('' @
                          getText x @ '') manually or check auto-migration below.'')],
                      ch)))"
proof -
  let ?sf1 = "without_resolver_members sf"
  let ?w = "mk_warning (filePath sf)
              (''Found resolveComponentFactory('' @ getText x @
               '') - replace vcr.createComponent(factory) with vcr.createComponent('' @
               getText x @ '') manually or check auto-migration below.'')"
  have k: "\<not> (\<exists>n \<in> set (sf_nodes ?sf1). inlinable n)"
    using assms sf_nodes_removed_subset [of sf] by auto
  note r = migrateComponentFactoryResolver_file_returns [OF k]
  have c1: "\<exists>ch. migrateComponentFactoryResolver_file sf =
            Inr (?sf1, [],
                 resolver_member_warnings sf @ factory_warnings (filePath sf) (sf_nodes ?sf1), ch)"
    using r by simp
  have c2: "filePath ?sf1 = filePath sf" "sf_imports ?sf1 = sf_imports sf"
    by (simp_all add: without_resolver_members_def)
  note c3 = without_resolver_others [of sf]
  have c4: "map cls_name (sf_classes ?sf1) = map cls_name (sf_classes sf)"
    "map cls_decorators (sf_classes ?sf1) = map cls_decorators (sf_classes sf)"
    "map (\<lambda>c. concat (map other_member (cls_members c))) (sf_classes ?sf1) =
       map (\<lambda>c. concat (map other_member (cls_members c))) (sf_classes sf)"
    "map (\<lambda>c. map ctor_body (cls_ctors c)) (sf_classes ?sf1) =
       map (\<lambda>c. map ctor_body (cls_ctors c)) (sf_classes sf)"
    "map (\<lambda>c. map ctor_params (cls_ctors c)) (sf_classes ?sf1) =
       map (\<lambda>c. map (\<lambda>k. filter (\<lambda>p. \<not> is_resolver_type (param_type p)) (ctor_params k))
                   (cls_ctors c))
         (sf_classes sf)"
    "map cls_properties (sf_classes ?sf1) =
       map (\<lambda>c. filter (\<lambda>p. \<not> is_resolver_type (prop_type p)) (cls_properties c)) (sf_classes sf)"
    by (simp_all add: without_resolver_classes comp_def members_kept)
  note c5 = resolver_member_warnings_closed [of sf]
  note c6 = factory_warnings_length [of "filePath sf" "sf_nodes ?sf1"]
  have c7: "no_resolver_members sf \<and>
      filter (\<lambda>n. factory_arg n \<noteq> None) (sf_nodes sf) = [c] \<and> factory_arg c = Some x
      \<longrightarrow> migrateComponentFactoryResolver_file sf = Inr (sf, [], [?w], False)"
  proof
    assume h: "no_resolver_members sf \<and>
      filter (\<lambda>n. factory_arg n \<noteq> None) (sf_nodes sf) = [c] \<and> factory_arg c = Some x"
    then have rr: "remove_resolver_classes (filePath sf) (sf_statements sf) = (sf_statements sf, [], False)"
      by (intro remove_resolver_classes_free) (simp add: no_resolver_members_def sf_classes_def)
    then have same: "?sf1 = sf" and nw: "resolver_member_warnings sf = []"
      by (simp_all add: without_resolver_members_def resolver_member_warnings_def)
    from h have h1: "filter (\<lambda>n. factory_arg n \<noteq> None) (sf_nodes sf) = [c]"
      and h2: "factory_arg c = Some x" by blast+
    have w: "factory_warnings (filePath sf) (sf_nodes sf) = [?w]"
      by (rule factory_warnings_single [OF h1 h2])
    from r show "migrateComponentFactoryResolver_file sf = Inr (sf, [], [?w], False)"
      by (simp add: same nw w rr)
  qed
  have c8: "filter (\<lambda>n. factory_arg n \<noteq> None) (sf_nodes ?sf1) = [c] \<and> factory_arg c = Some x
      \<longrightarrow> (\<exists>ch. migrateComponentFactoryResolver_file sf =
                 Inr (?sf1, [], resolver_member_warnings sf @ [?w], ch))"
  proof
    assume h: "filter (\<lambda>n. factory_arg n \<noteq> None) (sf_nodes ?sf1) = [c] \<and> factory_arg c = Some x"
    then have h1: "filter (\<lambda>n. factory_arg n \<noteq> None) (sf_nodes ?sf1) = [c]"
      and h2: "factory_arg c = Some x" by blast+
    from r factory_warnings_single [OF h1 h2, of "filePath sf"]
    show "\<exists>ch. migrateComponentFactoryResolver_file sf =
                 Inr (?sf1, [], resolver_member_warnings sf @ [?w], ch)"
      by simp
  qed
  from c1 c2 c3 c4 c5 c6 c7 c8 show ?thesis by (intro conjI)
qed

theorem factory_via_variable_is_warned_witness:
  "\<not> (\<exists>n \<in> set (sf_nodes factoryHost). inlinable n) \<and>
   no_resolver_members factoryHost \<and>
   migrateComponentFactoryResolver_file factoryHost =
     Inr (factoryHost, [],
          [mk_warning ''/app/src/host.component.ts''
             ''Found resolveComponentFactory(CardComponent) - replace vcr.createComponent(factory) with vcr.createComponent(CardComponent) manually or check auto-migration below.''],
          False) \<and>
   \<not> (\<exists>n \<in> set (sf_nodes injectedHost). inlinable n) \<and>
   (\<exists>ch. migrateComponentFactoryResolver_file injectedHost =
      Inr (without_resolver_members injectedHost, [],
           [mk_warning ''/app/src/host.component.ts''
              ''Removed ComponentFactoryResolver constructor param in HostComponent. Verify resolveComponentFactory() usages are migrated.'',
            mk_warning ''/app/src/host.component.ts''
              ''Found resolveComponentFactory(CardComponent) - replace vcr.createComponent(factory) with vcr.createComponent(CardComponent) manually or check auto-migration below.''],
           ch))"
proof -
  let ?call = "CallExpression
                 (PropertyAccessExpression
                    (PropertyAccessExpression (Identifier ''this'') ''resolver'')
                    ''resolveComponentFactory'')
                 [Identifier ''CardComponent'']"
  let ?x = "Identifier ''CardComponent''"
  have h0: "\<not> (\<exists>n \<in> set (sf_nodes factoryHost). inlinable n)"
    by (simp add: factoryHost_def show_method_def sf_nodes_def cls_nodes_def)
  have h1: "no_resolver_members factoryHost"
    by (simp add: factoryHost_def no_resolver_members_def sf_classes_def cls_ctors_def
          cls_properties_def)
  have h2: "filter (\<lambda>n. factory_arg n \<noteq> None) (sf_nodes factoryHost) = [?call]"
    by (simp add: factoryHost_def show_method_def sf_nodes_def cls_nodes_def)
  have h3: "factory_arg ?call = Some ?x" by simp
  have fp: "filePath factoryHost = ''/app/src/host.component.ts''" by (simp add: factoryHost_def)
  from factory_via_variable_is_warned [OF h0, of ?call ?x] h1 h2 h3
  have "migrateComponentFactoryResolver_file factoryHost =
     Inr (factoryHost, [],
          [mk_warning (filePath factoryHost)
             (''Found resolveComponentFactory('' @ getText ?x @
              '') - replace vcr.createComponent(factory) with vcr.createComponent('' @
              getText ?x @ '') manually or check auto-migration below.'')],
          False)"
    by blast
  then have a: "migrateComponentFactoryResolver_file factoryHost =
     Inr (factoryHost, [],
          [mk_warning ''/app/src/host.component.ts''
             ''Found resolveComponentFactory(CardComponent) - replace vcr.createComponent(factory) with vcr.createComponent(CardComponent) manually or check auto-migration below.''],
          False)"
    by (simp add: fp)
  have g0: "\<not> (\<exists>n \<in> set (sf_nodes injectedHost). inlinable n)"
    by (simp add: injectedHost_def show_method_def sf_nodes_def cls_nodes_def ctor_nodes_def
          opt_nodes_def)
  have g1: "filter (\<lambda>n. factory_arg n \<noteq> None) (sf_nodes (without_resolver_members injectedHost)) =
              [?call]"
    by (simp add: injectedHost_def show_method_def without_resolver_members_def
          remove_resolver_members_def is_resolver_type_def sf_nodes_def cls_nodes_def ctor_nodes_def
          opt_nodes_def cls_ctors_def cls_properties_def Let_def)
  have g3: "resolver_member_warnings injectedHost =
     [mk_warning ''/app/src/host.component.ts''
        ''Removed ComponentFactoryResolver constructor param in HostComponent. Verify resolveComponentFactory() usages are migrated.'']"
    by (simp add: injectedHost_def resolver_member_warnings_def remove_resolver_members_def
          is_resolver_type_def class_label_def cls_ctors_def cls_properties_def Let_def)
  have gp: "filePath injectedHost = ''/app/src/host.component.ts''" by (simp add: injectedHost_def)
  from factory_via_variable_is_warned [OF g0, of ?call ?x] g1 h3
  have "\<exists>ch. migrateComponentFactoryResolver_file injectedHost =
      Inr (without_resolver_members injectedHost, [],
           resolver_member_warnings injectedHost @
           [mk_warning (filePath injectedHost)
              (''Found resolveComponentFactory('' @ getText ?x @
               '') - replace vcr.createComponent(factory) with vcr.createComponent('' @
               getText ?x @ '') manually or check auto-migration below.'')],
           ch)"
    by blast
  then have b: "\<exists>ch. migrateComponentFactoryResolver_file injectedHost =
      Inr (without_resolver_members injectedHost, [],
           [mk_warning ''/app/src/host.component.ts''
              ''Removed ComponentFactoryResolver constructor param in HostComponent. Verify resolveComponentFactory() usages are migrated.'',
            mk_warning ''/app/src/host.component.ts''
              ''Found resolveComponentFactory(CardComponent) - replace vcr.createComponent(factory) with vcr.createComponent(CardComponent) manually or check auto-migration below.''],
           ch)"
    by (simp add: g3 gp)
  from h0 h1 a g0 b show ?thesis by (intro conjI)
qed

section \<open>Inserting standalone: false\<close>

text \<open>
  C7. The guard of \<open>addStandaloneFalse\<close> looks for a property assignment named
  \<open>standalone\<close>. A literal that sets the property in shorthand form passes the guard:
  \<open>standalone: false\<close> is inserted in front of the property that is there already, and a
  change is reported.
\<close>

theorem standalone_inserted_beside_shorthand:
  "concat (map (\<lambda>c. concat (map dec_args (cls_decorators c)))
             (sf_classes (fst (addStandaloneFalse_file shorthandComponent)))) =
     [ObjectLiteralExpression
        [PropertyAssignment ''standalone'' (OtherNode ''false'' []),
         ShorthandPropertyAssignment ''standalone'',
         PropertyAssignment ''selector'' (StringLiteral ''app-card'')]] \<and>
   length (fst (snd (addStandaloneFalse_file shorthandComponent))) = 1"
  by (simp add: shorthandComponent_def addStandaloneFalse_file_def add_standalone_class_def
        add_standalone_def standalone_decorators_def standalone_false_def sf_classes_def)

end
